theory Spec2Isabelle
  imports Complex_Main
begin

section \<open>Numbers, vectors and the player\<close>

text \<open>
  A JavaScript number is a double. In the first part of this theory numbers are exact
  reals (no rounding, no NaN, no infinities), which is what the doubles of the source
  are as long as every result is a double itself; the section on double-precision
  arithmetic below models the rounding, for the statements that it decides. Numbers
  that the source only ever produces with \<open>Math.floor\<close>, \<open>Math.ceil\<close> or an integer
  loop counter are integers. A \<open>THREE.Vector3\<close> is a record of its three components.
\<close>

record Vector3 =
  vx :: real
  vy :: real
  vz :: real

text \<open>
  The part of \<open>Player\<close> (src/script/player.js) that the world and the physics read and
  write. \<open>position\<close> is the camera position; \<open>isLocked\<close> is \<open>controls.isLocked\<close>;
  \<open>rotation_y\<close> is \<open>camera.rotation.y\<close>; \<open>matrix_column0\<close> is the first column of
  \<open>camera.matrix\<close>, which \<open>PointerLockControls.moveRight\<close> and \<open>moveForward\<close> read.
\<close>

record Player =
  radius :: real
  height :: real
  onGround :: bool
  input :: Vector3
  velocity :: Vector3
  position :: Vector3
  isLocked :: bool
  rotation_y :: real
  matrix_column0 :: Vector3

section \<open>The world (src/script/world.js)\<close>

text \<open>
  A block as \<open>World.getBlock\<close> returns it: \<open>{id, instanceId}\<close>; \<open>instanceId\<close> is
  \<open>null\<close> for a block without a mesh instance.
\<close>

record block =
  block_id :: nat
  instanceId :: "nat option"

text \<open>
  A \<open>WorldChunk\<close> as the world sees it: the coordinates the world stores in
  \<open>userData\<close>, the position it sets, the \<open>loaded\<close> flag it reads, and the chunk's own
  state (voxel data and mesh instances), of a type \<open>'c\<close> the world never looks into.
\<close>

record 'c WorldChunk =
  userData :: "int \<times> int"
  chunk_position :: Vector3
  loaded :: bool
  body :: 'c

text \<open>
  The class \<open>WorldChunk\<close> (worldChunk.js) and the constant \<open>blocks.empty.id\<close>
  (blocks.js) are not among the sources. Every definition below takes them as a
  parameter: a record with one field per constructor, method or constant that the world
  and the physics use. The constructor gets the chunk width and the store (the
  generation parameters are held fixed). A method that may write gets the chunk and the
  shared \<open>DataStore\<close> (type \<open>'d\<close>) and returns the chunk's new state and the new store; a
  query returns its answer. A \<open>null\<close> result is \<open>None\<close>.
\<close>

record ('c, 'd) WorldChunkClass =
  construct :: "real \<Rightarrow> 'd \<Rightarrow> 'c"
  chunk_generate :: "'c WorldChunk \<Rightarrow> 'd \<Rightarrow> 'c \<times> 'd"
  chunk_getBlock :: "'c WorldChunk \<Rightarrow> real \<Rightarrow> real \<Rightarrow> real \<Rightarrow> block option"
  chunk_addBlock :: "real \<Rightarrow> real \<Rightarrow> real \<Rightarrow> nat \<Rightarrow> 'c WorldChunk \<Rightarrow> 'd \<Rightarrow> 'c \<times> 'd"
  chunk_removeBlock :: "real \<Rightarrow> real \<Rightarrow> real \<Rightarrow> 'c WorldChunk \<Rightarrow> 'd \<Rightarrow> 'c \<times> 'd"
  chunk_isBlockObscured :: "'c WorldChunk \<Rightarrow> real \<Rightarrow> real \<Rightarrow> real \<Rightarrow> bool"
  chunk_addBlockInstance :: "real \<Rightarrow> real \<Rightarrow> real \<Rightarrow> 'c WorldChunk \<Rightarrow> 'd \<Rightarrow> 'c \<times> 'd"
  chunk_deleteBlockInstance :: "real \<Rightarrow> real \<Rightarrow> real \<Rightarrow> 'c WorldChunk \<Rightarrow> 'd \<Rightarrow> 'c \<times> 'd"
  chunk_disposeInstances :: "'c WorldChunk \<Rightarrow> 'd \<Rightarrow> 'c \<times> 'd"
  blocks_empty_id :: nat

text \<open>
  The state of a \<open>World\<close>: its fields, its children (the chunks, in the order of
  \<open>THREE.Group.children\<close>), and the host's queue of idle callbacks: the coordinates of
  the chunks whose \<open>generate\<close> was handed to \<open>requestIdleCallback\<close> and has not run.
\<close>

record ('c, 'd) World =
  asyncLoading :: bool
  dataStore :: 'd
  drawDistance :: int
  chunkSize_width :: real
  children :: "'c WorldChunk list"
  idleCallbacks :: "(int \<times> int) list"

text \<open>The result of \<open>worldToChunkCoords\<close>: \<open>{chunk: {x, z}, block: {x, y, z}}\<close>.\<close>

record ChunkCoords =
  chunk :: "int \<times> int"
  block :: Vector3

definition worldToChunkCoords :: "('c, 'd) World \<Rightarrow> real \<Rightarrow> real \<Rightarrow> real \<Rightarrow> ChunkCoords" where
  "worldToChunkCoords w x y z =
     (let chunkCoords = (\<lfloor>x / chunkSize_width w\<rfloor>, \<lfloor>z / chunkSize_width w\<rfloor>);
          blockCoords = \<lparr>vx = x - chunkSize_width w * of_int (fst chunkCoords),
                         vy = y,
                         vz = z - chunkSize_width w * of_int (snd chunkCoords)\<rparr>
      in \<lparr>chunk = chunkCoords, block = blockCoords\<rparr>)"

text \<open>\<open>getChunk\<close>: the first child with the given coordinates, \<open>undefined\<close> as \<open>None\<close>.\<close>

definition getChunk :: "('c, 'd) World \<Rightarrow> int \<Rightarrow> int \<Rightarrow> 'c WorldChunk option" where
  "getChunk w chunkX chunkZ =
     find (\<lambda>c. fst (userData c) = chunkX \<and> snd (userData c) = chunkZ) (children w)"

definition World_getBlock ::
  "('c, 'd) WorldChunkClass \<Rightarrow> ('c, 'd) World \<Rightarrow> real \<Rightarrow> real \<Rightarrow> real \<Rightarrow> block option" where
  "World_getBlock cls w x y z =
     (let coords = worldToChunkCoords w x y z in
      case getChunk w (fst (chunk coords)) (snd (chunk coords)) of
        Some c \<Rightarrow>
          if loaded c
          then chunk_getBlock cls c (vx (block coords)) (vy (block coords)) (vz (block coords))
          else None
      | None \<Rightarrow> None)"

text \<open>
  Modelled from the spec: the constructor of \<open>WorldChunk\<close> and the effect of
  \<open>generate\<close> on the \<open>loaded\<close> flag (worldChunk.js is not among the sources). A chunk
  is created empty by the world and reports itself as not loaded until its generation
  has run; generation leaves it loaded.
\<close>

definition new_WorldChunk :: "('c, 'd) WorldChunkClass \<Rightarrow> real \<Rightarrow> 'd \<Rightarrow> 'c WorldChunk" where
  "new_WorldChunk cls width store =
     \<lparr>userData = (0, 0), chunk_position = \<lparr>vx = 0, vy = 0, vz = 0\<rparr>, loaded = False,
      body = construct cls width store\<rparr>"

definition WorldChunk_generate ::
  "('c, 'd) WorldChunkClass \<Rightarrow> 'c WorldChunk \<Rightarrow> 'd \<Rightarrow> 'c WorldChunk \<times> 'd" where
  "WorldChunk_generate cls c store =
     (let (b, store') = chunk_generate cls c store in (c\<lparr>loaded := True, body := b\<rparr>, store'))"

text \<open>
  A method call on a chunk that is a child of the world. JavaScript mutates the chunk
  object in place; here the first child with the chunk's coordinates (the one
  \<open>getChunk\<close> returned) gets the new state, and the world the new store.
\<close>

fun setBody :: "int \<times> int \<Rightarrow> 'c \<Rightarrow> 'c WorldChunk list \<Rightarrow> 'c WorldChunk list" where
  "setBody k b [] = []"
| "setBody k b (c # cs) = (if userData c = k then c\<lparr>body := b\<rparr> # cs else c # setBody k b cs)"

definition invoke ::
  "('c WorldChunk \<Rightarrow> 'd \<Rightarrow> 'c \<times> 'd) \<Rightarrow> 'c WorldChunk \<Rightarrow> ('c, 'd) World \<Rightarrow> ('c, 'd) World" where
  "invoke m c w =
     (let (b, store') = m c (dataStore w)
      in w\<lparr>dataStore := store', children := setBody (userData c) b (children w)\<rparr>)"

subsection \<open>Streaming: \<open>World.update\<close>\<close>

definition getVisibleChunks :: "('c, 'd) World \<Rightarrow> Player \<Rightarrow> (int \<times> int) list" where
  "getVisibleChunks w player =
     (let coords = worldToChunkCoords w (vx (position player)) (vy (position player))
                     (vz (position player));
          chunkX = fst (chunk coords);
          chunkZ = snd (chunk coords)
      in concat (map (\<lambda>x. map (\<lambda>z. (x, z)) [chunkZ - drawDistance w .. chunkZ + drawDistance w])
                     [chunkX - drawDistance w .. chunkX + drawDistance w]))"

definition getChunksToAdd :: "('c, 'd) World \<Rightarrow> (int \<times> int) list \<Rightarrow> (int \<times> int) list" where
  "getChunksToAdd w visibleChunks =
     filter (\<lambda>c. let chunkExists = find (\<lambda>u. fst c = fst u \<and> snd c = snd u)
                                          (map userData (children w))
                  in chunkExists = None)
            visibleChunks"

text \<open>
  \<open>THREE.Group.remove\<close> takes the object out of \<open>children\<close> (here the first child
  equal to it: children that are equal as values cannot be told apart); \<open>add\<close> pushes
  it at the end.
\<close>

definition removeUnusedChunks ::
  "('c, 'd) WorldChunkClass \<Rightarrow> ('c, 'd) World \<Rightarrow> (int \<times> int) list \<Rightarrow> ('c, 'd) World" where
  "removeUnusedChunks cls w visibleChunks =
     (let chunksToRemove =
            filter (\<lambda>c. let chunkExists = find (\<lambda>v. fst v = fst (userData c)
                                                    \<and> snd v = snd (userData c)) visibleChunks
                        in chunkExists = None)
                   (children w)
      in fold (\<lambda>c w'. let (b, store') = chunk_disposeInstances cls c (dataStore w')
                       in w'\<lparr>dataStore := store', children := remove1 c (children w')\<rparr>)
              chunksToRemove w)"

definition generateChunk ::
  "('c, 'd) WorldChunkClass \<Rightarrow> int \<Rightarrow> int \<Rightarrow> ('c, 'd) World \<Rightarrow> ('c, 'd) World" where
  "generateChunk cls x z w =
     (let c = (new_WorldChunk cls (chunkSize_width w) (dataStore w))
                \<lparr>chunk_position := \<lparr>vx = of_int x * chunkSize_width w, vy = 0,
                                      vz = of_int z * chunkSize_width w\<rparr>,
                 userData := (x, z)\<rparr>
      in if asyncLoading w
         then w\<lparr>idleCallbacks := idleCallbacks w @ [(x, z)], children := children w @ [c]\<rparr>
         else (let (c', store') = WorldChunk_generate cls c (dataStore w)
               in w\<lparr>dataStore := store', children := children w @ [c']\<rparr>))"

definition World_update ::
  "('c, 'd) WorldChunkClass \<Rightarrow> ('c, 'd) World \<Rightarrow> Player \<Rightarrow> ('c, 'd) World" where
  "World_update cls w player =
     (let visibleChunks = getVisibleChunks w player;
          chunksToAdd = getChunksToAdd w visibleChunks;
          w' = removeUnusedChunks cls w visibleChunks
      in fold (\<lambda>c. generateChunk cls (fst c) (snd c)) chunksToAdd w')"

subsection \<open>Editing: \<open>World.addBlock\<close> and \<open>World.removeBlock\<close>\<close>

definition revealBlock ::
  "('c, 'd) WorldChunkClass \<Rightarrow> real \<Rightarrow> real \<Rightarrow> real \<Rightarrow> ('c, 'd) World \<Rightarrow> ('c, 'd) World" where
  "revealBlock cls x y z w =
     (let coords = worldToChunkCoords w x y z in
      case getChunk w (fst (chunk coords)) (snd (chunk coords)) of
        Some c \<Rightarrow>
          invoke (chunk_addBlockInstance cls (vx (block coords)) (vy (block coords))
                    (vz (block coords))) c w
      | None \<Rightarrow> w)"

definition hideBlock ::
  "('c, 'd) WorldChunkClass \<Rightarrow> real \<Rightarrow> real \<Rightarrow> real \<Rightarrow> ('c, 'd) World \<Rightarrow> ('c, 'd) World" where
  "hideBlock cls x y z w =
     (let coords = worldToChunkCoords w x y z in
      case getChunk w (fst (chunk coords)) (snd (chunk coords)) of
        Some c \<Rightarrow>
          if chunk_isBlockObscured cls c (vx (block coords)) (vy (block coords))
               (vz (block coords))
          then invoke (chunk_deleteBlockInstance cls (vx (block coords)) (vy (block coords))
                         (vz (block coords))) c w
          else w
      | None \<Rightarrow> w)"

definition World_addBlock ::
  "('c, 'd) WorldChunkClass \<Rightarrow> real \<Rightarrow> real \<Rightarrow> real \<Rightarrow> nat \<Rightarrow> ('c, 'd) World \<Rightarrow> ('c, 'd) World" where
  "World_addBlock cls x y z blockId w =
     (let coords = worldToChunkCoords w x y z in
      case getChunk w (fst (chunk coords)) (snd (chunk coords)) of
        Some c \<Rightarrow>
          (let w1 = invoke (chunk_addBlock cls (vx (block coords)) (vy (block coords))
                              (vz (block coords)) blockId) c w;
               w2 = hideBlock cls (x - 1) y z w1;
               w3 = hideBlock cls (x + 1) y z w2;
               w4 = hideBlock cls x (y - 1) z w3;
               w5 = hideBlock cls x (y + 1) z w4;
               w6 = hideBlock cls x y (z - 1) w5
           in hideBlock cls x y (z + 1) w6)
      | None \<Rightarrow> w)"

definition World_removeBlock ::
  "('c, 'd) WorldChunkClass \<Rightarrow> real \<Rightarrow> real \<Rightarrow> real \<Rightarrow> ('c, 'd) World \<Rightarrow> ('c, 'd) World" where
  "World_removeBlock cls x y z w =
     (let coords = worldToChunkCoords w x y z in
      case getChunk w (fst (chunk coords)) (snd (chunk coords)) of
        Some c \<Rightarrow>
          (let w1 = invoke (chunk_removeBlock cls (vx (block coords)) (vy (block coords))
                              (vz (block coords))) c w;
               w2 = revealBlock cls (x - 1) y z w1;
               w3 = revealBlock cls (x + 1) y z w2;
               w4 = revealBlock cls x (y - 1) z w3;
               w5 = revealBlock cls x (y + 1) z w4;
               w6 = revealBlock cls x y (z - 1) w5
           in revealBlock cls x y (z + 1) w6)
      | None \<Rightarrow> w)"

section \<open>The physics (class Physics, src/unnamed/part_001)\<close>

subsection \<open>Vector operations of THREE.Vector3\<close>

definition multiplyScalar :: "Vector3 \<Rightarrow> real \<Rightarrow> Vector3" where
  "multiplyScalar v s = \<lparr>vx = vx v * s, vy = vy v * s, vz = vz v * s\<rparr>"

definition add :: "Vector3 \<Rightarrow> Vector3 \<Rightarrow> Vector3" where
  "add a b = \<lparr>vx = vx a + vx b, vy = vy a + vy b, vz = vz a + vz b\<rparr>"

definition dot :: "Vector3 \<Rightarrow> Vector3 \<Rightarrow> real" where
  "dot a b = vx a * vx b + vy a * vy b + vz a * vz b"

definition negate :: "Vector3 \<Rightarrow> Vector3" where
  "negate v = \<lparr>vx = - vx v, vy = - vy v, vz = - vz v\<rparr>"

text \<open>\<open>normalize\<close> is \<open>divideScalar(length() || 1)\<close>: the zero vector stays zero.\<close>

definition normalize :: "Vector3 \<Rightarrow> Vector3" where
  "normalize v =
     (let l = sqrt (vx v * vx v + vy v * vy v + vz v * vz v)
      in multiplyScalar v (1 / (if l = 0 then 1 else l)))"

text \<open>\<open>applyEuler(new THREE.Euler(0, a, 0))\<close>: the rotation by the angle \<open>a\<close> about the y axis.\<close>

definition applyEulerY :: "real \<Rightarrow> Vector3 \<Rightarrow> Vector3" where
  "applyEulerY a v =
     \<lparr>vx = vx v * cos a + vz v * sin a, vy = vy v, vz = vz v * cos a - vx v * sin a\<rparr>"

subsection \<open>The steps of Player that the physics calls (src/script/player.js)\<close>

definition worldVelocity :: "Player \<Rightarrow> Vector3" where
  "worldVelocity player = applyEulerY (rotation_y player) (velocity player)"

definition applyWorldDeltaVelocity :: "Vector3 \<Rightarrow> Player \<Rightarrow> Player" where
  "applyWorldDeltaVelocity dv player =
     player\<lparr>velocity := add (velocity player) (applyEulerY (- rotation_y player) dv)\<rparr>"

text \<open>
  \<open>PointerLockControls.moveRight(d)\<close> adds \<open>d\<close> times the first column of the camera
  matrix to the position; \<open>moveForward(d)\<close> adds \<open>d\<close> times the cross product of the
  camera's up vector \<open>(0, 1, 0)\<close> with that column.
\<close>

definition moveRight :: "real \<Rightarrow> Player \<Rightarrow> Player" where
  "moveRight d player =
     player\<lparr>position := add (position player) (multiplyScalar (matrix_column0 player) d)\<rparr>"

definition moveForward :: "real \<Rightarrow> Player \<Rightarrow> Player" where
  "moveForward d player =
     player\<lparr>position := add (position player)
        (multiplyScalar \<lparr>vx = vz (matrix_column0 player), vy = 0,
                         vz = - vx (matrix_column0 player)\<rparr> d)\<rparr>"

definition applyInputs :: "real \<Rightarrow> Player \<Rightarrow> Player" where
  "applyInputs dt player =
     (if isLocked player
      then (let p1 = player\<lparr>velocity := (velocity player)\<lparr>vx := vx (input player),
                                                             vz := vz (input player)\<rparr>\<rparr>;
                p2 = moveRight (vx (velocity p1) * dt) p1;
                p3 = moveForward (vz (velocity p2) * dt) p2
            in p3\<lparr>position := (position p3)\<lparr>vy := vy (position p3) + vy (velocity p3) * dt\<rparr>\<rparr>)
      else player)"

subsection \<open>Collision detection\<close>

record Physics =
  simulationRate :: real
  stepSize :: real
  accumulator :: real
  gravity :: real

record Collision =
  col_block :: "int \<times> int \<times> int"
  contactPoint :: Vector3
  normal :: Vector3
  overlap :: real

definition pointInPlayerBoundingCylinder :: "Vector3 \<Rightarrow> Player \<Rightarrow> bool" where
  "pointInPlayerBoundingCylinder p player =
     (let dx = vx p - vx (position player);
          dy = vy p - (vy (position player) - height player / 2);
          dz = vz p - vz (position player);
          r_sq = dx * dx + dz * dz
      in \<bar>dy\<bar> < height player / 2 \<and> r_sq < radius player * radius player)"

text \<open>
  \<open>blockId && blockId !== blocks.empty.id\<close>, for \<open>blockId = world.getBlock(x, y, z)?.id\<close>:
  no block, or the id 0, is falsy.
\<close>

definition isCandidate :: "('c, 'd) WorldChunkClass \<Rightarrow> block option \<Rightarrow> bool" where
  "isCandidate cls b =
     (case b of None \<Rightarrow> False
      | Some blk \<Rightarrow> block_id blk \<noteq> 0 \<and> block_id blk \<noteq> blocks_empty_id cls)"

definition broadPhase ::
  "('c, 'd) WorldChunkClass \<Rightarrow> Player \<Rightarrow> ('c, 'd) World \<Rightarrow> (int \<times> int \<times> int) list" where
  "broadPhase cls player w =
     (let x_min = \<lfloor>vx (position player) - radius player\<rfloor>;
          x_max = \<lceil>vx (position player) + radius player\<rceil>;
          y_min = \<lfloor>vy (position player) - height player\<rfloor>;
          y_max = \<lceil>vy (position player)\<rceil>;
          z_min = \<lfloor>vz (position player) - radius player\<rfloor>;
          z_max = \<lceil>vz (position player) + radius player\<rceil>
      in concat (map (\<lambda>x. concat (map (\<lambda>y. concat (map (\<lambda>z.
           if isCandidate cls (World_getBlock cls w (of_int x) (of_int y) (of_int z))
           then [(x, y, z)] else [])
         [z_min .. z_max])) [y_min .. y_max])) [x_min .. x_max]))"

definition closestPoint :: "int \<times> int \<times> int \<Rightarrow> Player \<Rightarrow> Vector3" where
  "closestPoint b player =
     (case b of (bx, by, bz) \<Rightarrow>
       \<lparr>vx = max (of_int bx - 1 / 2) (min (vx (position player)) (of_int bx + 1 / 2)),
        vy = max (of_int by - 1 / 2)
                 (min (vy (position player) - height player / 2) (of_int by + 1 / 2)),
        vz = max (of_int bz - 1 / 2) (min (vz (position player)) (of_int bz + 1 / 2))\<rparr>)"

text \<open>
  \<open>narrowPhase\<close> returns the collisions in the order of the candidates; it writes
  \<open>player.onGround\<close> on the way, so the player is returned too.
\<close>

fun narrowPhase :: "(int \<times> int \<times> int) list \<Rightarrow> Player \<Rightarrow> Collision list \<times> Player" where
  "narrowPhase [] player = ([], player)"
| "narrowPhase (b # candidates) player =
     (let p = closestPoint b player;
          dx = vx p - vx (position player);
          dy = vy p - (vy (position player) - height player / 2);
          dz = vz p - vz (position player)
      in if pointInPlayerBoundingCylinder p player
         then (let overlapY = height player / 2 - \<bar>dy\<bar>;
                   overlapXZ = radius player - sqrt (dx * dx + dz * dz);
                   c = (if overlapY < overlapXZ
                        then \<lparr>col_block = b, contactPoint = p,
                              normal = \<lparr>vx = 0, vy = - sgn dy, vz = 0\<rparr>, overlap = overlapY\<rparr>
                        else \<lparr>col_block = b, contactPoint = p,
                              normal = normalize \<lparr>vx = - dx, vy = 0, vz = - dz\<rparr>,
                              overlap = overlapXZ\<rparr>);
                   player' = (if overlapY < overlapXZ then player\<lparr>onGround := True\<rparr>
                              else player);
                   rest = narrowPhase candidates player'
               in (c # fst rest, snd rest))
         else narrowPhase candidates player)"

subsection \<open>Collision resolution\<close>

text \<open>
  \<open>Array.prototype.sort\<close> belongs to the language. It is modelled as the stable
  insertion sort that reads only the sign of the comparator's result: an element moves
  in front of the first element it compares negative to, and stays behind all the
  others. For a consistent comparator this is the order ECMAScript prescribes. For any
  other comparator ECMAScript leaves the order to the engine; a comparator that never
  answers with a negative number moves no element here, which is what V8 does with it.
\<close>

fun sort_insert :: "('a \<Rightarrow> 'a \<Rightarrow> real) \<Rightarrow> 'a \<Rightarrow> 'a list \<Rightarrow> 'a list" where
  "sort_insert comparefn x [] = [x]"
| "sort_insert comparefn x (y # ys) =
     (if comparefn x y < 0 then x # y # ys else y # sort_insert comparefn x ys)"

definition Array_sort :: "('a \<Rightarrow> 'a \<Rightarrow> real) \<Rightarrow> 'a list \<Rightarrow> 'a list" where
  "Array_sort comparefn xs = foldl (\<lambda>sorted x. sort_insert comparefn x sorted) [] xs"

text \<open>
  The comparator of \<open>resolveCollisions\<close> returns the boolean \<open>a.overlap < b.overlap\<close>,
  which \<open>sort\<close> reads as the number 1 (true) or 0 (false).
\<close>

definition overlap_comparefn :: "Collision \<Rightarrow> Collision \<Rightarrow> real" where
  "overlap_comparefn a b = (if overlap a < overlap b then 1 else 0)"

definition resolveCollision :: "Collision \<Rightarrow> Player \<Rightarrow> Player" where
  "resolveCollision collision player =
     (if \<not> pointInPlayerBoundingCylinder (contactPoint collision) player then player
      else (let deltaPosition = multiplyScalar (normal collision) (overlap collision);
                p1 = player\<lparr>position := add (position player) deltaPosition\<rparr>;
                magnitude = dot (worldVelocity p1) (normal collision);
                velocityAdjustment = multiplyScalar (normal collision) magnitude
            in applyWorldDeltaVelocity (negate velocityAdjustment) p1))"

definition resolveCollisions :: "Collision list \<Rightarrow> Player \<Rightarrow> Player" where
  "resolveCollisions collisions player =
     fold resolveCollision (Array_sort overlap_comparefn collisions) player"

definition detectCollisions ::
  "('c, 'd) WorldChunkClass \<Rightarrow> Player \<Rightarrow> ('c, 'd) World \<Rightarrow> Player" where
  "detectCollisions cls player w =
     (let p0 = player\<lparr>onGround := False\<rparr>;
          candidates = broadPhase cls p0 w;
          (collisions, p1) = narrowPhase candidates p0
      in if length collisions > 0 then resolveCollisions collisions p1 else p1)"

subsection \<open>The fixed time step: \<open>Physics.update\<close>\<close>

text \<open>One pass through the body of the loop of \<open>Physics.update\<close>, on the player.\<close>

definition physicsStep ::
  "('c, 'd) WorldChunkClass \<Rightarrow> ('c, 'd) World \<Rightarrow> Physics \<Rightarrow> Player \<Rightarrow> Player" where
  "physicsStep cls w ph player =
     (let p1 = player\<lparr>velocity := (velocity player)
                 \<lparr>vy := vy (velocity player) - gravity ph * stepSize ph\<rparr>\<rparr>;
          p2 = applyInputs (stepSize ph) p1
      in detectCollisions cls p2 w)"

text \<open>
  The loop \<open>while (this.accumulator >= this.stepSize)\<close>. It does not end when the step
  size is not positive and the accumulator has reached it: not returning is \<open>None\<close>.
\<close>

partial_function (option) Physics_loop ::
  "('c, 'd) WorldChunkClass \<Rightarrow> ('c, 'd) World \<Rightarrow> Physics \<times> Player \<Rightarrow> (Physics \<times> Player) option"
where
  "Physics_loop cls w s =
     (if accumulator (fst s) \<ge> stepSize (fst s)
      then Physics_loop cls w
             ((fst s)\<lparr>accumulator := accumulator (fst s) - stepSize (fst s)\<rparr>,
              physicsStep cls w (fst s) (snd s))
      else Some s)"

definition Physics_update ::
  "('c, 'd) WorldChunkClass \<Rightarrow> real \<Rightarrow> ('c, 'd) World \<Rightarrow> Physics \<times> Player
     \<Rightarrow> (Physics \<times> Player) option" where
  "Physics_update cls dt w s =
     Physics_loop cls w ((fst s)\<lparr>accumulator := accumulator (fst s) + dt\<rparr>, snd s)"

section \<open>Start states and a small chunk class\<close>

text \<open>
  The field initialisers of \<open>Physics\<close>, \<open>Player\<close> and \<open>World\<close>, for a player at a
  given position whose pointer is locked and whose camera looks along the negative z
  axis, and for a world with given children.
\<close>

definition new_Physics :: Physics where
  "new_Physics = \<lparr>simulationRate = 250, stepSize = 1 / 250, accumulator = 0, gravity = 32\<rparr>"

definition new_Player :: "Vector3 \<Rightarrow> Player" where
  "new_Player pos =
     \<lparr>radius = 1 / 2, height = 7 / 4, onGround = False,
      input = \<lparr>vx = 0, vy = 0, vz = 0\<rparr>, velocity = \<lparr>vx = 0, vy = 0, vz = 0\<rparr>,
      position = pos, isLocked = True, rotation_y = 0,
      matrix_column0 = \<lparr>vx = 1, vy = 0, vz = 0\<rparr>\<rparr>"

definition new_World :: "'d \<Rightarrow> 'c WorldChunk list \<Rightarrow> ('c, 'd) World" where
  "new_World store chunks =
     \<lparr>asyncLoading = True, dataStore = store, drawDistance = 2, chunkSize_width = 32,
      children = chunks, idleCallbacks = []\<rparr>"

text \<open>
  A chunk class to run the definitions on: a chunk's state is the list of its blocks
  by local position, positions not listed hold no block, and the store is not used.
\<close>

type_synonym grid = "((real \<times> real \<times> real) \<times> block) list"

definition set_instance :: "nat option \<Rightarrow> (real \<times> real \<times> real) \<times> block \<Rightarrow> (real \<times> real \<times> real) \<times> block" where
  "set_instance i e = (fst e, (snd e)\<lparr>instanceId := i\<rparr>)"

definition grid_class :: "(grid, unit) WorldChunkClass" where
  "grid_class =
     \<lparr>construct = (\<lambda>width store. []),
      chunk_generate = (\<lambda>c store. ([((0, 0, 0), \<lparr>block_id = 1, instanceId = Some 0\<rparr>)], store)),
      chunk_getBlock = (\<lambda>c x y z. map_of (body c) (x, y, z)),
      chunk_addBlock = (\<lambda>x y z blockId c store.
         (if map_of (body c) (x, y, z) = None
          then ((x, y, z), \<lparr>block_id = blockId, instanceId = Some 0\<rparr>) # body c
          else body c, store)),
      chunk_removeBlock = (\<lambda>x y z c store. (filter (\<lambda>e. fst e \<noteq> (x, y, z)) (body c), store)),
      chunk_isBlockObscured = (\<lambda>c x y z.
         list_all (\<lambda>p. map_of (body c) p \<noteq> None)
           [(x - 1, y, z), (x + 1, y, z), (x, y - 1, z), (x, y + 1, z), (x, y, z - 1),
            (x, y, z + 1)]),
      chunk_addBlockInstance = (\<lambda>x y z c store.
         (map (\<lambda>e. if fst e = (x, y, z) then set_instance (Some 0) e else e) (body c), store)),
      chunk_deleteBlockInstance = (\<lambda>x y z c store.
         (map (\<lambda>e. if fst e = (x, y, z) then set_instance None e else e) (body c), store)),
      chunk_disposeInstances = (\<lambda>c store. (map (set_instance None) (body c), store)),
      blocks_empty_id = 0\<rparr>"

text \<open>A loaded chunk at the given chunk coordinates with stone (id 3) at the given positions.\<close>

definition stone_chunk :: "int \<times> int \<Rightarrow> (real \<times> real \<times> real) list \<Rightarrow> grid WorldChunk" where
  "stone_chunk k ps =
     \<lparr>userData = k,
      chunk_position = \<lparr>vx = of_int (fst k) * 32, vy = 0, vz = of_int (snd k) * 32\<rparr>,
      loaded = True,
      body = map (\<lambda>p. (p, \<lparr>block_id = 3, instanceId = Some 0\<rparr>)) ps\<rparr>"

text \<open>The states on which the theorems below are run.\<close>

definition stream_world :: "(grid, unit) World" where
  "stream_world =
     (new_World () [stone_chunk (5, 5) [], stone_chunk (1, - 1) []])\<lparr>drawDistance := 1\<rparr>"

definition stream_player :: Player where
  "stream_player = new_Player \<lparr>vx = 40, vy = 10, vz = - 3\<rparr>"

definition partly_loaded_world :: "(grid, unit) World" where
  "partly_loaded_world =
     new_World () [stone_chunk (0, 0) [(1, 2, 3)],
                   (stone_chunk (1, 0) [(1, 2, 3)])\<lparr>loaded := False\<rparr>]"

definition edit_world :: "(grid, unit) World" where
  "edit_world =
     new_World () [stone_chunk (0, 0)
       [(2, 1, 1), (3, 1, 1), (2, 0, 1), (2, 2, 1), (2, 1, 0), (2, 1, 2)]]"

text \<open>
  A player falling along a wall and walking into it: an eighth into the floor block and
  a thirty-second into the wall block.
\<close>

definition corner_world :: "(grid, unit) World" where
  "corner_world = new_World () [stone_chunk (0, 0) [(0, 0, 0), (1, 1, 0)]]"

definition corner_player :: Player where
  "corner_player = new_Player \<lparr>vx = 1 / 32, vy = 17 / 8, vz = 0\<rparr>"

text \<open>A player in a jump whose head is a thirty-second inside the block above.\<close>

definition ceiling_player :: Player where
  "ceiling_player = new_Player \<lparr>vx = 0, vy = 49 / 32, vz = 0\<rparr>"

text \<open>A player in the air with a block around the middle of the bounding cylinder.\<close>

definition inside_player :: Player where
  "inside_player = new_Player \<lparr>vx = 0, vy = 9 / 4, vz = 0\<rparr>"

text \<open>A player between a floor block and a ceiling block one cell apart.\<close>

definition squeezed_player :: Player where
  "squeezed_player = new_Player \<lparr>vx = 0, vy = 31 / 16, vz = 0\<rparr>"

text \<open>
  A candidate block makes a vertical contact when its closest point is inside the
  bounding cylinder and \<open>overlapY < overlapXZ\<close>: the first branch of \<open>narrowPhase\<close>.
\<close>

definition verticalContact :: "int \<times> int \<times> int \<Rightarrow> Player \<Rightarrow> bool" where
  "verticalContact b player =
     (let p = closestPoint b player;
          dx = vx p - vx (position player);
          dy = vy p - (vy (position player) - height player / 2);
          dz = vz p - vz (position player)
      in pointInPlayerBoundingCylinder p player
         \<and> height player / 2 - \<bar>dy\<bar> < radius player - sqrt (dx * dx + dz * dz))"

section \<open>Double-precision arithmetic\<close>

text \<open>
  A JavaScript number is an IEEE 754 double, and each of \<open>+\<close>, \<open>-\<close>, \<open>*\<close>, \<open>/\<close> and
  \<open>Math.sqrt\<close> returns the double nearest to the exact result, a tie going to the even
  significand. The definitions above compute with the exact results. Where the rounding
  decides a statement, the function of the source is modelled a second time with every
  operation rounded, under its name with the suffix \<open>_double\<close>.

  A double is a real \<open>m * 2 ^ j\<close> with \<open>\<bar>m\<bar> < 2 ^ 53\<close> and \<open>j \<ge> - 1074\<close>. \<open>to_double\<close>
  rounds a real to the nearest multiple of \<open>2 ^ (e - 52)\<close>, where \<open>e\<close> is the exponent of
  its binade, not below \<open>- 1022\<close> (the subnormal numbers). Overflow to \<open>Infinity\<close> (from
  \<open>2 ^ 1024\<close> on), \<open>NaN\<close> and the sign of zero are left out; \<open>Math.floor\<close>, \<open>Math.abs\<close>,
  \<open>Math.sign\<close>, \<open>Math.min\<close>, \<open>Math.max\<close> and the comparisons are exact on doubles.
\<close>

definition round_even :: "real \<Rightarrow> int" where
  "round_even t =
     (let f = \<lfloor>t\<rfloor>; d = t - of_int f
      in if d < 1 / 2 then f else if 1 / 2 < d then f + 1
         else if even f then f else f + 1)"

definition double_exponent :: "real \<Rightarrow> int" where
  "double_exponent x = max \<lfloor>log 2 \<bar>x\<bar>\<rfloor> (- 1022)"

definition to_double :: "real \<Rightarrow> real" where
  "to_double x =
     (if x = 0 then 0
      else of_int (round_even (x / 2 powr of_int (double_exponent x - 52)))
           * 2 powr of_int (double_exponent x - 52))"

definition is_double :: "real \<Rightarrow> bool" where
  "is_double x \<longleftrightarrow> (\<exists>m j. x = of_int m * 2 powr of_int j \<and> \<bar>m\<bar> < 2 ^ 53 \<and> - 1074 \<le> j)"

definition fadd :: "real \<Rightarrow> real \<Rightarrow> real" where
  "fadd a b = to_double (a + b)"

definition fsub :: "real \<Rightarrow> real \<Rightarrow> real" where
  "fsub a b = to_double (a - b)"

definition fmul :: "real \<Rightarrow> real \<Rightarrow> real" where
  "fmul a b = to_double (a * b)"

definition fdiv :: "real \<Rightarrow> real \<Rightarrow> real" where
  "fdiv a b = to_double (a / b)"

definition fsqrt :: "real \<Rightarrow> real" where
  "fsqrt a = to_double (sqrt a)"

subsection \<open>\<open>worldToChunkCoords\<close> on doubles\<close>

definition worldToChunkCoords_double ::
  "('c, 'd) World \<Rightarrow> real \<Rightarrow> real \<Rightarrow> real \<Rightarrow> ChunkCoords" where
  "worldToChunkCoords_double w x y z =
     (let chunkCoords = (\<lfloor>fdiv x (chunkSize_width w)\<rfloor>, \<lfloor>fdiv z (chunkSize_width w)\<rfloor>);
          blockCoords = \<lparr>vx = fsub x (fmul (chunkSize_width w) (of_int (fst chunkCoords))),
                         vy = y,
                         vz = fsub z (fmul (chunkSize_width w) (of_int (snd chunkCoords)))\<rparr>
      in \<lparr>chunk = chunkCoords, block = blockCoords\<rparr>)"

text \<open>A world without chunks, with the fields of the constructor.\<close>

definition empty_world :: "(grid, unit) World" where
  "empty_world = new_World () []"

subsection \<open>\<open>Physics.update\<close> on doubles\<close>

text \<open>
  The loop of \<open>Physics.update\<close> with the accumulator in double arithmetic. The body of the
  loop acts on the player and reads the world, the gravity and the step size, none of
  which the loop itself looks at: it is the parameter \<open>step\<close>, a function on the state
  it changes. With \<open>Suc\<close> on a counter for \<open>step\<close> the loop counts its passes.
\<close>

partial_function (option) Physics_loop_double ::
  "('p \<Rightarrow> 'p) \<Rightarrow> Physics \<times> 'p \<Rightarrow> (Physics \<times> 'p) option"
where
  "Physics_loop_double step s =
     (if accumulator (fst s) \<ge> stepSize (fst s)
      then Physics_loop_double step
             ((fst s)\<lparr>accumulator := fsub (accumulator (fst s)) (stepSize (fst s))\<rparr>,
              step (snd s))
      else Some s)"

definition Physics_update_double ::
  "('p \<Rightarrow> 'p) \<Rightarrow> real \<Rightarrow> Physics \<times> 'p \<Rightarrow> (Physics \<times> 'p) option" where
  "Physics_update_double step dt s =
     Physics_loop_double step ((fst s)\<lparr>accumulator := fadd (accumulator (fst s)) dt\<rparr>, snd s)"

fun Physics_updates_double ::
  "('p \<Rightarrow> 'p) \<Rightarrow> real list \<Rightarrow> Physics \<times> 'p \<Rightarrow> (Physics \<times> 'p) option" where
  "Physics_updates_double step [] s = Some s"
| "Physics_updates_double step (dt # dts) s =
     (case Physics_update_double step dt s of None \<Rightarrow> None
      | Some s' \<Rightarrow> Physics_updates_double step dts s')"

text \<open>The field initialisers of \<open>Physics\<close>: \<open>stepSize = 1 / this.simulationRate\<close>.\<close>

definition new_Physics_double :: Physics where
  "new_Physics_double =
     \<lparr>simulationRate = 250, stepSize = fdiv 1 250, accumulator = 0, gravity = 32\<rparr>"

subsection \<open>Collision detection and resolution on doubles\<close>

definition multiplyScalar_double :: "Vector3 \<Rightarrow> real \<Rightarrow> Vector3" where
  "multiplyScalar_double v s = \<lparr>vx = fmul (vx v) s, vy = fmul (vy v) s, vz = fmul (vz v) s\<rparr>"

definition add_double :: "Vector3 \<Rightarrow> Vector3 \<Rightarrow> Vector3" where
  "add_double a b = \<lparr>vx = fadd (vx a) (vx b), vy = fadd (vy a) (vy b), vz = fadd (vz a) (vz b)\<rparr>"

text \<open>
  \<open>normalize\<close> is \<open>divideScalar(length() || 1)\<close>, \<open>divideScalar(s)\<close> is
  \<open>multiplyScalar(1 / s)\<close> and \<open>length()\<close> is \<open>Math.sqrt(x * x + y * y + z * z)\<close>.
\<close>

definition normalize_double :: "Vector3 \<Rightarrow> Vector3" where
  "normalize_double v =
     (let l = fsqrt (fadd (fadd (fmul (vx v) (vx v)) (fmul (vy v) (vy v))) (fmul (vz v) (vz v)))
      in multiplyScalar_double v (fdiv 1 (if l = 0 then 1 else l)))"

definition pointInPlayerBoundingCylinder_double :: "Vector3 \<Rightarrow> Player \<Rightarrow> bool" where
  "pointInPlayerBoundingCylinder_double p player =
     (let dx = fsub (vx p) (vx (position player));
          dy = fsub (vy p) (fsub (vy (position player)) (fdiv (height player) 2));
          dz = fsub (vz p) (vz (position player));
          r_sq = fadd (fmul dx dx) (fmul dz dz)
      in \<bar>dy\<bar> < fdiv (height player) 2 \<and> r_sq < fmul (radius player) (radius player))"

definition closestPoint_double :: "int \<times> int \<times> int \<Rightarrow> Player \<Rightarrow> Vector3" where
  "closestPoint_double b player =
     (case b of (bx, by, bz) \<Rightarrow>
       \<lparr>vx = max (fsub (of_int bx) (1 / 2))
                 (min (vx (position player)) (fadd (of_int bx) (1 / 2))),
        vy = max (fsub (of_int by) (1 / 2))
                 (min (fsub (vy (position player)) (fdiv (height player) 2))
                      (fadd (of_int by) (1 / 2))),
        vz = max (fsub (of_int bz) (1 / 2))
                 (min (vz (position player)) (fadd (of_int bz) (1 / 2)))\<rparr>)"

fun narrowPhase_double ::
  "(int \<times> int \<times> int) list \<Rightarrow> Player \<Rightarrow> Collision list \<times> Player" where
  "narrowPhase_double [] player = ([], player)"
| "narrowPhase_double (b # candidates) player =
     (let p = closestPoint_double b player;
          dx = fsub (vx p) (vx (position player));
          dy = fsub (vy p) (fsub (vy (position player)) (fdiv (height player) 2));
          dz = fsub (vz p) (vz (position player))
      in if pointInPlayerBoundingCylinder_double p player
         then (let overlapY = fsub (fdiv (height player) 2) \<bar>dy\<bar>;
                   overlapXZ = fsub (radius player) (fsqrt (fadd (fmul dx dx) (fmul dz dz)));
                   c = (if overlapY < overlapXZ
                        then \<lparr>col_block = b, contactPoint = p,
                              normal = \<lparr>vx = 0, vy = - sgn dy, vz = 0\<rparr>, overlap = overlapY\<rparr>
                        else \<lparr>col_block = b, contactPoint = p,
                              normal = normalize_double \<lparr>vx = - dx, vy = 0, vz = - dz\<rparr>,
                              overlap = overlapXZ\<rparr>);
                   player' = (if overlapY < overlapXZ then player\<lparr>onGround := True\<rparr>
                              else player);
                   rest = narrowPhase_double candidates player'
               in (c # fst rest, snd rest))
         else narrowPhase_double candidates player)"

text \<open>
  One pass of the loop of \<open>resolveCollisions\<close>. The correction of the position is in
  double arithmetic. The adjustment of the velocity goes through the rotation of
  \<open>applyEuler\<close>, with \<open>Math.sin\<close> and \<open>Math.cos\<close> whose rounding the language leaves to
  the engine: it is kept as in \<open>resolveCollision\<close>, and writes the velocity only.
\<close>

definition resolveCollision_double :: "Collision \<Rightarrow> Player \<Rightarrow> Player" where
  "resolveCollision_double collision player =
     (if \<not> pointInPlayerBoundingCylinder_double (contactPoint collision) player then player
      else (let deltaPosition = multiplyScalar_double (normal collision) (overlap collision);
                p1 = player\<lparr>position := add_double (position player) deltaPosition\<rparr>;
                magnitude = dot (worldVelocity p1) (normal collision);
                velocityAdjustment = multiplyScalar (normal collision) magnitude
            in applyWorldDeltaVelocity (negate velocityAdjustment) p1))"

definition resolveCollisions_double :: "Collision list \<Rightarrow> Player \<Rightarrow> Player" where
  "resolveCollisions_double collisions player =
     fold resolveCollision_double (Array_sort overlap_comparefn collisions) player"

text \<open>
  A player an eighth deep in two floor blocks, (0, 0, 0) and (0, 0, 1), and a
  thirty-second deep in the wall block (1, 1, 0).
\<close>

definition standing_player :: Player where
  "standing_player = new_Player \<lparr>vx = 1 / 32, vy = 17 / 8, vz = 1 / 4\<rparr>"

text \<open>A player in the air whose cylinder reaches over a vertical edge of a block.\<close>

definition edge_player :: Player where
  "edge_player = new_Player \<lparr>vx = 1 / 4, vy = 17 / 8, vz = 1 / 4\<rparr>"

section \<open>Rounding to a double\<close>

text \<open>
  A double is rounded to itself (\<open>to_double_exact\<close>). A real in the binade
  \<open>[2 ^ (52 - n), 2 ^ (53 - n))\<close> is rounded to the nearest multiple of \<open>2 ^ - n\<close>:
  \<open>to_double_eval\<close> evaluates \<open>to_double\<close> on a given rational, and
  \<open>to_double_sqrt_eval\<close> on the square root of one.
\<close>

lemma round_even_of_int [simp]: "round_even (of_int n) = n"
  by (simp add: round_even_def)

lemma round_even_eqI:
  assumes "of_int m - 1 / 2 < t" and "t < of_int m + 1 / 2"
  shows "round_even t = m"
proof (cases "t < of_int m")
  case True
  then have f: "\<lfloor>t\<rfloor> = m - 1" using assms by (simp add: floor_eq_iff)
  show ?thesis using assms True by (simp add: round_even_def f Let_def)
next
  case False
  then have f: "\<lfloor>t\<rfloor> = m" using assms by (simp add: floor_eq_iff)
  show ?thesis using assms False by (simp add: round_even_def f Let_def)
qed

lemma to_double_exact:
  assumes x: "x = of_int m * 2 powr of_int j" and m: "\<bar>m\<bar> < 2 ^ 53" and j: "- 1074 \<le> j"
  shows "to_double x = x"
proof (cases "m = 0")
  case True
  then show ?thesis using x by (simp add: to_double_def)
next
  case False
  define e where "e = double_exponent x"
  have x0: "x \<noteq> 0" using False x by simp
  have ax: "\<bar>x\<bar> = of_int \<bar>m\<bar> * 2 powr of_int j" using x by (simp add: abs_mult)
  have "of_int \<bar>m\<bar> < (2 :: real) ^ 53" using m by (metis of_int_less_iff of_int_numeral of_int_power)
  then have "\<bar>x\<bar> < 2 ^ 53 * 2 powr of_int j" unfolding ax by simp
  also have "\<dots> = 2 powr (of_int (53 + j))" by (simp add: powr_add powr_realpow[symmetric])
  finally have "log 2 \<bar>x\<bar> < of_int (53 + j)" using x0 by (simp add: log_less_iff)
  then have "\<lfloor>log 2 \<bar>x\<bar>\<rfloor> < 53 + j" by (simp add: floor_less_iff)
  then have e: "e - 52 \<le> j" using j by (simp add: e_def double_exponent_def)
  define d where "d = nat (j - (e - 52))"
  have "(2 :: real) powr of_int j = 2 powr (of_int (e - 52) + real d)" using e by (simp add: d_def)
  then have pj: "(2 :: real) powr of_int j = 2 powr of_int (e - 52) * 2 ^ d"
    by (simp add: powr_add powr_realpow)
  have "x / 2 powr of_int (e - 52) = of_int (m * 2 ^ d)" unfolding x pj by simp
  then have "to_double x = of_int (m * 2 ^ d) * 2 powr of_int (e - 52)"
    using x0 unfolding to_double_def e_def[symmetric] by (simp only: round_even_of_int if_False)
  also have "\<dots> = x" unfolding x pj by simp
  finally show ?thesis .
qed

lemma is_double_to_double: "is_double x \<Longrightarrow> to_double x = x"
  unfolding is_double_def using to_double_exact by blast

lemma to_double_eval:
  assumes lo: "2 ^ 52 \<le> \<bar>x\<bar> * 2 ^ n" and hi: "\<bar>x\<bar> * 2 ^ n < 2 ^ 53" and n: "n \<le> 1074"
  shows "to_double x = of_int (round_even (x * 2 ^ n)) / 2 ^ n"
proof -
  have x0: "x \<noteq> 0" using lo by auto
  have p: "(2 :: real) powr (52 - real n) = 2 ^ 52 / 2 ^ n"
    by (simp add: powr_diff powr_realpow)
  have p1: "(2 :: real) powr (53 - real n) = 2 ^ 53 / 2 ^ n"
    by (simp add: powr_diff powr_realpow)
  have "\<lfloor>log 2 \<bar>x\<bar>\<rfloor> = 52 - int n"
    using x0 lo hi by (subst floor_log_eq_powr_iff) (simp_all add: p p1 field_simps)
  then have e: "double_exponent x - 52 = - int n" using n by (simp add: double_exponent_def)
  have q: "(2 :: real) powr - real n = 1 / 2 ^ n"
    by (simp add: powr_minus_divide powr_realpow)
  show ?thesis using x0 by (simp add: to_double_def e q)
qed

lemma to_double_sqrt_eval:
  assumes lo: "(of_int m - 1 / 2)\<^sup>2 < q * 4 ^ n" and hi: "q * 4 ^ n < (of_int m + 1 / 2)\<^sup>2"
      and m: "2 ^ 52 < m" "m < 2 ^ 53" and n: "n \<le> 1074"
  shows "to_double (sqrt q) = of_int m / 2 ^ n"
proof -
  have mr: "(2 :: real) ^ 52 < of_int m" "of_int m < (2 :: real) ^ 53"
    using m by (metis of_int_less_iff of_int_numeral of_int_power)+
  have s: "sqrt q * 2 ^ n = sqrt (q * 4 ^ n)"
    by (simp add: real_sqrt_mult real_sqrt_power)
  have a: "of_int m - 1 / 2 < sqrt q * 2 ^ n"
    unfolding s using lo mr by (intro real_less_rsqrt) auto
  have b: "sqrt q * 2 ^ n < of_int m + 1 / 2"
    unfolding s using hi mr by (intro real_less_lsqrt) auto
  have "(1 :: real) < of_int m" using m(1) by simp
  then have "0 < sqrt q * 2 ^ n" using a by linarith
  then have q0: "0 \<le> sqrt q" by (simp add: zero_less_mult_iff)
  have r: "round_even (sqrt q * 2 ^ n) = m" using a b by (rule round_even_eqI)
  have "to_double (sqrt q) = of_int (round_even (sqrt q * 2 ^ n)) / 2 ^ n"
    using a b mr q0 n by (intro to_double_eval) (simp_all add: abs_of_nonneg)
  then show ?thesis by (simp add: r)
qed

lemma is_doubleI:
  "x = of_int m * 2 powr of_int j \<Longrightarrow> \<bar>m\<bar> < 2 ^ 53 \<Longrightarrow> - 1074 \<le> j \<Longrightarrow> is_double x"
  unfolding is_double_def by blast

lemma is_double_of_int: "\<bar>n\<bar> < 2 ^ 53 \<Longrightarrow> is_double (of_int n)"
  by (rule is_doubleI[where m = n and j = 0]) simp_all

lemma is_double_0 [simp]: "is_double 0"
  using is_double_of_int[of 0] by simp

lemma to_double_0 [simp]: "to_double 0 = 0"
  by (simp add: to_double_def)

lemma round_even_ge:
  assumes "of_int N \<le> t"
  shows "N \<le> round_even t"
proof -
  have "N \<le> \<lfloor>t\<rfloor>" using assms by (simp add: le_floor_iff)
  then show ?thesis by (simp add: round_even_def Let_def)
qed

lemma round_even_le:
  assumes "t \<le> of_int N"
  shows "round_even t \<le> N"
proof (cases "t = of_int N")
  case True
  then show ?thesis by simp
next
  case False
  then have "t < of_int N" using assms by simp
  then have "\<lfloor>t\<rfloor> < N" by (simp add: floor_less_iff)
  then show ?thesis by (simp add: round_even_def Let_def)
qed

lemma to_double_abs_ge_power:
  assumes v: "2 powr of_int k \<le> \<bar>v\<bar>" and k: "- 1022 \<le> k"
  shows "2 powr of_int k \<le> \<bar>to_double v\<bar>"
proof -
  have "0 < (2 :: real) powr of_int k" by simp
  with v have "0 < \<bar>v\<bar>" by linarith
  then have v0: "v \<noteq> 0" by simp
  define e where "e = \<lfloor>log 2 \<bar>v\<bar>\<rfloor>"
  have "of_int k \<le> log 2 \<bar>v\<bar>" using v v0 by (simp add: le_log_iff)
  then have ke: "k \<le> e" unfolding e_def by (simp add: le_floor_iff)
  then have de: "double_exponent v = e" using k by (simp add: double_exponent_def e_def)
  define u :: real where "u = 2 powr of_int (e - 52)"
  have u0: "0 < u" by (simp add: u_def)
  have "of_int e \<le> log 2 \<bar>v\<bar>" unfolding e_def by simp
  then have lo: "2 powr of_int e \<le> \<bar>v\<bar>" using v0 by (simp add: le_log_iff)
  have pe: "(2 :: real) powr of_int e = 2 ^ 52 * u"
  proof -
    have "(2 :: real) powr of_int e = 2 powr (52 + of_int (e - 52))" by simp
    also have "\<dots> = 2 powr 52 * 2 powr of_int (e - 52)" by (rule powr_add)
    finally show ?thesis by (simp add: u_def)
  qed
  have t: "to_double v = of_int (round_even (v / u)) * u"
    using v0 by (simp add: to_double_def de u_def)
  have "2 ^ 52 \<le> \<bar>of_int (round_even (v / u)) :: real\<bar>"
  proof (cases "0 \<le> v")
    case True
    then have "of_int (2 ^ 52) \<le> v / u" using lo u0 by (simp add: pe field_simps)
    then have "2 ^ 52 \<le> round_even (v / u)" by (rule round_even_ge)
    then have "(2 :: real) ^ 52 \<le> of_int (round_even (v / u))"
      by (metis of_int_le_iff of_int_numeral of_int_power)
    then show ?thesis by simp
  next
    case False
    then have "v / u \<le> of_int (- (2 ^ 52))" using lo u0 by (simp add: pe field_simps)
    then have "round_even (v / u) \<le> - (2 ^ 52)" by (rule round_even_le)
    then have "of_int (round_even (v / u)) \<le> - ((2 :: real) ^ 52)"
      by (metis of_int_le_iff of_int_numeral of_int_power of_int_minus)
    then show ?thesis by simp
  qed
  then have "2 ^ 52 * u \<le> \<bar>of_int (round_even (v / u)) :: real\<bar> * u"
    using u0 by simp
  also have "\<dots> = \<bar>to_double v\<bar>" using u0 by (simp add: t abs_mult)
  finally have A: "2 powr of_int e \<le> \<bar>to_double v\<bar>" by (simp add: pe)
  have B: "(2 :: real) powr of_int k \<le> 2 powr of_int e" using ke by simp
  show ?thesis by (rule order_trans[OF B A])
qed

lemma is_double_eighths:
  assumes "\<bar>a\<bar> < 2 ^ 53"
  shows "is_double (of_int a / 8)"
  using assms by (intro is_doubleI[where m = a and j = "- 3"]) (simp_all add: powr_minus_divide)

text \<open>
  The sums of a multiple of an eighth and a double \<open>y\<close> in \<open>[7/8, 2 ^ 50)\<close>, or its
  negative, lie on the grid of \<open>y\<close>: such a sum is a double when it is not larger than
  \<open>y\<close>, and is rounded to something larger than \<open>y\<close> when it is not a double.
\<close>

lemma to_double_eighths_grid:
  assumes yd: "is_double y" and y1: "7 / 8 \<le> y" and y2: "y < 2 ^ 50"
      and v: "v = of_int a / 8 + of_int b * y"
  shows "\<bar>v\<bar> \<le> y \<Longrightarrow> to_double v = v"
    and "to_double v = v \<or> y < \<bar>to_double v\<bar>"
proof -
  obtain m0 j0 where y0: "y = of_int m0 * 2 powr of_int j0" and m0: "\<bar>m0\<bar> < 2 ^ 53"
    and j0: "- 1074 \<le> j0"
    using yd unfolding is_double_def by blast
  have "\<exists>m j. y = of_int m * 2 powr of_int j \<and> \<bar>m\<bar> < 2 ^ 53 \<and> - 1074 \<le> j \<and> j \<le> - 3"
  proof (cases "j0 \<le> - 3")
    case True
    then show ?thesis using y0 m0 j0 by blast
  next
    case False
    define d where "d = nat (j0 + 3)"
    have "(2 :: real) powr of_int j0 = 2 powr (of_int (- 3) + real d)" using False by (simp add: d_def)
    then have p: "(2 :: real) powr of_int j0 = 2 powr of_int (- 3) * 2 ^ d"
      by (simp only: powr_add powr_realpow zero_less_numeral)
    have e: "y = of_int (m0 * 2 ^ d) * 2 powr of_int (- 3)" unfolding y0 p by simp
    have "\<bar>of_int (m0 * 2 ^ d) :: real\<bar> = \<bar>y\<bar> * 8" unfolding e by (simp add: abs_mult powr_minus_divide)
    also have "\<dots> < 2 ^ 50 * 8" using y1 y2 by simp
    finally have "\<bar>of_int (m0 * 2 ^ d) :: real\<bar> < 2 ^ 53" by simp
    then have "\<bar>m0 * 2 ^ d\<bar> < 2 ^ 53"
      by (metis of_int_abs of_int_less_iff of_int_numeral of_int_power)
    then show ?thesis using e by (intro exI[where x = "m0 * 2 ^ d"] exI[where x = "- 3"]) simp
  qed
  then obtain m j where y: "y = of_int m * 2 powr of_int j" and m: "\<bar>m\<bar> < 2 ^ 53"
    and j: "- 1074 \<le> j" and j3: "j \<le> - 3"
    by blast
  define u :: real where "u = 2 powr of_int j"
  have u0: "0 < u" by (simp add: u_def)
  define k where "k = nat (- 3 - j)"
  have "(2 :: real) powr of_int (- 3) = 2 powr (of_int j + real k)" using j3 by (simp add: k_def)
  then have "(2 :: real) powr of_int (- 3) = u * 2 ^ k"
    unfolding u_def by (simp only: powr_add powr_realpow zero_less_numeral)
  then have e8: "1 / 8 = u * 2 ^ k" by (simp add: powr_minus_divide)
  define M where "M = a * 2 ^ k + b * m"
  have "v = of_int a * (1 / 8) + of_int b * y" using v by simp
  also have "\<dots> = of_int M * u" unfolding e8 y M_def u_def by (simp add: algebra_simps)
  finally have vM: "v = of_int M * u" .
  have yM: "y = of_int m * u" using y by (simp add: u_def)
  have "0 < y" using y1 by simp
  then have "0 < of_int m * u" unfolding yM .
  then have "(0 :: real) < of_int m" using u0 by (rule zero_less_mult_pos2)
  then have mpos: "0 < m" by simp
  have ex: "to_double v = v" if "\<bar>M\<bar> < 2 ^ 53"
    using vM that j unfolding u_def by (rule to_double_exact)
  show "to_double v = v" if "\<bar>v\<bar> \<le> y"
  proof -
    have "\<bar>of_int M :: real\<bar> * u \<le> of_int m * u" using that u0 unfolding vM yM by (simp add: abs_mult)
    then have "\<bar>of_int M :: real\<bar> \<le> of_int m" using u0 by simp
    then have "\<bar>M\<bar> \<le> m" by (metis of_int_abs of_int_le_iff)
    then show ?thesis using m ex by simp
  qed
  show "to_double v = v \<or> y < \<bar>to_double v\<bar>"
  proof (cases "\<bar>M\<bar> < 2 ^ 53")
    case True
    then show ?thesis using ex by simp
  next
    case False
    then have "2 ^ 53 \<le> \<bar>M\<bar>" by simp
    then have "(2 :: real) ^ 53 \<le> \<bar>of_int M\<bar>"
      by (metis of_int_abs of_int_le_iff of_int_numeral of_int_power)
    then have "2 ^ 53 * u \<le> \<bar>v\<bar>" using u0 unfolding vM by (simp add: abs_mult)
    moreover have "(2 :: real) powr of_int (53 + j) = 2 ^ 53 * u"
    proof -
      have "(2 :: real) powr of_int (53 + j) = 2 powr (53 + of_int j)" by simp
      also have "\<dots> = 2 powr 53 * 2 powr of_int j" by (rule powr_add)
      finally show ?thesis by (simp add: u_def)
    qed
    ultimately have "2 powr of_int (53 + j) \<le> \<bar>v\<bar>" by simp
    then have "2 powr of_int (53 + j) \<le> \<bar>to_double v\<bar>"
      using j by (intro to_double_abs_ge_power) simp_all
    then have "2 ^ 53 * u \<le> \<bar>to_double v\<bar>"
      using \<open>(2 :: real) powr of_int (53 + j) = 2 ^ 53 * u\<close> by simp
    moreover have "of_int m < (2 :: real) ^ 53" using m
      by (metis abs_less_iff of_int_less_iff of_int_numeral of_int_power)
    then have "y < 2 ^ 53 * u" using u0 unfolding yM by simp
    ultimately show ?thesis by simp
  qed
qed

lemma to_double_eighths:
  assumes "\<bar>a\<bar> < 2 ^ 53" and "x = of_int a / 8"
  shows "to_double x = x" and "is_double x"
proof -
  show d: "is_double x" unfolding assms(2) using assms(1) by (rule is_double_eighths)
  show "to_double x = x" using d by (rule is_double_to_double)
qed

section \<open>Coordinate mapping\<close>

lemma floor_dyadic:
  fixes m :: int
  shows "\<lfloor>of_int m / (2 :: real) ^ k\<rfloor> = m div 2 ^ k"
proof -
  have "\<lfloor>of_int m / (2 :: real) ^ k\<rfloor> = \<lfloor>of_int m / (of_int (2 ^ k) :: real)\<rfloor>" by simp
  also have "\<dots> = m div 2 ^ k" by (rule floor_divide_of_int_eq)
  finally show ?thesis .
qed

lemma abs_div_power2_le:
  fixes m :: int
  shows "\<bar>m div 2 ^ k\<bar> \<le> \<bar>m\<bar>"
proof (cases "0 \<le> m")
  case True
  have "m div 2 ^ k \<le> m div 1" using True by (intro zdiv_mono2) simp_all
  moreover have "0 \<le> m div 2 ^ k" using True by (simp add: pos_imp_zdiv_nonneg_iff)
  ultimately show ?thesis using True by simp
next
  case False
  have "m div 1 \<le> m div 2 ^ k" using False by (intro zdiv_mono2_neg) simp_all
  moreover have "m div 2 ^ k < 0" using False by (simp add: div_neg_pos_less0)
  ultimately show ?thesis using False by simp
qed

lemma is_double_times_32:
  assumes "is_double (x / 32)"
  shows "is_double x"
proof -
  obtain m j where x32: "x / 32 = of_int m * 2 powr of_int j" and m: "\<bar>m\<bar> < 2 ^ 53"
    and j: "- 1074 \<le> j"
    using assms unfolding is_double_def by blast
  have "x = 32 * (x / 32)" by simp
  also have "\<dots> = of_int m * (2 powr of_int j * 2 powr 5)" unfolding x32 by simp
  also have "\<dots> = of_int m * 2 powr of_int (j + 5)" by (simp add: powr_add)
  finally show ?thesis using m j by (intro is_doubleI[where m = m and j = "j + 5"]) auto
qed

text \<open>
  The quotient by 32 of a double is a double unless it underflows; its floor times 32 is
  a double again.
\<close>

lemma chunk_coordinate_exact:
  assumes d: "is_double (x / 32)"
  shows "fdiv x 32 = x / 32"
    and "fmul 32 (of_int \<lfloor>x / 32\<rfloor>) = 32 * of_int \<lfloor>x / 32\<rfloor>"
proof -
  obtain m j where x32: "x / 32 = of_int m * 2 powr of_int j" and m: "\<bar>m\<bar> < 2 ^ 53"
    and j: "- 1074 \<le> j"
    using d unfolding is_double_def by blast
  define c where "c = \<lfloor>x / 32\<rfloor>"
  show "fdiv x 32 = x / 32" unfolding fdiv_def using d by (rule is_double_to_double)
  have dc: "is_double (32 * of_int c)"
  proof (cases "0 \<le> j")
    case True
    have "x / 32 = of_int (m * 2 ^ nat j)" unfolding x32 using True
      by (simp add: powr_real_of_int)
    then have "c = m * 2 ^ nat j" unfolding c_def by (metis floor_of_int)
    then have "32 * of_int c = x" using \<open>x / 32 = of_int (m * 2 ^ nat j)\<close> by simp
    then show ?thesis using is_double_times_32[OF d] by simp
  next
    case False
    define k where "k = nat (- j)"
    have "x / 32 = of_int m / 2 ^ k" unfolding x32 k_def using False
      by (simp add: powr_real_of_int field_simps)
    then have ck: "c = m div 2 ^ k" unfolding c_def by (simp add: floor_dyadic)
    have "\<bar>m div 2 ^ k\<bar> \<le> \<bar>m\<bar>" by (rule abs_div_power2_le)
    then have "\<bar>c\<bar> < 2 ^ 53" using m ck by simp
    then show ?thesis
      by (intro is_doubleI[where m = c and j = 5]) (simp_all add: powr_numeral)
  qed
  show "fmul 32 (of_int \<lfloor>x / 32\<rfloor>) = 32 * of_int \<lfloor>x / 32\<rfloor>"
    unfolding fmul_def c_def[symmetric] using dc by (rule is_double_to_double)
qed

text \<open>
  The local coordinate \<open>x - 32 * floor (x / 32)\<close> of a double \<open>x\<close> is a double when \<open>x\<close>
  is not negative or is a multiple of \<open>2 ^ - 48\<close>.
\<close>

lemma local_coordinate_exact:
  assumes d: "is_double (x / 32)" and g: "0 \<le> x \<or> x * 2 ^ 48 \<in> \<int>"
  shows "fsub x (32 * of_int \<lfloor>x / 32\<rfloor>) = x - 32 * of_int \<lfloor>x / 32\<rfloor>"
    and "fadd (32 * of_int \<lfloor>x / 32\<rfloor>) (x - 32 * of_int \<lfloor>x / 32\<rfloor>) = x"
proof -
  obtain m j where x32: "x / 32 = of_int m * 2 powr of_int j" and m: "\<bar>m\<bar> < 2 ^ 53"
    and j: "- 1074 \<le> j"
    using d unfolding is_double_def by blast
  define c where "c = \<lfloor>x / 32\<rfloor>"
  have x: "x = of_int m * 2 powr of_int (j + 5)"
  proof -
    have "x = 32 * (x / 32)" by simp
    also have "\<dots> = of_int m * (2 powr of_int j * 2 powr 5)" unfolding x32 by simp
    also have "\<dots> = of_int m * 2 powr of_int (j + 5)" by (simp add: powr_add)
    finally show ?thesis .
  qed
  have c_lo: "32 * of_int c \<le> x" and c_hi: "x < 32 * of_int c + 32"
    unfolding c_def by linarith+
  have dl: "is_double (x - 32 * of_int c)"
  proof (cases "x * 2 ^ 48 \<in> \<int>")
    case True
    then obtain n :: int where n: "x * 2 ^ 48 = of_int n" by (auto elim: Ints_cases)
    have e: "x - 32 * of_int c = of_int (n - 2 ^ 53 * c) * 2 powr of_int (- 48)"
    proof -
      have "(x - 32 * of_int c) * 2 ^ 48 = of_int (n - 2 ^ 53 * c)" using n by (simp add: algebra_simps)
      then have "x - 32 * of_int c = of_int (n - 2 ^ 53 * c) / 2 ^ 48"
        by (simp add: field_simps)
      also have "\<dots> = of_int (n - 2 ^ 53 * c) * 2 powr of_int (- 48)"
        by (simp add: powr_minus_divide powr_numeral)
      finally show ?thesis .
    qed
    have "0 \<le> (x - 32 * of_int c) * 2 ^ 48" "(x - 32 * of_int c) * 2 ^ 48 < 32 * 2 ^ 48"
      using c_lo c_hi by simp_all
    then have "0 \<le> real_of_int (n - 2 ^ 53 * c)" "real_of_int (n - 2 ^ 53 * c) < 2 ^ 53"
      using n by (simp_all add: algebra_simps)
    then have "\<bar>n - 2 ^ 53 * c\<bar> < 2 ^ 53"
      by (metis abs_of_nonneg of_int_0_le_iff of_int_less_iff of_int_numeral of_int_power)
    then show ?thesis using e by (intro is_doubleI[where m = "n - 2 ^ 53 * c" and j = "- 48"]) auto
  next
    case False
    then have x0: "0 \<le> x" using g by simp
    then have m0: "0 \<le> m" unfolding x by (simp add: zero_le_mult_iff)
    show ?thesis
    proof (cases "0 \<le> j")
      case True
      have "x / 32 = of_int (m * 2 ^ nat j)" unfolding x32 using True
        by (simp add: powr_real_of_int)
      then have "c = m * 2 ^ nat j" unfolding c_def by (metis floor_of_int)
      then have "x - 32 * of_int c = 0" using \<open>x / 32 = of_int (m * 2 ^ nat j)\<close> by simp
      then show ?thesis by simp
    next
      case j0: False
      define k where "k = nat (- j)"
      have xk: "x / 32 = of_int m / 2 ^ k" unfolding x32 k_def using j0
        by (simp add: powr_real_of_int field_simps)
      then have ck: "c = m div 2 ^ k" unfolding c_def by (simp add: floor_dyadic)
      have "(of_int m :: real) = of_int (m div 2 ^ k * 2 ^ k + m mod 2 ^ k)"
        by (simp only: div_mult_mod_eq)
      then have "of_int m = of_int (m div 2 ^ k) * (2 :: real) ^ k + of_int (m mod 2 ^ k)"
        by simp
      then have "x / 32 - of_int c = of_int (m mod 2 ^ k) / 2 ^ k"
        unfolding xk ck by (simp add: field_simps)
      then have "x - 32 * of_int c = 32 * (of_int (m mod 2 ^ k) / 2 ^ k)" by simp
      also have "\<dots> = of_int (m mod 2 ^ k) * (2 powr 5 * 2 powr of_int j)"
        unfolding k_def using j0 by (simp add: powr_real_of_int field_simps)
      also have "\<dots> = of_int (m mod 2 ^ k) * 2 powr of_int (j + 5)"
        by (simp add: powr_add)
      finally have e: "x - 32 * of_int c = of_int (m mod 2 ^ k) * 2 powr of_int (j + 5)" .
      have "0 \<le> m mod 2 ^ k" "m mod 2 ^ k \<le> m" using m0 by (simp_all add: zmod_le_nonneg_dividend)
      then have "\<bar>m mod 2 ^ k\<bar> < 2 ^ 53" using m by simp
      then show ?thesis using e j by (intro is_doubleI[where m = "m mod 2 ^ k" and j = "j + 5"]) auto
    qed
  qed
  show "fsub x (32 * of_int \<lfloor>x / 32\<rfloor>) = x - 32 * of_int \<lfloor>x / 32\<rfloor>"
    unfolding fsub_def c_def[symmetric] using dl by (rule is_double_to_double)
  show "fadd (32 * of_int \<lfloor>x / 32\<rfloor>) (x - 32 * of_int \<lfloor>x / 32\<rfloor>) = x"
    unfolding fadd_def using is_double_times_32[OF d] by (simp add: is_double_to_double)
qed

text \<open>
  A negative double that is not a multiple of \<open>2 ^ - 48\<close> lies in \<open>(- 16, 0)\<close>: its local
  coordinate lies in \<open>(16, 32)\<close>, where the doubles are the multiples of \<open>2 ^ - 48\<close>, and
  is rounded; so is what is put together from it.
\<close>

lemma roundtrip_fails:
  assumes d: "is_double (x / 32)" and neg: "x < 0" and ng: "x * 2 ^ 48 \<notin> \<int>"
  shows "fadd (fmul 32 (of_int \<lfloor>fdiv x 32\<rfloor>)) (fsub x (fmul 32 (of_int \<lfloor>fdiv x 32\<rfloor>))) \<noteq> x"
proof -
  have q: "fdiv x 32 = x / 32" unfolding fdiv_def using d by (rule is_double_to_double)
  obtain m j where x32: "x / 32 = of_int m * 2 powr of_int j" and m: "\<bar>m\<bar> < 2 ^ 53"
    using d unfolding is_double_def by blast
  have x: "x = of_int m * 2 powr of_int (j + 5)"
  proof -
    have "x = 32 * (x / 32)" by simp
    also have "\<dots> = of_int m * (2 powr of_int j * 2 powr 5)" unfolding x32 by simp
    also have "\<dots> = of_int m * 2 powr of_int (j + 5)" by (simp add: powr_add)
    finally show ?thesis .
  qed
  have j: "j + 5 < - 48"
  proof (rule ccontr)
    assume "\<not> j + 5 < - 48"
    then have "0 \<le> j + 53" by simp
    have pp: "(2 :: real) powr of_int (j + 5) * 2 ^ 48 = 2 powr of_int (j + 53)"
    proof -
      have "real_of_int (j + 53) = of_int (j + 5) + 48" by simp
      then have "(2 :: real) powr of_int (j + 53) = 2 powr (of_int (j + 5) + 48)" by (rule arg_cong)
      also have "\<dots> = 2 powr of_int (j + 5) * 2 powr 48" by (rule powr_add)
      finally show ?thesis by simp
    qed
    have "(2 :: real) powr of_int (j + 53)
            = (if 0 \<le> j + 53 then 2 ^ nat (j + 53) else inverse (2 ^ nat (- (j + 53))))"
      by (rule powr_real_of_int) simp
    then have pr: "(2 :: real) powr of_int (j + 53) = 2 ^ nat (j + 53)"
      using \<open>0 \<le> j + 53\<close> by (simp only: if_True)
    have "x * 2 ^ 48 = of_int m * (2 powr of_int (j + 5) * 2 ^ 48)" unfolding x by simp
    also have "\<dots> = of_int m * 2 powr of_int (j + 53)" by (simp only: pp)
    also have "\<dots> = of_int (m * 2 ^ nat (j + 53))" by (simp only: pr) simp
    finally show False using ng by (metis Ints_of_int)
  qed
  have small: "- 16 < x"
  proof -
    have "(2 :: real) powr of_int (j + 5) \<le> 2 powr of_int (- 49)" using j by simp
    then have p: "(2 :: real) powr of_int (j + 5) \<le> 1 / 2 ^ 49" by (simp add: powr_minus_divide)
    have am: "\<bar>of_int m :: real\<bar> < 2 ^ 53" using m
      by (metis of_int_abs of_int_less_iff of_int_numeral of_int_power)
    have "\<bar>x\<bar> = \<bar>of_int m\<bar> * 2 powr of_int (j + 5)" unfolding x by (simp add: abs_mult)
    also have "\<dots> \<le> \<bar>of_int m\<bar> * (1 / 2 ^ 49)" using p by (intro mult_left_mono) simp_all
    also have "\<dots> < 2 ^ 53 * (1 / 2 ^ 49)" using am by (intro mult_strict_right_mono) simp_all
    finally show ?thesis by simp
  qed
  have c: "\<lfloor>x / 32\<rfloor> = - 1" using neg small by (simp add: floor_eq_iff)
  have a: "fmul 32 (of_int (- 1)) = - 32"
    unfolding fmul_def using is_double_to_double[OF is_double_of_int[of "- 32"]] by simp
  define R where "R = round_even ((x + 32) * 2 ^ 48)"
  have l: "fsub x (- 32) = of_int R / 2 ^ 48"
    unfolding fsub_def R_def using neg small
    by (simp only: diff_minus_eq_add) (intro to_double_eval; simp)
  have "of_int (2 ^ 52) \<le> (x + 32) * 2 ^ 48" using small by simp
  then have R1: "2 ^ 52 \<le> R" unfolding R_def by (rule round_even_ge)
  have "(x + 32) * 2 ^ 48 \<le> of_int (2 ^ 53)" using neg by simp
  then have R2: "R \<le> 2 ^ 53" unfolding R_def by (rule round_even_le)
  have bk: "fadd (- 32) (of_int R / 2 ^ 48) = of_int (R - 2 ^ 53) / 2 ^ 48"
  proof -
    have e: "- 32 + of_int R / 2 ^ 48 = (of_int (R - 2 ^ 53) / 2 ^ 48 :: real)"
      by (simp add: field_simps)
    have "is_double (of_int (R - 2 ^ 53) / 2 ^ 48)"
      using R1 R2 by (intro is_doubleI[where m = "R - 2 ^ 53" and j = "- 48"])
        (simp_all add: powr_minus_divide)
    then show ?thesis unfolding fadd_def e by (rule is_double_to_double)
  qed
  have "of_int (R - 2 ^ 53) / 2 ^ 48 \<noteq> x"
  proof
    assume "of_int (R - 2 ^ 53) / 2 ^ 48 = x"
    then have "x * 2 ^ 48 = of_int (R - 2 ^ 53)" by simp
    then show False using ng by (metis Ints_of_int)
  qed
  then show ?thesis unfolding q c a l bk .
qed

lemma roundtrip_iff:
  assumes d: "is_double (x / 32)"
  shows "fadd (fmul 32 (of_int \<lfloor>fdiv x 32\<rfloor>)) (fsub x (fmul 32 (of_int \<lfloor>fdiv x 32\<rfloor>))) = x
           \<longleftrightarrow> 0 \<le> x \<or> x * 2 ^ 48 \<in> \<int>"
proof
  assume "fadd (fmul 32 (of_int \<lfloor>fdiv x 32\<rfloor>)) (fsub x (fmul 32 (of_int \<lfloor>fdiv x 32\<rfloor>))) = x"
  then show "0 \<le> x \<or> x * 2 ^ 48 \<in> \<int>" using roundtrip_fails[OF d] by fastforce
next
  assume "0 \<le> x \<or> x * 2 ^ 48 \<in> \<int>"
  then show "fadd (fmul 32 (of_int \<lfloor>fdiv x 32\<rfloor>)) (fsub x (fmul 32 (of_int \<lfloor>fdiv x 32\<rfloor>))) = x"
    by (simp only: chunk_coordinate_exact[OF d] local_coordinate_exact[OF d])
qed

text \<open>The roundings that occur at the coordinates of the runs below.\<close>

lemma c2_double_1: "to_double (- (3602879701896397 / 1152921504606846976)) = - (3602879701896397 / 1152921504606846976)"
  by (subst to_double_eval[where n = 61]) (simp_all add: round_even_def)

lemma c2_double_2: "to_double (- 32) = - 32"
  by (subst to_double_eval[where n = 47]) (simp_all add: round_even_def)

lemma c2_double_3: "to_double (1149318624904950579 / 36028797018963968) = 4489525878534963 / 140737488355328"
  by (subst to_double_eval[where n = 48]) (simp_all add: round_even_def)

lemma c2_double_4: "to_double (- (14073748835533 / 140737488355328)) = - (14073748835533 / 140737488355328)"
  by (subst to_double_eval[where n = 56]) (simp_all add: round_even_def)

lemma c2_double_5: "to_double (- (1 / 36893488147419103232)) = - (1 / 36893488147419103232)"
  by (subst to_double_eval[where n = 117]) (simp_all add: round_even_def)

lemma c2_double_6: "to_double (36893488147419103231 / 1152921504606846976) = 32"
  by (subst to_double_eval[where n = 48]) (simp_all add: round_even_def)

lemma c2_double_7: "to_double (3602879701896397 / 36028797018963968) = 3602879701896397 / 36028797018963968"
  by (subst to_double_eval[where n = 56]) (simp_all add: round_even_def)

lemmas c2_double_evals = c2_double_1 c2_double_2 c2_double_3 c2_double_4 c2_double_5
  c2_double_6 c2_double_7

text \<open>
  C2 (amended to what the code does). For the chunk width 32 of the source and doubles
  \<open>x\<close>, \<open>z\<close> whose quotient by 32 is a double, as it is unless it underflows,
  \<open>worldToChunkCoords\<close> returns the chunk \<open>(floor (x / 32), floor (z / 32))\<close> and the
  local coordinate \<open>(lx, y, lz)\<close>, where \<open>lx\<close> and \<open>lz\<close> are the doubles nearest to
  \<open>x - 32 * cx\<close> and \<open>z - 32 * cz\<close>. The sum \<open>32 * cx + lx\<close>, in the arithmetic of the
  language, gives back \<open>x\<close> exactly when \<open>x\<close> is not negative or is a multiple of
  \<open>2 ^ - 48\<close>, as every integer and every double of magnitude 16 or more is; \<open>lx\<close> is then
  \<open>x - 32 * cx\<close> itself. The same holds of \<open>z\<close>.
\<close>

theorem worldToChunkCoords_double_roundtrip:
  fixes w :: "('c, 'd) World" and x y z :: real
  assumes "chunkSize_width w = 32" and "is_double (x / 32)" and "is_double (z / 32)"
  shows "chunk (worldToChunkCoords_double w x y z) = (\<lfloor>x / 32\<rfloor>, \<lfloor>z / 32\<rfloor>)
       \<and> block (worldToChunkCoords_double w x y z)
           = \<lparr>vx = to_double (x - 32 * of_int \<lfloor>x / 32\<rfloor>), vy = y,
              vz = to_double (z - 32 * of_int \<lfloor>z / 32\<rfloor>)\<rparr>
       \<and> (fadd (fmul (chunkSize_width w)
                   (of_int (fst (chunk (worldToChunkCoords_double w x y z)))))
               (vx (block (worldToChunkCoords_double w x y z))) = x
            \<longleftrightarrow> 0 \<le> x \<or> x * 2 ^ 48 \<in> \<int>)
       \<and> (fadd (fmul (chunkSize_width w)
                   (of_int (snd (chunk (worldToChunkCoords_double w x y z)))))
               (vz (block (worldToChunkCoords_double w x y z))) = z
            \<longleftrightarrow> 0 \<le> z \<or> z * 2 ^ 48 \<in> \<int>)
       \<and> (0 \<le> x \<or> x * 2 ^ 48 \<in> \<int>
            \<longrightarrow> vx (block (worldToChunkCoords_double w x y z)) = x - 32 * of_int \<lfloor>x / 32\<rfloor>)
       \<and> (0 \<le> z \<or> z * 2 ^ 48 \<in> \<int>
            \<longrightarrow> vz (block (worldToChunkCoords_double w x y z)) = z - 32 * of_int \<lfloor>z / 32\<rfloor>)"
proof -
  note cx = chunk_coordinate_exact[OF assms(2)] and cz = chunk_coordinate_exact[OF assms(3)]
  have c: "chunk (worldToChunkCoords_double w x y z) = (\<lfloor>x / 32\<rfloor>, \<lfloor>z / 32\<rfloor>)"
    by (simp add: worldToChunkCoords_double_def Let_def assms(1) cx(1) cz(1))
  have b: "block (worldToChunkCoords_double w x y z)
           = \<lparr>vx = fsub x (fmul 32 (of_int \<lfloor>fdiv x 32\<rfloor>)), vy = y,
              vz = fsub z (fmul 32 (of_int \<lfloor>fdiv z 32\<rfloor>))\<rparr>"
    by (simp add: worldToChunkCoords_double_def Let_def assms(1))
  have b': "block (worldToChunkCoords_double w x y z)
           = \<lparr>vx = to_double (x - 32 * of_int \<lfloor>x / 32\<rfloor>), vy = y,
              vz = to_double (z - 32 * of_int \<lfloor>z / 32\<rfloor>)\<rparr>"
    unfolding b by (simp only: cx cz fsub_def)
  have rx: "fadd (fmul (chunkSize_width w)
                   (of_int (fst (chunk (worldToChunkCoords_double w x y z)))))
               (vx (block (worldToChunkCoords_double w x y z)))
           = fadd (fmul 32 (of_int \<lfloor>fdiv x 32\<rfloor>)) (fsub x (fmul 32 (of_int \<lfloor>fdiv x 32\<rfloor>)))"
    by (simp add: worldToChunkCoords_double_def Let_def assms(1))
  have rz: "fadd (fmul (chunkSize_width w)
                   (of_int (snd (chunk (worldToChunkCoords_double w x y z)))))
               (vz (block (worldToChunkCoords_double w x y z)))
           = fadd (fmul 32 (of_int \<lfloor>fdiv z 32\<rfloor>)) (fsub z (fmul 32 (of_int \<lfloor>fdiv z 32\<rfloor>)))"
    by (simp add: worldToChunkCoords_double_def Let_def assms(1))
  have lx: "vx (block (worldToChunkCoords_double w x y z)) = x - 32 * of_int \<lfloor>x / 32\<rfloor>"
    if "0 \<le> x \<or> x * 2 ^ 48 \<in> \<int>"
    unfolding b using local_coordinate_exact(1)[OF assms(2) that] by (simp add: cx)
  have lz: "vz (block (worldToChunkCoords_double w x y z)) = z - 32 * of_int \<lfloor>z / 32\<rfloor>"
    if "0 \<le> z \<or> z * 2 ^ 48 \<in> \<int>"
    unfolding b using local_coordinate_exact(1)[OF assms(3) that] by (simp add: cz)
  show ?thesis
    using c b' lx lz
    unfolding rx rz roundtrip_iff[OF assms(2)] roundtrip_iff[OF assms(3)]
    by blast
qed

theorem worldToChunkCoords_double_roundtrip_witness:
  "chunkSize_width empty_world = 32
   \<and> is_double (- 40 / 32) \<and> is_double (3602879701896397 / 36028797018963968 / 32)
   \<and> worldToChunkCoords_double empty_world (- 40) 7 (3602879701896397 / 36028797018963968)
       = \<lparr>chunk = (- 2, 0),
          block = \<lparr>vx = 24, vy = 7, vz = 3602879701896397 / 36028797018963968\<rparr>\<rparr>
   \<and> fadd (fmul (chunkSize_width empty_world) (of_int (- 2))) 24 = - 40
   \<and> fadd (fmul (chunkSize_width empty_world) (of_int 0)) (3602879701896397 / 36028797018963968)
       = 3602879701896397 / 36028797018963968"
proof -
  have a: "is_double (- 40 / 32)"
    by (rule is_doubleI[where m = "- 5" and j = "- 2"]) (simp_all add: powr_minus_divide)
  have b: "is_double (3602879701896397 / 36028797018963968 / 32)"
    by (rule is_doubleI[where m = "3602879701896397" and j = "- 60"])
       (simp_all add: powr_minus_divide)
  have c: "chunkSize_width empty_world = 32"
    by (simp add: empty_world_def new_World_def)
  have gx: "(0 :: real) \<le> - 40 \<or> (- 40 :: real) * 2 ^ 48 \<in> \<int>" by simp
  have gz: "(0 :: real) \<le> 3602879701896397 / 36028797018963968
            \<or> (3602879701896397 / 36028797018963968 :: real) * 2 ^ 48 \<in> \<int>"
    by simp
  have fx: "\<lfloor>(- 40 :: real) / 32\<rfloor> = - 2" by simp
  have fz: "\<lfloor>(3602879701896397 / 36028797018963968 :: real) / 32\<rfloor> = 0" by simp
  have lx: "(- 40 :: real) - 32 * of_int (- 2) = 24" by simp
  have lz: "(3602879701896397 / 36028797018963968 :: real) - 32 * of_int 0 = 3602879701896397 / 36028797018963968"
    by simp
  define r where "r = worldToChunkCoords_double empty_world (- 40) 7 (3602879701896397 / 36028797018963968)"
  note t = worldToChunkCoords_double_roundtrip[OF c a b, of 7, unfolded fx fz lx lz,
      folded r_def]
  have ch: "chunk r = (- 2, 0)" using t by blast
  have bl: "block r = \<lparr>vx = to_double 24, vy = 7,
                       vz = to_double (3602879701896397 / 36028797018963968)\<rparr>"
    using t by blast
  have bx: "vx (block r) = 24" using t gx by blast
  have bz: "vz (block r) = 3602879701896397 / 36028797018963968" using t gz by blast
  have by7: "vy (block r) = 7" unfolding bl by simp
  have e: "r = \<lparr>chunk = (- 2, 0),
               block = \<lparr>vx = 24, vy = 7, vz = 3602879701896397 / 36028797018963968\<rparr>\<rparr>"
    by (simp add: ch bx bz by7 ChunkCoords.equality Vector3.equality)
  have rx: "fadd (fmul (chunkSize_width empty_world) (of_int (fst (chunk r)))) (vx (block r))
              = - 40"
    using t gx by blast
  have rz: "fadd (fmul (chunkSize_width empty_world) (of_int (snd (chunk r)))) (vz (block r))
              = 3602879701896397 / 36028797018963968"
    using t gz by blast
  have rx': "fadd (fmul (chunkSize_width empty_world) (of_int (- 2))) 24 = - 40"
    using rx by (simp only: ch bx fst_conv)
  have rz': "fadd (fmul (chunkSize_width empty_world) (of_int 0)) (3602879701896397 / 36028797018963968)
              = 3602879701896397 / 36028797018963968"
    using rz by (simp only: ch bz snd_conv)
  show ?thesis using a b c e[unfolded r_def] rx' rz' by (intro conjI)
qed

text \<open>
  C2 does not hold on the code for every coordinate. At the double written \<open>-0.1\<close> the
  local coordinate is the double nearest to \<open>31.9\<close> and the world coordinate put together
  again is \<open>-0.10000000000000142\<close>. At \<open>- (2 ^ - 60)\<close> the local coordinate is 32, the
  width of the chunk, and the world coordinate put together again is 0.
\<close>

theorem worldToChunkCoords_double_counterexample:
  "is_double (- (3602879701896397 / 36028797018963968) / 32)
   \<and> worldToChunkCoords_double empty_world (- (3602879701896397 / 36028797018963968)) 0 0
       = \<lparr>chunk = (- 1, 0),
          block = \<lparr>vx = 4489525878534963 / 140737488355328, vy = 0, vz = 0\<rparr>\<rparr>
   \<and> fadd (fmul (chunkSize_width empty_world) (of_int (- 1))) (4489525878534963 / 140737488355328)
       = - (14073748835533 / 140737488355328)
   \<and> (- (14073748835533 / 140737488355328) :: real) \<noteq> - (3602879701896397 / 36028797018963968)
   \<and> is_double (- (1 / 1152921504606846976) / 32)
   \<and> worldToChunkCoords_double empty_world (- (1 / 1152921504606846976)) 0 0
       = \<lparr>chunk = (- 1, 0), block = \<lparr>vx = 32, vy = 0, vz = 0\<rparr>\<rparr>
   \<and> fadd (fmul (chunkSize_width empty_world) (of_int (- 1))) 32 = 0"
proof -
  have a: "is_double (- (3602879701896397 / 36028797018963968) / 32)"
    by (rule is_doubleI[where m = "-3602879701896397" and j = "- 60"])
       (simp_all add: powr_minus_divide)
  have b: "is_double (- (1 / 1152921504606846976) / 32)"
    by (rule is_doubleI[where m = "- 1" and j = "- 65"]) (simp_all add: powr_minus_divide)
  show ?thesis
    using a b
    by (simp add: worldToChunkCoords_double_def empty_world_def new_World_def
          Let_def fadd_def fsub_def fmul_def fdiv_def c2_double_evals)
qed

section \<open>Streaming\<close>

lemma set_grid:
  "set (concat (map (\<lambda>x. map (\<lambda>z. (x, z)) [c .. d]) [a .. b]))
     = {(x, z). a \<le> x \<and> x \<le> b \<and> c \<le> z \<and> z \<le> d}"
  by force

lemma set_getVisibleChunks:
  "set (getVisibleChunks w player) =
     {(x, z). \<bar>x - fst (chunk (worldToChunkCoords w (vx (position player))
                                 (vy (position player)) (vz (position player))))\<bar>
                \<le> drawDistance w
            \<and> \<bar>z - snd (chunk (worldToChunkCoords w (vx (position player))
                                 (vy (position player)) (vz (position player))))\<bar>
                \<le> drawDistance w}"
  unfolding getVisibleChunks_def Let_def set_grid by (auto simp: abs_le_iff)

lemma find_coords_None:
  "(find (\<lambda>u. fst c = fst u \<and> snd c = snd u) ks = None) = (c \<notin> set ks)"
  by (auto simp: find_None_iff prod_eq_iff)

lemma find_coords_None':
  "(find (\<lambda>v. fst v = fst c \<and> snd v = snd c) ks = None) = (c \<notin> set ks)"
  by (auto simp: find_None_iff prod_eq_iff)

text \<open>Removing, one by one, the elements that a filter selected leaves the others.\<close>

lemma fold_remove1_filter:
  "\<forall>y \<in> set ys. \<not> P y \<Longrightarrow>
   fold remove1 (filter P xs) (ys @ xs) = ys @ filter (\<lambda>x. \<not> P x) xs"
proof (induction xs arbitrary: ys)
  case Nil
  then show ?case by simp
next
  case (Cons x xs)
  show ?case
  proof (cases "P x")
    case True
    with Cons.prems have "x \<notin> set ys" by auto
    then have "remove1 x (ys @ x # xs) = ys @ xs"
      by (simp add: remove1_append)
    with True Cons.IH[OF Cons.prems] show ?thesis by simp
  next
    case False
    with Cons.prems have "\<forall>y \<in> set (ys @ [x]). \<not> P y" by auto
    from Cons.IH[OF this] False show ?thesis by simp
  qed
qed

lemma children_dispose_fold:
  "children (fold (\<lambda>c w'. case chunk_disposeInstances cls c (dataStore w') of
                     (b, store') \<Rightarrow>
                       w'\<lparr>dataStore := store', children := remove1 c (children w')\<rparr>) cs w)
   = fold remove1 cs (children w)"
  by (induction cs arbitrary: w) (auto simp: Let_def split: prod.splits)

lemma children_removeUnusedChunks:
  "children (removeUnusedChunks cls w vis) = filter (\<lambda>c. userData c \<in> set vis) (children w)"
  unfolding removeUnusedChunks_def Let_def children_dispose_fold find_coords_None'
  using fold_remove1_filter[of "[]" "\<lambda>c. userData c \<notin> set vis" "children w"] by simp

lemma userData_generateChunk:
  "map userData (children (generateChunk cls x z w)) = map userData (children w) @ [(x, z)]"
  unfolding generateChunk_def new_WorldChunk_def WorldChunk_generate_def
  by (simp add: Let_def split: prod.splits)

lemma userData_fold_generateChunk:
  "map userData (children (fold (\<lambda>c. generateChunk cls (fst c) (snd c)) ks w))
     = map userData (children w) @ ks"
  by (induction ks arbitrary: w) (simp_all add: userData_generateChunk)

lemma set_getChunksToAdd:
  "set (getChunksToAdd w vis) = set vis - userData ` set (children w)"
  unfolding getChunksToAdd_def Let_def find_coords_None by auto

lemma userData_World_update:
  "map userData (children (World_update cls w player))
     = filter (\<lambda>k. k \<in> set (getVisibleChunks w player)) (map userData (children w))
       @ getChunksToAdd w (getVisibleChunks w player)"
  unfolding World_update_def Let_def userData_fold_generateChunk children_removeUnusedChunks
  by (simp add: filter_map comp_def)

text \<open>
  C1. After \<open>World.update(player)\<close>, for a chunk width other than zero, the set of the
  chunk coordinates of the world's children (a chunk whose generation is deferred is a
  child from the moment it is created) is exactly the square of the coordinates
  \<open>(cx, cz)\<close> with \<open>|cx - ocx| \<le> drawDistance\<close> and \<open>|cz - ocz| \<le> drawDistance\<close> around
  the chunk coordinate \<open>(ocx, ocz)\<close> of the player's position.
\<close>

theorem World_update_square:
  fixes w :: "('c, 'd) World"
  assumes "chunkSize_width w \<noteq> 0"
  shows "set (map userData (children (World_update cls w player))) =
     {(cx, cz).
        \<bar>cx - fst (chunk (worldToChunkCoords w (vx (position player))
                           (vy (position player)) (vz (position player))))\<bar>
          \<le> drawDistance w
      \<and> \<bar>cz - snd (chunk (worldToChunkCoords w (vx (position player))
                           (vy (position player)) (vz (position player))))\<bar>
          \<le> drawDistance w}"
proof -
  have "set (map userData (children (World_update cls w player)))
      = (userData ` set (children w) \<inter> set (getVisibleChunks w player))
        \<union> (set (getVisibleChunks w player) - userData ` set (children w))"
    unfolding userData_World_update by (auto simp: set_getChunksToAdd)
  also have "\<dots> = set (getVisibleChunks w player)" by blast
  finally show ?thesis by (simp only: set_getVisibleChunks)
qed

lemma stream_world_update:
  "map userData (children (World_update grid_class stream_world stream_player))
     = [(1, - 1), (0, - 2), (0, - 1), (0, 0), (1, - 2), (1, 0), (2, - 2), (2, - 1), (2, 0)]"
  by code_simp

theorem World_update_square_witness:
  "chunkSize_width stream_world \<noteq> 0
   \<and> set (map userData (children (World_update grid_class stream_world stream_player)))
       = {(cx, cz). \<bar>cx - 1\<bar> \<le> 1 \<and> \<bar>cz - (- 1)\<bar> \<le> 1}
   \<and> map userData (children (World_update grid_class stream_world stream_player))
       = [(1, - 1), (0, - 2), (0, - 1), (0, 0), (1, - 2), (1, 0), (2, - 2), (2, - 1), (2, 0)]"
proof -
  have h: "chunkSize_width stream_world \<noteq> 0"
    by (simp add: stream_world_def new_World_def)
  have c: "chunk (worldToChunkCoords stream_world (vx (position stream_player))
                    (vy (position stream_player)) (vz (position stream_player))) = (1, - 1)"
    by (simp add: stream_world_def stream_player_def new_World_def new_Player_def
        worldToChunkCoords_def)
  have d: "drawDistance stream_world = 1"
    by (simp add: stream_world_def new_World_def)
  have sq: "set (map userData (children (World_update grid_class stream_world stream_player)))
       = {(cx, cz). \<bar>cx - 1\<bar> \<le> 1 \<and> \<bar>cz - (- 1)\<bar> \<le> 1}"
    using World_update_square[OF h, of grid_class stream_player]
    by (simp only: c d fst_conv snd_conv)
  from h sq stream_world_update show ?thesis by (intro conjI)
qed

section \<open>Block queries and edits\<close>

lemma getChunk_None_iff:
  "getChunk w cx cz = None \<longleftrightarrow> (cx, cz) \<notin> userData ` set (children w)"
  by (auto simp: getChunk_def find_None_iff prod_eq_iff image_iff)

text \<open>
  C9. \<open>World.getBlock\<close> is a total function into an optional block. For a chunk width
  other than zero it returns \<open>None\<close> when no child of the world has the chunk
  coordinate \<open>(floor (x / W), floor (z / W))\<close>, it returns \<open>None\<close> when the child that
  \<open>getChunk\<close> finds there is not loaded, and otherwise it returns what that chunk's
  \<open>getBlock\<close> returns at the local coordinate \<open>(x - W * cx, y, z - W * cz)\<close>.
\<close>

theorem World_getBlock_absent_or_delegated:
  fixes w :: "('c, 'd) World" and x y z :: real
  assumes "chunkSize_width w \<noteq> 0"
  shows "((\<lfloor>x / chunkSize_width w\<rfloor>, \<lfloor>z / chunkSize_width w\<rfloor>) \<notin> userData ` set (children w)
            \<longrightarrow> World_getBlock cls w x y z = None)
       \<and> (\<forall>c. getChunk w \<lfloor>x / chunkSize_width w\<rfloor> \<lfloor>z / chunkSize_width w\<rfloor> = Some c
                \<and> \<not> loaded c
            \<longrightarrow> World_getBlock cls w x y z = None)
       \<and> (\<forall>c. getChunk w \<lfloor>x / chunkSize_width w\<rfloor> \<lfloor>z / chunkSize_width w\<rfloor> = Some c
                \<and> loaded c
            \<longrightarrow> World_getBlock cls w x y z
                  = chunk_getBlock cls c
                      (x - chunkSize_width w * of_int \<lfloor>x / chunkSize_width w\<rfloor>) y
                      (z - chunkSize_width w * of_int \<lfloor>z / chunkSize_width w\<rfloor>))"
  by (simp add: World_getBlock_def worldToChunkCoords_def Let_def getChunk_None_iff[symmetric])

theorem World_getBlock_absent_or_delegated_witness:
  "chunkSize_width partly_loaded_world \<noteq> 0
   \<and> World_getBlock grid_class partly_loaded_world (- 5) 2 3 = None
   \<and> World_getBlock grid_class partly_loaded_world 33 2 3 = None
   \<and> World_getBlock grid_class partly_loaded_world 1 2 3
       = Some \<lparr>block_id = 3, instanceId = Some 0\<rparr>
   \<and> World_getBlock grid_class partly_loaded_world 1 200 3 = None"
  using World_getBlock_absent_or_delegated[of partly_loaded_world "- 5" 3 grid_class 2]
        World_getBlock_absent_or_delegated[of partly_loaded_world 33 3 grid_class 2]
        World_getBlock_absent_or_delegated[of partly_loaded_world 1 3 grid_class 2]
        World_getBlock_absent_or_delegated[of partly_loaded_world 1 3 grid_class 200]
  by (simp add: partly_loaded_world_def new_World_def stone_chunk_def getChunk_def
      grid_class_def)

text \<open>
  C8. For a chunk width other than zero and every world coordinate, \<open>World.addBlock\<close>
  and \<open>World.removeBlock\<close> leave the world as it is when \<open>getChunk\<close> finds no chunk at
  the chunk coordinate of the position. When it finds one, they call the chunk's
  \<open>addBlock\<close> (\<open>removeBlock\<close>) at the local coordinate and then, whatever that call
  did, go through the six axis-adjacent world positions \<open>(x - 1, y, z)\<close>,
  \<open>(x + 1, y, z)\<close>, \<open>(x, y - 1, z)\<close>, \<open>(x, y + 1, z)\<close>, \<open>(x, y, z - 1)\<close>,
  \<open>(x, y, z + 1)\<close>, in this order, and no other: \<open>addBlock\<close> with \<open>hideBlock\<close>, which
  deletes the instance of a position whose chunk exists and reports it obscured,
  \<open>removeBlock\<close> with \<open>revealBlock\<close>, which asks the chunk of the position, if it
  exists, to add the instance.
\<close>

theorem World_addBlock_removeBlock_neighbours:
  fixes w :: "('c, 'd) World" and x y z :: real
  assumes "chunkSize_width w \<noteq> 0"
  shows "World_addBlock cls x y z blockId w =
           (case getChunk w \<lfloor>x / chunkSize_width w\<rfloor> \<lfloor>z / chunkSize_width w\<rfloor> of
              None \<Rightarrow> w
            | Some c \<Rightarrow>
                fold (\<lambda>(nx, ny, nz). hideBlock cls nx ny nz)
                  [(x - 1, y, z), (x + 1, y, z), (x, y - 1, z), (x, y + 1, z), (x, y, z - 1),
                   (x, y, z + 1)]
                  (invoke (chunk_addBlock cls
                             (x - chunkSize_width w * of_int \<lfloor>x / chunkSize_width w\<rfloor>) y
                             (z - chunkSize_width w * of_int \<lfloor>z / chunkSize_width w\<rfloor>)
                             blockId)
                     c w))
       \<and> World_removeBlock cls x y z w =
           (case getChunk w \<lfloor>x / chunkSize_width w\<rfloor> \<lfloor>z / chunkSize_width w\<rfloor> of
              None \<Rightarrow> w
            | Some c \<Rightarrow>
                fold (\<lambda>(nx, ny, nz). revealBlock cls nx ny nz)
                  [(x - 1, y, z), (x + 1, y, z), (x, y - 1, z), (x, y + 1, z), (x, y, z - 1),
                   (x, y, z + 1)]
                  (invoke (chunk_removeBlock cls
                             (x - chunkSize_width w * of_int \<lfloor>x / chunkSize_width w\<rfloor>) y
                             (z - chunkSize_width w * of_int \<lfloor>z / chunkSize_width w\<rfloor>))
                     c w))
       \<and> hideBlock cls x y z w =
           (case getChunk w \<lfloor>x / chunkSize_width w\<rfloor> \<lfloor>z / chunkSize_width w\<rfloor> of
              None \<Rightarrow> w
            | Some c \<Rightarrow>
                if chunk_isBlockObscured cls c
                     (x - chunkSize_width w * of_int \<lfloor>x / chunkSize_width w\<rfloor>) y
                     (z - chunkSize_width w * of_int \<lfloor>z / chunkSize_width w\<rfloor>)
                then invoke (chunk_deleteBlockInstance cls
                               (x - chunkSize_width w * of_int \<lfloor>x / chunkSize_width w\<rfloor>) y
                               (z - chunkSize_width w * of_int \<lfloor>z / chunkSize_width w\<rfloor>))
                       c w
                else w)
       \<and> revealBlock cls x y z w =
           (case getChunk w \<lfloor>x / chunkSize_width w\<rfloor> \<lfloor>z / chunkSize_width w\<rfloor> of
              None \<Rightarrow> w
            | Some c \<Rightarrow>
                invoke (chunk_addBlockInstance cls
                          (x - chunkSize_width w * of_int \<lfloor>x / chunkSize_width w\<rfloor>) y
                          (z - chunkSize_width w * of_int \<lfloor>z / chunkSize_width w\<rfloor>)) c w)"
proof (intro conjI)
  show "World_addBlock cls x y z blockId w =
           (case getChunk w \<lfloor>x / chunkSize_width w\<rfloor> \<lfloor>z / chunkSize_width w\<rfloor> of
              None \<Rightarrow> w
            | Some c \<Rightarrow>
                fold (\<lambda>(nx, ny, nz). hideBlock cls nx ny nz)
                  [(x - 1, y, z), (x + 1, y, z), (x, y - 1, z), (x, y + 1, z), (x, y, z - 1),
                   (x, y, z + 1)]
                  (invoke (chunk_addBlock cls
                             (x - chunkSize_width w * of_int \<lfloor>x / chunkSize_width w\<rfloor>) y
                             (z - chunkSize_width w * of_int \<lfloor>z / chunkSize_width w\<rfloor>)
                             blockId)
                     c w))"
    by (simp only: World_addBlock_def worldToChunkCoords_def Let_def ChunkCoords.simps
        fst_conv snd_conv Vector3.simps fold_simps o_apply case_prod_conv id_apply)
  show "World_removeBlock cls x y z w =
           (case getChunk w \<lfloor>x / chunkSize_width w\<rfloor> \<lfloor>z / chunkSize_width w\<rfloor> of
              None \<Rightarrow> w
            | Some c \<Rightarrow>
                fold (\<lambda>(nx, ny, nz). revealBlock cls nx ny nz)
                  [(x - 1, y, z), (x + 1, y, z), (x, y - 1, z), (x, y + 1, z), (x, y, z - 1),
                   (x, y, z + 1)]
                  (invoke (chunk_removeBlock cls
                             (x - chunkSize_width w * of_int \<lfloor>x / chunkSize_width w\<rfloor>) y
                             (z - chunkSize_width w * of_int \<lfloor>z / chunkSize_width w\<rfloor>))
                     c w))"
    by (simp only: World_removeBlock_def worldToChunkCoords_def Let_def ChunkCoords.simps
        fst_conv snd_conv Vector3.simps fold_simps o_apply case_prod_conv id_apply)
  show "hideBlock cls x y z w =
           (case getChunk w \<lfloor>x / chunkSize_width w\<rfloor> \<lfloor>z / chunkSize_width w\<rfloor> of
              None \<Rightarrow> w
            | Some c \<Rightarrow>
                if chunk_isBlockObscured cls c
                     (x - chunkSize_width w * of_int \<lfloor>x / chunkSize_width w\<rfloor>) y
                     (z - chunkSize_width w * of_int \<lfloor>z / chunkSize_width w\<rfloor>)
                then invoke (chunk_deleteBlockInstance cls
                               (x - chunkSize_width w * of_int \<lfloor>x / chunkSize_width w\<rfloor>) y
                               (z - chunkSize_width w * of_int \<lfloor>z / chunkSize_width w\<rfloor>))
                       c w
                else w)"
    by (simp only: hideBlock_def worldToChunkCoords_def Let_def ChunkCoords.simps
        fst_conv snd_conv Vector3.simps)
  show "revealBlock cls x y z w =
           (case getChunk w \<lfloor>x / chunkSize_width w\<rfloor> \<lfloor>z / chunkSize_width w\<rfloor> of
              None \<Rightarrow> w
            | Some c \<Rightarrow>
                invoke (chunk_addBlockInstance cls
                          (x - chunkSize_width w * of_int \<lfloor>x / chunkSize_width w\<rfloor>) y
                          (z - chunkSize_width w * of_int \<lfloor>z / chunkSize_width w\<rfloor>)) c w)"
    by (simp only: revealBlock_def worldToChunkCoords_def Let_def ChunkCoords.simps
        fst_conv snd_conv Vector3.simps)
qed

lemma edit_world_getChunk:
  "getChunk edit_world \<lfloor>1 / chunkSize_width edit_world\<rfloor> \<lfloor>1 / chunkSize_width edit_world\<rfloor>
     = Some (stone_chunk (0, 0)
         [(2, 1, 1), (3, 1, 1), (2, 0, 1), (2, 2, 1), (2, 1, 0), (2, 1, 2)])"
  by (simp add: edit_world_def new_World_def stone_chunk_def getChunk_def)

lemma edit_world_hide:
  "map body (children (fold (\<lambda>(nx, ny, nz). hideBlock grid_class nx ny nz)
      [(1 - 1, 1, 1), (1 + 1, 1, 1), (1, 1 - 1, 1), (1, 1 + 1, 1), (1, 1, 1 - 1),
       (1, 1, 1 + 1)]
      (invoke (chunk_addBlock grid_class
                 (1 - chunkSize_width edit_world * of_int \<lfloor>1 / chunkSize_width edit_world\<rfloor>)
                 1
                 (1 - chunkSize_width edit_world * of_int \<lfloor>1 / chunkSize_width edit_world\<rfloor>)
                 5)
         (stone_chunk (0, 0)
            [(2, 1, 1), (3, 1, 1), (2, 0, 1), (2, 2, 1), (2, 1, 0), (2, 1, 2)])
         edit_world)))
   = [[((1, 1, 1), \<lparr>block_id = 5, instanceId = Some 0\<rparr>),
       ((2, 1, 1), \<lparr>block_id = 3, instanceId = None\<rparr>),
       ((3, 1, 1), \<lparr>block_id = 3, instanceId = Some 0\<rparr>),
       ((2, 0, 1), \<lparr>block_id = 3, instanceId = Some 0\<rparr>),
       ((2, 2, 1), \<lparr>block_id = 3, instanceId = Some 0\<rparr>),
       ((2, 1, 0), \<lparr>block_id = 3, instanceId = Some 0\<rparr>),
       ((2, 1, 2), \<lparr>block_id = 3, instanceId = Some 0\<rparr>)]]"
  apply (simp only: fold_simps o_apply case_prod_conv id_apply)
  apply (simp add: edit_world_def new_World_def stone_chunk_def hideBlock_def invoke_def
      getChunk_def grid_class_def worldToChunkCoords_def Let_def set_instance_def)
  done

theorem World_addBlock_removeBlock_neighbours_witness:
  "chunkSize_width edit_world \<noteq> 0
   \<and> World_addBlock grid_class 40 1 1 5 edit_world = edit_world
   \<and> World_removeBlock grid_class 40 1 1 edit_world = edit_world
   \<and> map body (children (World_addBlock grid_class 1 1 1 5 edit_world))
       = [[((1, 1, 1), \<lparr>block_id = 5, instanceId = Some 0\<rparr>),
           ((2, 1, 1), \<lparr>block_id = 3, instanceId = None\<rparr>),
           ((3, 1, 1), \<lparr>block_id = 3, instanceId = Some 0\<rparr>),
           ((2, 0, 1), \<lparr>block_id = 3, instanceId = Some 0\<rparr>),
           ((2, 2, 1), \<lparr>block_id = 3, instanceId = Some 0\<rparr>),
           ((2, 1, 0), \<lparr>block_id = 3, instanceId = Some 0\<rparr>),
           ((2, 1, 2), \<lparr>block_id = 3, instanceId = Some 0\<rparr>)]]"
proof -
  have h: "chunkSize_width edit_world \<noteq> 0"
    by (simp add: edit_world_def new_World_def)
  have a: "World_addBlock grid_class 40 1 1 5 edit_world = edit_world"
    using World_addBlock_removeBlock_neighbours[OF h, of grid_class 40 1 1 5, THEN conjunct1]
    by (simp add: edit_world_def new_World_def stone_chunk_def getChunk_def)
  have r: "World_removeBlock grid_class 40 1 1 edit_world = edit_world"
    using World_addBlock_removeBlock_neighbours[OF h, of grid_class 40 1 1 5,
            THEN conjunct2, THEN conjunct1]
    by (simp add: edit_world_def new_World_def stone_chunk_def getChunk_def)
  have "World_addBlock grid_class 1 1 1 5 edit_world =
      fold (\<lambda>(nx, ny, nz). hideBlock grid_class nx ny nz)
      [(1 - 1, 1, 1), (1 + 1, 1, 1), (1, 1 - 1, 1), (1, 1 + 1, 1), (1, 1, 1 - 1),
       (1, 1, 1 + 1)]
      (invoke (chunk_addBlock grid_class
                 (1 - chunkSize_width edit_world * of_int \<lfloor>1 / chunkSize_width edit_world\<rfloor>)
                 1
                 (1 - chunkSize_width edit_world * of_int \<lfloor>1 / chunkSize_width edit_world\<rfloor>)
                 5)
         (stone_chunk (0, 0)
            [(2, 1, 1), (3, 1, 1), (2, 0, 1), (2, 2, 1), (2, 1, 0), (2, 1, 2)])
         edit_world)"
    using World_addBlock_removeBlock_neighbours[OF h, of grid_class 1 1 1 5, THEN conjunct1]
    by (simp only: edit_world_getChunk option.case)
  then have b: "map body (children (World_addBlock grid_class 1 1 1 5 edit_world))
       = [[((1, 1, 1), \<lparr>block_id = 5, instanceId = Some 0\<rparr>),
           ((2, 1, 1), \<lparr>block_id = 3, instanceId = None\<rparr>),
           ((3, 1, 1), \<lparr>block_id = 3, instanceId = Some 0\<rparr>),
           ((2, 0, 1), \<lparr>block_id = 3, instanceId = Some 0\<rparr>),
           ((2, 2, 1), \<lparr>block_id = 3, instanceId = Some 0\<rparr>),
           ((2, 1, 0), \<lparr>block_id = 3, instanceId = Some 0\<rparr>),
           ((2, 1, 2), \<lparr>block_id = 3, instanceId = Some 0\<rparr>)]]"
    by (simp only: edit_world_hide)
  from h a r b show ?thesis by (intro conjI)
qed

section \<open>The fixed time step\<close>

lemma physicsStep_accumulator [simp]:
  "physicsStep cls w (ph\<lparr>accumulator := a\<rparr>) = physicsStep cls w ph"
  by (simp add: physicsStep_def fun_eq_iff)

lemma Physics_loop_steps:
  "0 < stepSize ph \<Longrightarrow> nat \<lfloor>accumulator ph / stepSize ph\<rfloor> = n \<Longrightarrow>
   Physics_loop cls w (ph, p) =
     Some (ph\<lparr>accumulator := accumulator ph - of_nat n * stepSize ph\<rparr>,
           (physicsStep cls w ph ^^ n) p)"
proof (induction n arbitrary: ph p)
  case 0
  then have "\<lfloor>accumulator ph / stepSize ph\<rfloor> < 1" by simp
  then have "accumulator ph / stepSize ph < 1" by (simp add: floor_less_iff)
  with 0 have "accumulator ph < stepSize ph" by (simp add: divide_less_eq)
  then show ?case by (subst Physics_loop.simps) simp
next
  case (Suc n)
  then have "1 \<le> \<lfloor>accumulator ph / stepSize ph\<rfloor>" by linarith
  then have "1 \<le> accumulator ph / stepSize ph" by (simp add: le_floor_iff)
  with Suc.prems have ge: "stepSize ph \<le> accumulator ph" by (simp add: le_divide_eq)
  let ?ph' = "ph\<lparr>accumulator := accumulator ph - stepSize ph\<rparr>"
  have "(accumulator ph - stepSize ph) / stepSize ph = accumulator ph / stepSize ph - 1"
    using Suc.prems by (simp add: diff_divide_distrib)
  then have "nat \<lfloor>accumulator ?ph' / stepSize ?ph'\<rfloor> = n"
    using Suc.prems by simp
  from Suc.IH[OF _ this, of "physicsStep cls w ph p"] Suc.prems(1)
  have "Physics_loop cls w (?ph', physicsStep cls w ph p) =
     Some (ph\<lparr>accumulator := accumulator ph - of_nat (Suc n) * stepSize ph\<rparr>,
           (physicsStep cls w ph ^^ Suc n) p)"
    by (simp add: funpow_swap1 algebra_simps)
  with ge show ?case by (subst Physics_loop.simps) simp
qed

lemma Physics_update_steps:
  assumes "0 < stepSize ph"
  shows "Physics_update cls dt w (ph, p) =
     Some (ph\<lparr>accumulator := accumulator ph + dt
                 - of_nat (nat \<lfloor>(accumulator ph + dt) / stepSize ph\<rfloor>) * stepSize ph\<rparr>,
           (physicsStep cls w ph ^^ nat \<lfloor>(accumulator ph + dt) / stepSize ph\<rfloor>) p)"
  unfolding Physics_update_def
  using Physics_loop_steps[of "ph\<lparr>accumulator := accumulator ph + dt\<rparr>" _ cls w p, OF _ refl] assms
  by simp

lemma remainder_bounds:
  fixes a s :: real
  assumes "0 < s" "0 \<le> a"
  shows "0 \<le> a - of_nat (nat \<lfloor>a / s\<rfloor>) * s" "a - of_nat (nat \<lfloor>a / s\<rfloor>) * s < s"
proof -
  have nn: "0 \<le> \<lfloor>a / s\<rfloor>" using assms by simp
  have eq: "a / s * s = a" using assms by simp
  have "of_int \<lfloor>a / s\<rfloor> * s \<le> a / s * s"
    using assms by (intro mult_right_mono) simp_all
  with nn eq show "0 \<le> a - of_nat (nat \<lfloor>a / s\<rfloor>) * s" by simp
  have "a / s * s < (of_int \<lfloor>a / s\<rfloor> + 1) * s"
    using assms by (intro mult_strict_right_mono) linarith+
  with nn eq show "a - of_nat (nat \<lfloor>a / s\<rfloor>) * s < s" by (simp add: algebra_simps)
qed

subsection \<open>The accumulator on doubles\<close>

lemma Physics_loop_double_step:
  "stepSize ph \<le> accumulator ph \<Longrightarrow>
   Physics_loop_double step (ph, p)
     = Physics_loop_double step (ph\<lparr>accumulator := fsub (accumulator ph) (stepSize ph)\<rparr>, step p)"
  by (subst Physics_loop_double.simps) simp

lemma Physics_loop_double_stop:
  "accumulator ph < stepSize ph \<Longrightarrow> Physics_loop_double step (ph, p) = Some (ph, p)"
  by (subst Physics_loop_double.simps) simp

text \<open>
  The roundings that occur on the accumulator in the runs below: the step size
  \<open>1 / 250\<close>, its multiples and the differences that the loop takes.
\<close>

lemma c3_double_1: "to_double (1 / 250) = 1152921504606847 / 288230376151711744"
  by (subst to_double_eval[where n = 60]) (simp_all add: round_even_def)

lemma c3_double_2: "to_double (1152921504606847 / 288230376151711744) = 1152921504606847 / 288230376151711744"
  by (subst to_double_eval[where n = 60]) (simp_all add: round_even_def)

lemma c3_double_3: "to_double (1152921504606847 / 144115188075855872) = 1152921504606847 / 144115188075855872"
  by (subst to_double_eval[where n = 59]) (simp_all add: round_even_def)

lemma c3_double_4: "to_double (3458764513820541 / 288230376151711744) = 3458764513820541 / 288230376151711744"
  by (subst to_double_eval[where n = 59]) (simp_all add: round_even_def)

lemma c3_double_5: "to_double (1152921504606847 / 72057594037927936) = 1152921504606847 / 72057594037927936"
  by (subst to_double_eval[where n = 58]) (simp_all add: round_even_def)

lemma c3_double_6: "to_double (5764607523034235 / 288230376151711744) = 5764607523034235 / 288230376151711744"
  by (subst to_double_eval[where n = 58]) (simp_all add: round_even_def)

lemma c3_double_7: "to_double (3458764513820541 / 144115188075855872) = 3458764513820541 / 144115188075855872"
  by (subst to_double_eval[where n = 58]) (simp_all add: round_even_def)

lemma c3_double_8: "to_double (8070450532247929 / 288230376151711744) = 8070450532247929 / 288230376151711744"
  by (subst to_double_eval[where n = 58]) (simp_all add: round_even_def)

lemma c3_double_9: "to_double (1152921504606847 / 36028797018963968) = 1152921504606847 / 36028797018963968"
  by (subst to_double_eval[where n = 57]) (simp_all add: round_even_def)

lemma c3_double_10: "to_double (10376293541461623 / 288230376151711744) = 1297036692682703 / 36028797018963968"
  by (subst to_double_eval[where n = 57]) (simp_all add: round_even_def)

lemma c3_double_11: "to_double (1297036692682703 / 36028797018963968) = 1297036692682703 / 36028797018963968"
  by (subst to_double_eval[where n = 57]) (simp_all add: round_even_def)

lemma c3_double_12: "to_double (9223372036854777 / 288230376151711744) = 1152921504606847 / 36028797018963968"
  by (subst to_double_eval[where n = 57]) (simp_all add: round_even_def)

lemma c3_double_13: "to_double (5764607523034235 / 144115188075855872) = 5764607523034235 / 144115188075855872"
  by (subst to_double_eval[where n = 57]) (simp_all add: round_even_def)

lemma c3_double_14: "to_double (1152921504606847 / 576460752303423488) = 1152921504606847 / 576460752303423488"
  by (subst to_double_eval[where n = 61]) (simp_all add: round_even_def)

lemma c3_double_15: "to_double (12682136550675317 / 288230376151711744) = 3170534137668829 / 72057594037927936"
  by (subst to_double_eval[where n = 57]) (simp_all add: round_even_def)

lemma c3_double_16: "to_double (3170534137668829 / 72057594037927936) = 3170534137668829 / 72057594037927936"
  by (subst to_double_eval[where n = 57]) (simp_all add: round_even_def)

lemma c3_double_17: "to_double (11529215046068469 / 288230376151711744) = 2882303761517117 / 72057594037927936"
  by (subst to_double_eval[where n = 57]) (simp_all add: round_even_def)

lemma c3_double_18: "to_double (10376293541461621 / 288230376151711744) = 2594073385365405 / 72057594037927936"
  by (subst to_double_eval[where n = 57]) (simp_all add: round_even_def)

lemma c3_double_19: "to_double (9223372036854773 / 288230376151711744) = 2305843009213693 / 72057594037927936"
  by (subst to_double_eval[where n = 57]) (simp_all add: round_even_def)

lemma c3_double_20: "to_double (8070450532247925 / 288230376151711744) = 8070450532247925 / 288230376151711744"
  by (subst to_double_eval[where n = 58]) (simp_all add: round_even_def)

lemma c3_double_21: "to_double (3458764513820539 / 144115188075855872) = 3458764513820539 / 144115188075855872"
  by (subst to_double_eval[where n = 58]) (simp_all add: round_even_def)

lemma c3_double_22: "to_double (5764607523034231 / 288230376151711744) = 5764607523034231 / 288230376151711744"
  by (subst to_double_eval[where n = 58]) (simp_all add: round_even_def)

lemma c3_double_23: "to_double (576460752303423 / 36028797018963968) = 576460752303423 / 36028797018963968"
  by (subst to_double_eval[where n = 58]) (simp_all add: round_even_def)

lemma c3_double_24: "to_double (3458764513820537 / 288230376151711744) = 3458764513820537 / 288230376151711744"
  by (subst to_double_eval[where n = 59]) (simp_all add: round_even_def)

lemma c3_double_25: "to_double (1152921504606845 / 144115188075855872) = 1152921504606845 / 144115188075855872"
  by (subst to_double_eval[where n = 59]) (simp_all add: round_even_def)

lemma c3_double_26: "to_double (1152921504606843 / 288230376151711744) = 1152921504606843 / 288230376151711744"
  by (subst to_double_eval[where n = 60]) (simp_all add: round_even_def)

lemma c3_double_27: "to_double (3458764513820541 / 72057594037927936) = 3458764513820541 / 72057594037927936"
  by (subst to_double_eval[where n = 57]) (simp_all add: round_even_def)

lemmas c3_double_evals = c3_double_1 c3_double_2 c3_double_3 c3_double_4 c3_double_5
  c3_double_6 c3_double_7 c3_double_8 c3_double_9 c3_double_10 c3_double_11 c3_double_12
  c3_double_13 c3_double_14 c3_double_15 c3_double_16 c3_double_17 c3_double_18
  c3_double_19 c3_double_20 c3_double_21 c3_double_22 c3_double_23 c3_double_24
  c3_double_25 c3_double_26 c3_double_27

lemma Physics_update_double_multiple:
  assumes s: "stepSize ph = fdiv 1 250" and a: "accumulator ph = 0" and j: "j \<le> 10"
  shows "Physics_update_double step (fmul (of_nat j) (stepSize ph)) (ph, p)
           = Some (ph, (step ^^ j) p)"
proof -
  have s': "stepSize ph = 1152921504606847 / 288230376151711744" unfolding s fdiv_def by (simp add: c3_double_evals)
  have r: "ph\<lparr>accumulator := 0\<rparr> = ph" using a by simp
  consider "j = 0" | "j = 1" | "j = 2" | "j = 3" | "j = 4" | "j = 5" | "j = 6" | "j = 7"
    | "j = 8" | "j = 9" | "j = 10"
    using j by atomize_elim arith
  then show ?thesis
    by cases
      (simp_all add: Physics_update_double_def fadd_def fsub_def fmul_def s' a r
         Physics_loop_double_step Physics_loop_double_stop c3_double_evals eval_nat_numeral)
qed

lemma Physics_updates_double_multiples:
  assumes s: "stepSize ph = fdiv 1 250" and a: "accumulator ph = 0"
      and js: "\<forall>j\<in>set js. j \<le> 10"
  shows "Physics_updates_double step (map (\<lambda>j. fmul (of_nat j) (stepSize ph)) js) (ph, p)
           = Some (ph, (step ^^ sum_list js) p)"
  using js
proof (induction js arbitrary: p)
  case Nil
  then show ?case by simp
next
  case (Cons j js)
  have "(step ^^ sum_list js) ((step ^^ j) p) = (step ^^ (sum_list js + j)) p"
    by (simp add: funpow_add)
  then show ?case using Cons
    by (simp add: Physics_update_double_multiple[OF s a] add.commute)
qed

lemma Physics_updates_double_halves:
  assumes s: "stepSize ph = fdiv 1 250" and a: "accumulator ph = 0"
  shows "Physics_updates_double step [fdiv (stepSize ph) 2, fdiv (stepSize ph) 2, stepSize ph] (ph, p)
           = Some (ph, step (step p))"
proof -
  have s': "stepSize ph = 1152921504606847 / 288230376151711744" unfolding s fdiv_def by (simp add: c3_double_evals)
  have r: "ph\<lparr>accumulator := 0\<rparr> = ph" using a by simp
  show ?thesis
    by (simp add: Physics_update_double_def fadd_def fsub_def fdiv_def s' a r
          Physics_loop_double_step Physics_loop_double_stop c3_double_evals)
qed

text \<open>
  C3 (amended to what the code does). Let the step size be \<open>1 / 250\<close> in double
  arithmetic, as the constructor computes it, and the accumulator 0. Calls
  \<open>update(j * stepSize)\<close> with at most 10 whole steps each run, together, exactly as
  many passes of the loop as the numbers \<open>j\<close> sum to, and leave the accumulator at 0,
  however that sum is split over such calls; two sequences of such calls with the
  same sum end in the same state. \<open>update(stepSize / 2)\<close> twice and then
  \<open>update(stepSize)\<close> ends in the state of \<open>update(2 * stepSize)\<close>, after two passes.
  The body of the loop is any function \<open>step\<close> on the state that it changes, the
  \<open>physicsStep cls w ph\<close> of the exact model among them.
\<close>

theorem Physics_update_double_steps:
  assumes "stepSize ph = fdiv 1 250" and "accumulator ph = 0"
      and "\<forall>j\<in>set js. j \<le> 10" and "\<forall>j\<in>set js'. j \<le> 10"
      and "sum_list js = k" and "sum_list js' = k"
  shows "Physics_updates_double step (map (\<lambda>j. fmul (of_nat j) (stepSize ph)) js) (ph, p)
           = Some (ph, (step ^^ k) p)
       \<and> Physics_updates_double step (map (\<lambda>j. fmul (of_nat j) (stepSize ph)) js') (ph, p)
           = Physics_updates_double step (map (\<lambda>j. fmul (of_nat j) (stepSize ph)) js) (ph, p)
       \<and> Physics_updates_double step
             [fdiv (stepSize ph) 2, fdiv (stepSize ph) 2, stepSize ph] (ph, p)
           = Physics_update_double step (fmul 2 (stepSize ph)) (ph, p)
       \<and> Physics_update_double step (fmul 2 (stepSize ph)) (ph, p) = Some (ph, step (step p))"
proof -
  have two: "Physics_update_double step (fmul 2 (stepSize ph)) (ph, p) = Some (ph, step (step p))"
    using Physics_update_double_multiple[OF assms(1,2), of 2 step p] by (simp add: eval_nat_numeral)
  show ?thesis
    using Physics_updates_double_multiples[OF assms(1,2,3), of step p]
      Physics_updates_double_multiples[OF assms(1,2,4), of step p]
      Physics_updates_double_halves[OF assms(1,2), of step p] two assms(5,6)
    by simp
qed

theorem Physics_update_double_steps_witness:
  "stepSize new_Physics_double = fdiv 1 250 \<and> accumulator new_Physics_double = 0
   \<and> sum_list [2, 3 :: nat] = 5 \<and> sum_list [1, 0, 4 :: nat] = 5
   \<and> Physics_updates_double Suc
         (map (\<lambda>j. fmul (of_nat j) (stepSize new_Physics_double)) [2, 3]) (new_Physics_double, 0 :: nat)
       = Some (new_Physics_double, 5)
   \<and> Physics_updates_double Suc
         (map (\<lambda>j. fmul (of_nat j) (stepSize new_Physics_double)) [1, 0, 4]) (new_Physics_double, 0 :: nat)
       = Some (new_Physics_double, 5)
   \<and> Physics_updates_double Suc
         [fdiv (stepSize new_Physics_double) 2, fdiv (stepSize new_Physics_double) 2,
          stepSize new_Physics_double] (new_Physics_double, 0 :: nat)
       = Some (new_Physics_double, 2)
   \<and> Physics_update_double Suc (fmul 2 (stepSize new_Physics_double)) (new_Physics_double, 0 :: nat)
       = Some (new_Physics_double, 2)"
proof -
  have s: "stepSize new_Physics_double = fdiv 1 250" by (simp add: new_Physics_double_def)
  have a: "accumulator new_Physics_double = 0" by (simp add: new_Physics_double_def)
  have b: "\<forall>j\<in>set [2, 3 :: nat]. j \<le> 10" by simp
  have c: "\<forall>j\<in>set [1, 0, 4 :: nat]. j \<le> 10" by simp
  have d: "sum_list [2, 3 :: nat] = 5" by simp
  have e: "sum_list [1, 0, 4 :: nat] = 5" by simp
  have f: "(Suc ^^ 5) 0 = 5" by (simp add: eval_nat_numeral)
  show ?thesis
    using Physics_update_double_steps[OF s a b c d e, of Suc 0] s a d e f
    by (simp only: numeral_2_eq_2)
qed

text \<open>
  C3 does not hold on the code for every split: the accumulator is a double and the
  subtractions of the loop round. On a new \<open>Physics\<close>, \<open>update(11 * stepSize)\<close> runs
  10 passes and leaves \<open>0.003999999999999986\<close> in the accumulator, just below the step
  size. The product \<open>12 * stepSize\<close> is computed without rounding; \<open>update(12 * stepSize)\<close>
  runs 11 passes. Eleven calls \<open>update(stepSize)\<close> run 11 passes and twelve run 12.
  The loop counts its passes here, with \<open>Suc\<close> for its body.
\<close>

theorem Physics_update_double_counterexample:
  "Physics_update_double Suc (fmul 11 (stepSize new_Physics_double)) (new_Physics_double, 0 :: nat)
     = Some (new_Physics_double\<lparr>accumulator := 1152921504606843 / 288230376151711744\<rparr>, 10)
   \<and> fmul 12 (stepSize new_Physics_double) = 12 * stepSize new_Physics_double
   \<and> Physics_update_double Suc (12 * stepSize new_Physics_double) (new_Physics_double, 0 :: nat)
     = Some (new_Physics_double\<lparr>accumulator := 1152921504606843 / 288230376151711744\<rparr>, 11)
   \<and> Physics_updates_double Suc (replicate 11 (stepSize new_Physics_double))
       (new_Physics_double, 0 :: nat)
     = Some (new_Physics_double, 11)
   \<and> Physics_updates_double Suc (replicate 12 (stepSize new_Physics_double))
       (new_Physics_double, 0 :: nat)
     = Some (new_Physics_double, 12)"
proof -
  have s: "stepSize new_Physics_double = 1152921504606847 / 288230376151711744"
    by (simp add: new_Physics_double_def fdiv_def c3_double_evals)
  have a: "accumulator new_Physics_double = 0" by (simp add: new_Physics_double_def)
  have r: "new_Physics_double\<lparr>accumulator := 0\<rparr> = new_Physics_double" using a by simp
  have one: "Physics_update_double Suc (1152921504606847 / 288230376151711744) (new_Physics_double, n)
               = Some (new_Physics_double, Suc n)" for n :: nat
    by (simp add: Physics_update_double_def fadd_def fsub_def s a r
          Physics_loop_double_step Physics_loop_double_stop c3_double_evals)
  have "Physics_update_double Suc (fmul 11 (stepSize new_Physics_double)) (new_Physics_double, 0 :: nat)
     = Some (new_Physics_double\<lparr>accumulator := 1152921504606843 / 288230376151711744\<rparr>, 10)"
    by (simp add: Physics_update_double_def fadd_def fsub_def fmul_def s a
          Physics_loop_double_step Physics_loop_double_stop c3_double_evals eval_nat_numeral)
  moreover have "fmul 12 (stepSize new_Physics_double) = 12 * stepSize new_Physics_double"
    by (simp add: fmul_def s c3_double_evals)
  moreover have "Physics_update_double Suc (12 * stepSize new_Physics_double) (new_Physics_double, 0 :: nat)
     = Some (new_Physics_double\<lparr>accumulator := 1152921504606843 / 288230376151711744\<rparr>, 11)"
    by (simp add: Physics_update_double_def fadd_def fsub_def fmul_def s a
          Physics_loop_double_step Physics_loop_double_stop c3_double_evals eval_nat_numeral)
  moreover have "Physics_updates_double Suc (replicate 11 (stepSize new_Physics_double))
       (new_Physics_double, 0 :: nat) = Some (new_Physics_double, 11)"
    unfolding s by (simp add: eval_nat_numeral one)
  moreover have "Physics_updates_double Suc (replicate 12 (stepSize new_Physics_double))
       (new_Physics_double, 0 :: nat) = Some (new_Physics_double, 12)"
    unfolding s by (simp add: eval_nat_numeral one)
  ultimately show ?thesis by (intro conjI)
qed

text \<open>
  C10. If \<open>0 \<le> accumulator < stepSize\<close> holds before a call of \<open>Physics.update(dt)\<close>
  with \<open>dt \<ge> 0\<close>, the call returns and \<open>0 \<le> accumulator < stepSize\<close> holds after it.
\<close>

theorem Physics_update_accumulator_range:
  assumes "0 \<le> accumulator ph" and "accumulator ph < stepSize ph" and "0 \<le> dt"
  shows "\<exists>ph' p'. Physics_update cls dt w (ph, p) = Some (ph', p')
           \<and> 0 \<le> accumulator ph' \<and> accumulator ph' < stepSize ph'"
proof -
  have s: "0 < stepSize ph" using assms(1,2) by simp
  have nn: "0 \<le> accumulator ph + dt" using assms(1,3) by simp
  show ?thesis
    using Physics_update_steps[OF s, of cls dt w p] remainder_bounds[OF s nn]
    by simp
qed

theorem Physics_update_accumulator_range_witness:
  "\<exists>ph' p'. Physics_update grid_class (1 / 60) (new_World () [])
               (new_Physics, new_Player \<lparr>vx = 0, vy = 2, vz = 0\<rparr>) = Some (ph', p')
           \<and> 0 \<le> accumulator ph' \<and> accumulator ph' < stepSize ph'"
  using Physics_update_accumulator_range[of new_Physics "1 / 60" grid_class "new_World () []"
          "new_Player \<lparr>vx = 0, vy = 2, vz = 0\<rparr>"]
  by (simp add: new_Physics_def)

section \<open>Collision detection and resolution\<close>

lemma square_less_imp_abs_less:
  fixes a r :: real
  assumes "a * a + b * b < r * r" "0 \<le> r"
  shows "\<bar>a\<bar> < r"
proof (rule ccontr)
  assume "\<not> \<bar>a\<bar> < r"
  then have "r \<le> \<bar>a\<bar>" by simp
  then have "r * r \<le> \<bar>a\<bar> * \<bar>a\<bar>" using assms(2) by (intro mult_mono) simp_all
  also have "\<dots> = a * a" by simp
  also have "\<dots> \<le> a * a + b * b" by simp
  finally show False using assms(1) by simp
qed

lemma clamp_extent:
  fixes p r :: real and b :: int
  assumes "\<bar>max (of_int b - 1 / 2) (min p (of_int b + 1 / 2)) - p\<bar> < r"
  shows "\<lfloor>p - r\<rfloor> \<le> b" "b \<le> \<lceil>p + r\<rceil>"
proof -
  have lo: "p - r < of_int b + 1 / 2" and hi: "of_int b - 1 / 2 < p + r"
    using assms by (auto simp: max_def min_def split: if_splits)
  have "of_int \<lfloor>p - r\<rfloor> \<le> p - r" by simp
  with lo have "real_of_int \<lfloor>p - r\<rfloor> < of_int b + 1" by linarith
  then show "\<lfloor>p - r\<rfloor> \<le> b" by linarith
  have "p + r \<le> of_int \<lceil>p + r\<rceil>" by simp
  with hi have "real_of_int b < of_int \<lceil>p + r\<rceil> + 1" by linarith
  then show "b \<le> \<lceil>p + r\<rceil>" by linarith
qed

lemma clamp_extent_y:
  fixes p h :: real and b :: int
  assumes "\<bar>max (of_int b - 1 / 2) (min (p - h / 2) (of_int b + 1 / 2)) - (p - h / 2)\<bar> < h / 2"
  shows "\<lfloor>p - h\<rfloor> \<le> b" "b \<le> \<lceil>p\<rceil>"
  using clamp_extent[of b "p - h / 2" "h / 2"] assms by simp_all

lemma in_set_grid3:
  "(x, y, z) \<in> set (concat (map (\<lambda>x. concat (map (\<lambda>y. concat (map (\<lambda>z.
        if P x y z then [(x, y, z)] else []) [z0 .. z1])) [y0 .. y1])) [x0 .. x1]))
   \<longleftrightarrow> x0 \<le> x \<and> x \<le> x1 \<and> y0 \<le> y \<and> y \<le> y1 \<and> z0 \<le> z \<and> z \<le> z1 \<and> P x y z"
  by (auto split: if_splits)

lemma set_broadPhase:
  "(bx, by, bz) \<in> set (broadPhase cls player w) \<longleftrightarrow>
     \<lfloor>vx (position player) - radius player\<rfloor> \<le> bx \<and> bx \<le> \<lceil>vx (position player) + radius player\<rceil>
   \<and> \<lfloor>vy (position player) - height player\<rfloor> \<le> by \<and> by \<le> \<lceil>vy (position player)\<rceil>
   \<and> \<lfloor>vz (position player) - radius player\<rfloor> \<le> bz \<and> bz \<le> \<lceil>vz (position player) + radius player\<rceil>
   \<and> isCandidate cls (World_getBlock cls w (of_int bx) (of_int by) (of_int bz))"
  unfolding broadPhase_def Let_def by (rule in_set_grid3)

lemma pointIn_onGround [simp]:
  "pointInPlayerBoundingCylinder p (player\<lparr>onGround := g\<rparr>)
     = pointInPlayerBoundingCylinder p player"
  by (simp add: pointInPlayerBoundingCylinder_def)

lemma closestPoint_onGround [simp]:
  "closestPoint b (player\<lparr>onGround := g\<rparr>) = closestPoint b player"
  by (simp add: closestPoint_def)

lemma verticalContact_onGround [simp]:
  "verticalContact b (player\<lparr>onGround := g\<rparr>) = verticalContact b player"
  by (simp add: verticalContact_def)

lemma narrowPhase_reports:
  "b \<in> set candidates \<Longrightarrow> pointInPlayerBoundingCylinder (closestPoint b player) player \<Longrightarrow>
   b \<in> col_block ` set (fst (narrowPhase candidates player))"
proof (induction candidates arbitrary: player)
  case Nil
  then show ?case by simp
next
  case (Cons c candidates)
  show ?case
  proof (cases "b = c")
    case True
    with Cons.prems(2) show ?thesis by (simp add: Let_def)
  next
    case False
    with Cons.prems have "b \<in> set candidates" by simp
    from Cons.IH[OF this] Cons.prems(2) show ?thesis
      by (simp add: Let_def)
  qed
qed

lemma sqrt_225_1024: "sqrt (225 / 1024) = 15 / 32"
  by (rule real_sqrt_unique) (simp_all add: power2_eq_square)

lemma corner_broadPhase:
  "broadPhase grid_class corner_player corner_world = [(0, 0, 0), (1, 1, 0)]"
  by code_simp

lemma corner_narrowPhase_overlaps:
  "map overlap (fst (narrowPhase [(0, 0, 0), (1, 1, 0)] corner_player)) = [1 / 8, 1 / 32]"
  by (simp add: corner_player_def new_Player_def closestPoint_def
      pointInPlayerBoundingCylinder_def Let_def sqrt_225_1024)

text \<open>
  C7. For a player with a non-negative radius and every world: a block at integer
  coordinates that is a candidate (\<open>World.getBlock\<close> returns a block whose id is
  neither 0 nor the empty id) and whose closest point to the centre of the player's
  bounding cylinder passes the narrow-phase test is in the list that \<open>broadPhase\<close>
  returns, and \<open>narrowPhase\<close> on that list reports a collision with it.
\<close>

theorem broadPhase_sound:
  assumes "0 \<le> radius player"
      and "isCandidate cls (World_getBlock cls w (of_int bx) (of_int by) (of_int bz))"
      and "pointInPlayerBoundingCylinder (closestPoint (bx, by, bz) player) player"
  shows "(bx, by, bz) \<in> set (broadPhase cls player w)
       \<and> (bx, by, bz) \<in> col_block ` set (fst (narrowPhase (broadPhase cls player w) player))"
proof -
  let ?c = "closestPoint (bx, by, bz) player"
  from assms(3) have y: "\<bar>vy ?c - (vy (position player) - height player / 2)\<bar> < height player / 2"
    and xz: "(vx ?c - vx (position player)) * (vx ?c - vx (position player))
           + (vz ?c - vz (position player)) * (vz ?c - vz (position player))
           < radius player * radius player"
    by (simp_all add: pointInPlayerBoundingCylinder_def Let_def)
  from xz assms(1) have x: "\<bar>vx ?c - vx (position player)\<bar> < radius player"
    by (rule square_less_imp_abs_less)
  from xz have "(vz ?c - vz (position player)) * (vz ?c - vz (position player))
           + (vx ?c - vx (position player)) * (vx ?c - vx (position player))
           < radius player * radius player" by (simp add: add.commute)
  from this assms(1) have z: "\<bar>vz ?c - vz (position player)\<bar> < radius player"
    by (rule square_less_imp_abs_less)
  have "(bx, by, bz) \<in> set (broadPhase cls player w)"
    unfolding set_broadPhase
    using clamp_extent[of bx "vx (position player)" "radius player"]
          clamp_extent[of bz "vz (position player)" "radius player"]
          clamp_extent_y[of "by" "vy (position player)" "height player"]
          x y z assms(2)
    by (simp add: closestPoint_def)
  with narrowPhase_reports[OF this assms(3)] show ?thesis by simp
qed

theorem broadPhase_sound_witness:
  "0 \<le> radius corner_player
   \<and> isCandidate grid_class (World_getBlock grid_class corner_world 1 1 0)
   \<and> pointInPlayerBoundingCylinder (closestPoint (1, 1, 0) corner_player) corner_player
   \<and> (1, 1, 0) \<in> set (broadPhase grid_class corner_player corner_world)
   \<and> (1, 1, 0) \<in> col_block `
         set (fst (narrowPhase (broadPhase grid_class corner_player corner_world) corner_player))"
proof -
  have r: "0 \<le> radius corner_player"
    by (simp add: corner_player_def new_Player_def)
  have c: "isCandidate grid_class (World_getBlock grid_class corner_world (of_int 1)
             (of_int 1) (of_int 0))"
    by (simp add: isCandidate_def World_getBlock_def worldToChunkCoords_def getChunk_def
        corner_world_def new_World_def stone_chunk_def grid_class_def Let_def)
  have p: "pointInPlayerBoundingCylinder (closestPoint (1, 1, 0) corner_player) corner_player"
    by (simp add: corner_player_def new_Player_def closestPoint_def
        pointInPlayerBoundingCylinder_def Let_def)
  from broadPhase_sound[OF r c p] r c p show ?thesis by simp
qed

text \<open>
  C4 (amended to what the code does). After \<open>narrowPhase\<close> the flag \<open>onGround\<close> is
  true exactly when it was true before or one of the candidates makes a vertical contact
  (\<open>overlapY < overlapXZ\<close>), whatever the sign of \<open>dy\<close>: a contact with a block above
  the centre of the cylinder (normal pointing down) sets the flag as a contact with a
  block below it does.
\<close>

theorem narrowPhase_onGround:
  "onGround (snd (narrowPhase candidates player))
     \<longleftrightarrow> onGround player \<or> (\<exists>b\<in>set candidates. verticalContact b player)"
proof (induction candidates arbitrary: player)
  case Nil
  then show ?case by simp
next
  case (Cons c candidates)
  show ?case
    by (simp add: Let_def Cons.IH verticalContact_def[of c])
qed

theorem narrowPhase_onGround_witness:
  "verticalContact (0, 0, 0) corner_player
   \<and> \<not> verticalContact (1, 1, 0) corner_player
   \<and> \<not> onGround corner_player
   \<and> onGround (snd (narrowPhase [(0, 0, 0)] corner_player))
   \<and> \<not> onGround (snd (narrowPhase [(1, 1, 0)] corner_player))"
proof -
  have v: "verticalContact (0, 0, 0) corner_player"
    by (simp add: verticalContact_def corner_player_def new_Player_def closestPoint_def
        pointInPlayerBoundingCylinder_def Let_def)
  have h: "\<not> verticalContact (1, 1, 0) corner_player"
    by (simp add: verticalContact_def corner_player_def new_Player_def closestPoint_def
        pointInPlayerBoundingCylinder_def Let_def sqrt_225_1024)
  have g: "\<not> onGround corner_player"
    by (simp add: corner_player_def new_Player_def)
  from narrowPhase_onGround[of "[(0, 0, 0)]" corner_player]
       narrowPhase_onGround[of "[(1, 1, 0)]" corner_player] v h g
  show ?thesis by simp
qed

text \<open>
  C4 does not hold as the specification states it: for a player whose head is inside
  the block above, the contact is vertical with \<open>dy = 27/32 > 0\<close>, the normal
  \<open>(0, -1, 0)\<close> points down, and \<open>narrowPhase\<close> sets \<open>onGround\<close>.
\<close>

theorem narrowPhase_ceiling_counterexample:
  "vy (closestPoint (0, 2, 0) ceiling_player)
     - (vy (position ceiling_player) - height ceiling_player / 2) = 27 / 32
   \<and> verticalContact (0, 2, 0) ceiling_player
   \<and> map normal (fst (narrowPhase [(0, 2, 0)] ceiling_player)) = [\<lparr>vx = 0, vy = - 1, vz = 0\<rparr>]
   \<and> \<not> onGround ceiling_player
   \<and> onGround (snd (narrowPhase [(0, 2, 0)] ceiling_player))"
  by (simp add: ceiling_player_def new_Player_def closestPoint_def verticalContact_def
      pointInPlayerBoundingCylinder_def Let_def)

lemma sort_insert_never_negative:
  "\<forall>y\<in>set ys. \<not> comparefn x y < 0 \<Longrightarrow> sort_insert comparefn x ys = ys @ [x]"
  by (induction ys) simp_all

text \<open>The \<open>sort\<close> call of \<open>resolveCollisions\<close> leaves every list as it is.\<close>

lemma Array_sort_overlap_comparefn: "Array_sort overlap_comparefn cs = cs"
proof -
  have ins: "sort_insert overlap_comparefn x ys = ys @ [x]" for x ys
    by (rule sort_insert_never_negative) (simp add: overlap_comparefn_def)
  have "foldl (\<lambda>sorted x. sort_insert overlap_comparefn x sorted) acc cs = acc @ cs" for acc
    by (induction cs arbitrary: acc) (simp_all add: ins)
  then show ?thesis by (simp add: Array_sort_def)
qed

text \<open>
  C5 does not hold on the code. For a player sunk an eighth into the floor and a
  thirty-second into a wall, the broad phase finds the floor block first, the narrow
  phase reports the overlaps \<open>1/8, 1/32\<close> in this order, and the list that \<open>resolveCollisions\<close> iterates
  after its \<open>sort\<close> call has the same order: the larger overlap comes first.
\<close>

theorem resolveCollisions_order_not_ascending:
  "broadPhase grid_class corner_player corner_world = [(0, 0, 0), (1, 1, 0)]
   \<and> map overlap (fst (narrowPhase (broadPhase grid_class corner_player corner_world)
                         corner_player)) = [1 / 8, 1 / 32]
   \<and> map overlap (Array_sort overlap_comparefn
                    (fst (narrowPhase (broadPhase grid_class corner_player corner_world)
                            corner_player))) = [1 / 8, 1 / 32]"
  by (simp only: corner_broadPhase corner_narrowPhase_overlaps Array_sort_overlap_comparefn)

subsection \<open>Collision resolution on doubles\<close>

text \<open>
  The correction of a vertical contact, for the height \<open>7/4\<close> of the player: \<open>c0\<close> is the
  height of the centre of the cylinder, \<open>py\<close> the height of the contact point on the
  block at height \<open>n\<close>, \<open>dy\<close> their difference and \<open>y'\<close> the height of the camera after
  the correction. For a camera height that is a double in \<open>[7/8, 2 ^ 49)\<close> none of the
  operations rounds, and the contact point ends on an end face of the cylinder.
\<close>

lemma vertical_correction_double:
  fixes y :: real and n :: int
  assumes yd: "is_double y" and y1: "7 / 8 \<le> y" and y2: "y < 2 ^ 49" and n: "\<bar>n\<bar> < 2 ^ 49"
      and c0: "c0 = fsub y (fdiv (7 / 4) 2)"
      and py: "py = max (fsub (of_int n) (1 / 2)) (min c0 (fadd (of_int n) (1 / 2)))"
      and dy: "dy = fsub py c0"
      and inside: "\<bar>dy\<bar> < fdiv (7 / 4) 2" and nz: "dy \<noteq> 0"
      and y': "y' = fadd y (fmul (- sgn dy) (fsub (fdiv (7 / 4) 2) \<bar>dy\<bar>))"
  shows "is_double y'" and "\<not> \<bar>fsub py (fsub y' (fdiv (7 / 4) 2))\<bar> < fdiv (7 / 4) 2"
proof -
  have y3: "y < 2 ^ 50" using y2 by simp
  note grid = to_double_eighths_grid[OF yd y1 y3]
  have "to_double (7 / 8) = 7 / 8" by (rule to_double_eighths(1)[where a = 7]) simp_all
  then have h: "fdiv (7 / 4) 2 = 7 / 8" by (simp add: fdiv_def)
  have c0e: "c0 = y - 7 / 8"
    unfolding c0 h fsub_def using y1 by (intro grid(1)[where a = "- 7" and b = 1]) simp_all
  have lo: "fsub (of_int n) (1 / 2) = of_int n - 1 / 2"
    unfolding fsub_def using n by (intro to_double_eighths(1)[where a = "8 * n - 4"]) simp_all
  have hi: "fadd (of_int n) (1 / 2) = of_int n + 1 / 2"
    unfolding fadd_def using n by (intro to_double_eighths(1)[where a = "8 * n + 4"]) simp_all
  have pye: "py = max (of_int n - 1 / 2) (min c0 (of_int n + 1 / 2))" unfolding py lo hi ..
  have inside': "\<bar>dy\<bar> < 7 / 8" using inside unfolding h .
  consider (mid) "of_int n - 1 / 2 \<le> c0" "c0 \<le> of_int n + 1 / 2"
    | (floor) "of_int n + 1 / 2 < c0" | (ceil) "c0 < of_int n - 1 / 2"
    by linarith
  then have "is_double y' \<and> \<not> \<bar>fsub py (fsub y' (7 / 8))\<bar> < 7 / 8"
  proof cases
    case mid
    then have "py = c0" unfolding pye by simp
    then have "dy = 0" unfolding dy fsub_def by simp
    then show ?thesis using nz by simp
  next
    case floor
    then have p: "py = of_int n + 1 / 2" unfolding pye by simp
    define v where "v = of_int n + 1 / 2 - c0"
    have v: "v = of_int (8 * n + 11) / 8 + of_int (- 1) * y" unfolding v_def c0e by simp
    have dv: "dy = to_double v" unfolding dy p fsub_def v_def ..
    have "to_double v = v \<or> y < \<bar>to_double v\<bar>" using v by (rule grid(2))
    then have dyv: "dy = v" using inside' y1 unfolding dv by linarith
    have neg: "dy < 0" unfolding dyv v_def using floor by simp
    define ov where "ov = 7 / 8 - \<bar>dy\<bar>"
    have ov: "ov = of_int (8 * n + 18) / 8 + of_int (- 1) * y"
      unfolding ov_def using neg unfolding dyv v_def c0e by simp
    have "\<bar>ov\<bar> \<le> y" unfolding ov_def using inside' y1 by linarith
    then have oe: "to_double ov = ov" using ov by (intro grid(1))
    have "y' = to_double (y + to_double (to_double ov))"
      unfolding y' h fadd_def fmul_def fsub_def ov_def using neg by simp
    also have "\<dots> = to_double (y + ov)" by (simp only: oe)
    also have "y + ov = of_int n + 9 / 4" unfolding ov by simp
    finally have ye: "y' = to_double (of_int n + 9 / 4)" .
    have d: "to_double (of_int n + 9 / 4) = of_int n + 9 / 4" "is_double (of_int n + 9 / 4 :: real)"
      using n by (intro to_double_eighths[where a = "8 * n + 18"]; simp)+
    have ye': "y' = of_int n + 9 / 4" using ye d(1) by simp
    have c': "fsub y' (7 / 8) = of_int n + 11 / 8"
    proof -
      have "of_int n + 9 / 4 - 7 / 8 = (of_int n + 11 / 8 :: real)" by simp
      then have "fsub y' (7 / 8) = to_double (of_int n + 11 / 8)" unfolding fsub_def ye' by (rule arg_cong)
      also have "\<dots> = of_int n + 11 / 8"
        using n by (intro to_double_eighths(1)[where a = "8 * n + 11"]) simp_all
      finally show ?thesis .
    qed
    have "fsub py (fsub y' (7 / 8)) = fsub py (of_int n + 11 / 8)" by (simp only: c')
    also have "\<dots> = to_double (- (7 / 8))" unfolding p fsub_def by simp
    also have "\<dots> = - (7 / 8)" by (rule to_double_eighths(1)[where a = "- 7"]) simp_all
    finally show ?thesis using d(2) ye' by simp
  next
    case ceil
    then have p: "py = of_int n - 1 / 2" unfolding pye by simp
    define v where "v = of_int n - 1 / 2 - c0"
    have v: "v = of_int (8 * n + 3) / 8 + of_int (- 1) * y" unfolding v_def c0e by simp
    have dv: "dy = to_double v" unfolding dy p fsub_def v_def ..
    have "to_double v = v \<or> y < \<bar>to_double v\<bar>" using v by (rule grid(2))
    then have dyv: "dy = v" using inside' y1 unfolding dv by linarith
    have pos: "0 < dy" unfolding dyv v_def using ceil by simp
    define ov where "ov = 7 / 8 - \<bar>dy\<bar>"
    have ov: "ov = of_int (4 - 8 * n) / 8 + of_int 1 * y"
      unfolding ov_def using pos unfolding dyv v_def c0e by simp
    have ob: "\<bar>ov\<bar> \<le> y" unfolding ov_def using inside' y1 by linarith
    then have oe: "to_double ov = ov" using ov by (intro grid(1))
    have mo: "- ov = of_int (8 * n - 4) / 8 + of_int (- 1) * y"
      unfolding ov by (simp add: diff_divide_distrib)
    have "\<bar>- ov\<bar> \<le> y" using ob by simp
    then have moe: "to_double (- ov) = - ov" using mo by (intro grid(1))
    have "y' = to_double (y + to_double (- to_double ov))"
      unfolding y' h fadd_def fmul_def fsub_def ov_def using pos by simp
    also have "\<dots> = to_double (y + - ov)" by (simp only: oe moe)
    also have "y + - ov = of_int n - 1 / 2" unfolding ov by (simp add: diff_divide_distrib)
    finally have ye: "y' = to_double (of_int n - 1 / 2)" .
    have d: "to_double (of_int n - 1 / 2) = of_int n - 1 / 2" "is_double (of_int n - 1 / 2 :: real)"
      using n by (intro to_double_eighths[where a = "8 * n - 4"]; simp)+
    have ye': "y' = of_int n - 1 / 2" using ye d(1) by simp
    have c': "fsub y' (7 / 8) = of_int n - 11 / 8"
    proof -
      have "fsub y' (7 / 8) = to_double (of_int n - 11 / 8)" unfolding fsub_def ye' by simp
      also have "\<dots> = of_int n - 11 / 8"
        using n by (intro to_double_eighths(1)[where a = "8 * n - 11"]) simp_all
      finally show ?thesis .
    qed
    have "fsub py (fsub y' (7 / 8)) = fsub py (of_int n - 11 / 8)" by (simp only: c')
    also have "\<dots> = to_double (7 / 8)" unfolding p fsub_def by simp
    also have "\<dots> = 7 / 8" by (rule to_double_eighths(1)[where a = 7]) simp_all
    finally show ?thesis using d(2) ye' by simp
  qed
  then show "is_double y'" and "\<not> \<bar>fsub py (fsub y' (fdiv (7 / 4) 2))\<bar> < fdiv (7 / 4) 2"
    unfolding h by simp_all
qed

lemma pointIn_double_onGround [simp]:
  "pointInPlayerBoundingCylinder_double p (player\<lparr>onGround := g\<rparr>)
     = pointInPlayerBoundingCylinder_double p player"
  by (simp add: pointInPlayerBoundingCylinder_double_def)

lemma closestPoint_double_onGround [simp]:
  "closestPoint_double b (player\<lparr>onGround := g\<rparr>) = closestPoint_double b player"
  by (simp add: closestPoint_double_def)

lemma narrowPhase_double_fst_onGround [simp]:
  "fst (narrowPhase_double candidates (player\<lparr>onGround := g\<rparr>))
     = fst (narrowPhase_double candidates player)"
proof (induction candidates arbitrary: player g)
  case Nil
  then show ?case by simp
next
  case (Cons b candidates)
  have "fst (narrowPhase_double candidates (player\<lparr>onGround := True\<rparr>))
          = fst (narrowPhase_double candidates player)"
    by (rule Cons.IH)
  moreover have "fst (narrowPhase_double candidates (player\<lparr>onGround := g\<rparr>))
          = fst (narrowPhase_double candidates player)"
    by (rule Cons.IH)
  ultimately show ?case
    by (simp add: Let_def)
qed

lemma narrowPhase_double_snd_geometry:
  "position (snd (narrowPhase_double candidates player)) = position player
   \<and> height (snd (narrowPhase_double candidates player)) = height player
   \<and> radius (snd (narrowPhase_double candidates player)) = radius player"
  by (induction candidates arbitrary: player) (simp_all add: Let_def)

lemma narrowPhase_double_member:
  "c \<in> set (fst (narrowPhase_double candidates player)) \<Longrightarrow>
   \<exists>b. fst (narrowPhase_double [b] player) = [c]"
proof (induction candidates arbitrary: player)
  case Nil
  then show ?case by simp
next
  case (Cons b candidates)
  show ?case
  proof (cases "pointInPlayerBoundingCylinder_double (closestPoint_double b player) player")
    case False
    with Cons.prems have "c \<in> set (fst (narrowPhase_double candidates player))"
      by (simp add: Let_def)
    then show ?thesis by (rule Cons.IH)
  next
    case True
    show ?thesis
    proof (cases "c \<in> set (fst (narrowPhase_double candidates player))")
      case True
      then show ?thesis by (rule Cons.IH)
    next
      case False
      with Cons.prems \<open>pointInPlayerBoundingCylinder_double (closestPoint_double b player) player\<close>
      have "fst (narrowPhase_double [b] player) = [c]"
        by (auto simp: Let_def split: if_splits)
      then show ?thesis ..
    qed
  qed
qed

lemma pointIn_double_geometry:
  assumes "position p = position q" and "height p = height q" and "radius p = radius q"
  shows "pointInPlayerBoundingCylinder_double P p = pointInPlayerBoundingCylinder_double P q"
  using assms by (simp add: pointInPlayerBoundingCylinder_double_def)

lemma resolveCollision_double_geometry:
  assumes "pointInPlayerBoundingCylinder_double (contactPoint c) player"
  shows "position (resolveCollision_double c player)
           = add_double (position player) (multiplyScalar_double (normal c) (overlap c))"
    and "height (resolveCollision_double c player) = height player"
  using assms by (simp_all add: resolveCollision_double_def Let_def applyWorldDeltaVelocity_def)

text \<open>
  A record with a horizontal normal leaves the height of the camera as it is, and a
  record whose contact point is at a height that is outside the cylinder is skipped.
\<close>

lemma resolveCollision_double_keeps_height:
  assumes c: "vy (normal c) = 0 \<or> vy (contactPoint c) = py"
      and out: "\<not> \<bar>fsub py (fsub (vy (position player)) (fdiv (height player) 2))\<bar>
                  < fdiv (height player) 2"
      and yd: "is_double (vy (position player))"
  shows "vy (position (resolveCollision_double c player)) = vy (position player)"
    and "height (resolveCollision_double c player) = height player"
proof -
  have "vy (position (resolveCollision_double c player)) = vy (position player)
      \<and> height (resolveCollision_double c player) = height player"
  proof (cases "pointInPlayerBoundingCylinder_double (contactPoint c) player")
    case False
    then show ?thesis by (simp add: resolveCollision_double_def)
  next
    case True
    then have "vy (contactPoint c) \<noteq> py"
      using out by (auto simp: pointInPlayerBoundingCylinder_double_def Let_def)
    then have "vy (normal c) = 0" using c by simp
    then show ?thesis
      using yd
      by (simp add: resolveCollision_double_def Let_def applyWorldDeltaVelocity_def
            add_double_def multiplyScalar_double_def fadd_def fmul_def is_double_to_double)
  qed
  then show "vy (position (resolveCollision_double c player)) = vy (position player)"
    and "height (resolveCollision_double c player) = height player"
    by simp_all
qed

lemma fold_resolveCollision_double_keeps_height:
  assumes "\<forall>c \<in> set cs. vy (normal c) = 0 \<or> vy (contactPoint c) = py"
      and "\<not> \<bar>fsub py (fsub (vy (position player)) (fdiv (height player) 2))\<bar>
             < fdiv (height player) 2"
      and "is_double (vy (position player))"
  shows "vy (position (fold resolveCollision_double cs player)) = vy (position player)
       \<and> height (fold resolveCollision_double cs player) = height player"
  using assms
proof (induction cs arbitrary: player)
  case Nil
  then show ?case by simp
next
  case (Cons c cs)
  have h: "vy (normal c) = 0 \<or> vy (contactPoint c) = py" using Cons.prems(1) by simp
  note r = resolveCollision_double_keeps_height[OF h Cons.prems(2,3)]
  have "vy (position (fold resolveCollision_double cs (resolveCollision_double c player)))
          = vy (position (resolveCollision_double c player))
      \<and> height (fold resolveCollision_double cs (resolveCollision_double c player))
          = height (resolveCollision_double c player)"
    using Cons.prems by (intro Cons.IH) (simp_all add: r)
  then show ?case by (simp add: r)
qed

lemma resolveCollision_double_size:
  "height (resolveCollision_double c player) = height player
   \<and> radius (resolveCollision_double c player) = radius player"
  by (simp add: resolveCollision_double_def Let_def applyWorldDeltaVelocity_def)

lemma resolveCollisions_double_size:
  "height (resolveCollisions_double cs player) = height player
   \<and> radius (resolveCollisions_double cs player) = radius player"
proof -
  have "height (fold resolveCollision_double xs p) = height p
      \<and> radius (fold resolveCollision_double xs p) = radius p" for xs p
    by (induction xs arbitrary: p) (simp_all add: resolveCollision_double_size)
  then show ?thesis by (simp add: resolveCollisions_double_def)
qed

text \<open>
  The roundings that occur in the narrow phase and the resolution for the players
  \<open>standing_player\<close>, \<open>squeezed_player\<close>, \<open>edge_player\<close> and \<open>inside_player\<close>.
\<close>

lemma c6_double_1: "to_double (7 / 8) = 7 / 8"
  by (subst to_double_eval[where n = 53]) (simp_all add: round_even_def)

lemma c6_double_2: "to_double (5 / 4) = 5 / 4"
  by (subst to_double_eval[where n = 52]) (simp_all add: round_even_def)

lemma c6_double_3: "to_double (- (1 / 2)) = - (1 / 2)"
  by (subst to_double_eval[where n = 53]) (simp_all add: round_even_def)

lemma c6_double_4: "to_double (1 / 2) = 1 / 2"
  by (subst to_double_eval[where n = 53]) (simp_all add: round_even_def)

lemma c6_double_5: "to_double (- (3 / 4)) = - (3 / 4)"
  by (subst to_double_eval[where n = 53]) (simp_all add: round_even_def)

lemma c6_double_6: "to_double (1 / 4) = 1 / 4"
  by (subst to_double_eval[where n = 54]) (simp_all add: round_even_def)

lemma c6_double_7: "to_double (1 / 8) = 1 / 8"
  by (subst to_double_eval[where n = 55]) (simp_all add: round_even_def)

lemma c6_double_8: "to_double (3 / 2) = 3 / 2"
  by (subst to_double_eval[where n = 52]) (simp_all add: round_even_def)

lemma c6_double_9: "to_double (1 / 16) = 1 / 16"
  by (subst to_double_eval[where n = 56]) (simp_all add: round_even_def)

lemma c6_double_10: "to_double (sqrt (1 / 16)) = 1 / 4"
proof -
  have e: "sqrt (1 / 16) = (1 / 4 :: real)"
    by (rule real_sqrt_unique) (simp_all add: power2_eq_square)
  show ?thesis unfolding e by (rule c6_double_6)
qed

lemma c6_double_11: "to_double (15 / 32) = 15 / 32"
  by (subst to_double_eval[where n = 54]) (simp_all add: round_even_def)

lemma c6_double_12: "to_double (225 / 1024) = 225 / 1024"
  by (subst to_double_eval[where n = 55]) (simp_all add: round_even_def)

lemma c6_double_13: "to_double (sqrt (225 / 1024)) = 15 / 32"
proof -
  have e: "sqrt (225 / 1024) = (15 / 32 :: real)"
    by (rule real_sqrt_unique) (simp_all add: power2_eq_square)
  show ?thesis unfolding e by (rule c6_double_11)
qed

lemma c6_double_14: "to_double (1 / 32) = 1 / 32"
  by (subst to_double_eval[where n = 57]) (simp_all add: round_even_def)

lemma c6_double_15: "to_double (32 / 15) = 4803839602528529 / 2251799813685248"
  by (subst to_double_eval[where n = 51]) (simp_all add: round_even_def)

lemma c6_double_16: "to_double (- (72057594037927935 / 72057594037927936)) = - 1"
  by (subst to_double_eval[where n = 53]) (simp_all add: round_even_def)

lemma c6_double_17: "to_double (9 / 4) = 9 / 4"
  by (subst to_double_eval[where n = 51]) (simp_all add: round_even_def)

lemma c6_double_18: "to_double (11 / 8) = 11 / 8"
  by (subst to_double_eval[where n = 52]) (simp_all add: round_even_def)

lemma c6_double_19: "to_double (- (7 / 8)) = - (7 / 8)"
  by (subst to_double_eval[where n = 53]) (simp_all add: round_even_def)

lemma c6_double_20: "to_double (- (1 / 8)) = - (1 / 8)"
  by (subst to_double_eval[where n = 55]) (simp_all add: round_even_def)

lemma c6_double_21: "to_double (- (1 / 32)) = - (1 / 32)"
  by (subst to_double_eval[where n = 57]) (simp_all add: round_even_def)

lemma c6_double_22: "to_double (1 / 1024) = 1 / 1024"
  by (subst to_double_eval[where n = 62]) (simp_all add: round_even_def)

lemma c6_double_23: "to_double (65 / 1024) = 65 / 1024"
  by (subst to_double_eval[where n = 56]) (simp_all add: round_even_def)

lemma c6_double_24: "to_double (17 / 16) = 17 / 16"
  by (subst to_double_eval[where n = 52]) (simp_all add: round_even_def)

lemma c6_double_25: "to_double (- (9 / 16)) = - (9 / 16)"
  by (subst to_double_eval[where n = 53]) (simp_all add: round_even_def)

lemma c6_double_26: "to_double (5 / 16) = 5 / 16"
  by (subst to_double_eval[where n = 54]) (simp_all add: round_even_def)

lemma c6_double_27: "to_double (5 / 2) = 5 / 2"
  by (subst to_double_eval[where n = 51]) (simp_all add: round_even_def)

lemma c6_double_28: "to_double (7 / 16) = 7 / 16"
  by (subst to_double_eval[where n = 54]) (simp_all add: round_even_def)

lemma c6_double_29: "to_double (- (7 / 16)) = - (7 / 16)"
  by (subst to_double_eval[where n = 54]) (simp_all add: round_even_def)

lemma c6_double_30: "to_double (29 / 16) = 29 / 16"
  by (subst to_double_eval[where n = 52]) (simp_all add: round_even_def)

lemma c6_double_31: "to_double (15 / 16) = 15 / 16"
  by (subst to_double_eval[where n = 53]) (simp_all add: round_even_def)

lemma c6_double_32: "to_double (9 / 16) = 9 / 16"
  by (subst to_double_eval[where n = 53]) (simp_all add: round_even_def)

lemma c6_double_33: "to_double (sqrt (1 / 8)) = 6369051672525773 / 18014398509481984"
  by (subst to_double_sqrt_eval[where m = 6369051672525773 and n = 54]) (simp_all add: power2_eq_square)

lemma c6_double_34: "to_double (2638147582215219 / 18014398509481984) = 2638147582215219 / 18014398509481984"
  by (subst to_double_eval[where n = 55]) (simp_all add: round_even_def)

lemma c6_double_35: "to_double (18014398509481984 / 6369051672525773) = 1592262918131443 / 562949953421312"
  by (subst to_double_eval[where n = 51]) (simp_all add: round_even_def)

lemma c6_double_36: "to_double (- (1592262918131443 / 2251799813685248)) = - (1592262918131443 / 2251799813685248)"
  by (subst to_double_eval[where n = 53]) (simp_all add: round_even_def)

lemma c6_double_37: "to_double (- (4200624567719415541598157031017 / 40564819207303340847894502572032)) = - (466363011288819 / 4503599627370496)"
  by (subst to_double_eval[where n = 56]) (simp_all add: round_even_def)

lemma c6_double_38: "to_double (659536895553805 / 4503599627370496) = 659536895553805 / 4503599627370496"
  by (subst to_double_eval[where n = 55]) (simp_all add: round_even_def)

lemma c6_double_39: "to_double (17 / 8) = 17 / 8"
  by (subst to_double_eval[where n = 51]) (simp_all add: round_even_def)

lemma c6_double_40: "to_double (1592262918131443 / 4503599627370496) = 1592262918131443 / 4503599627370496"
  by (subst to_double_eval[where n = 54]) (simp_all add: round_even_def)

lemma c6_double_41: "to_double (2535301200456458353478625262249 / 20282409603651670423947251286016) = 4503599627370495 / 36028797018963968"
  by (subst to_double_eval[where n = 56]) (simp_all add: round_even_def)

lemma c6_double_42: "to_double (4503599627370495 / 18014398509481984) = 4503599627370495 / 18014398509481984"
  by (subst to_double_eval[where n = 55]) (simp_all add: round_even_def)

lemma c6_double_43: "to_double (1) = 1"
  by (subst to_double_eval[where n = 52]) (simp_all add: round_even_def)

lemmas c6_double_evals = c6_double_1 c6_double_2 c6_double_3 c6_double_4 c6_double_5
  c6_double_6 c6_double_7 c6_double_8 c6_double_9 c6_double_10 c6_double_11 c6_double_12
  c6_double_13 c6_double_14 c6_double_15 c6_double_16 c6_double_17 c6_double_18
  c6_double_19 c6_double_20 c6_double_21 c6_double_22 c6_double_23 c6_double_24
  c6_double_25 c6_double_26 c6_double_27 c6_double_28 c6_double_29 c6_double_30
  c6_double_31 c6_double_32 c6_double_33 c6_double_34 c6_double_35 c6_double_36
  c6_double_37 c6_double_38 c6_double_39 c6_double_40 c6_double_41 c6_double_42
  c6_double_43

lemma standing_narrowPhase_double:
  "narrowPhase_double [(0, 0, 0), (0, 0, 1), (1, 1, 0)] standing_player =
     ([\<lparr>col_block = (0, 0, 0), contactPoint = \<lparr>vx = 1 / 32, vy = 1 / 2, vz = 1 / 4\<rparr>,
       normal = \<lparr>vx = 0, vy = 1, vz = 0\<rparr>,
       overlap = 1 / 8\<rparr>,
      \<lparr>col_block = (0, 0, 1), contactPoint = \<lparr>vx = 1 / 32, vy = 1 / 2, vz = 1 / 2\<rparr>,
       normal = \<lparr>vx = 0, vy = 1, vz = 0\<rparr>,
       overlap = 1 / 8\<rparr>,
      \<lparr>col_block = (1, 1, 0), contactPoint = \<lparr>vx = 1 / 2, vy = 5 / 4, vz = 1 / 4\<rparr>,
       normal = \<lparr>vx = - 1, vy = 0, vz = 0\<rparr>,
       overlap = 1 / 32\<rparr>],
      standing_player\<lparr>onGround := True\<rparr>)"
  by (simp add: standing_player_def new_Player_def
      closestPoint_double_def pointInPlayerBoundingCylinder_double_def Let_def
      normalize_double_def multiplyScalar_double_def add_double_def
      fadd_def fsub_def fmul_def fdiv_def fsqrt_def c6_double_evals)

lemma standing_resolveCollisions_double:
  "position (resolveCollisions_double
     [\<lparr>col_block = (0, 0, 0), contactPoint = \<lparr>vx = 1 / 32, vy = 1 / 2, vz = 1 / 4\<rparr>,
       normal = \<lparr>vx = 0, vy = 1, vz = 0\<rparr>,
       overlap = 1 / 8\<rparr>,
      \<lparr>col_block = (0, 0, 1), contactPoint = \<lparr>vx = 1 / 32, vy = 1 / 2, vz = 1 / 2\<rparr>,
       normal = \<lparr>vx = 0, vy = 1, vz = 0\<rparr>,
       overlap = 1 / 8\<rparr>,
      \<lparr>col_block = (1, 1, 0), contactPoint = \<lparr>vx = 1 / 2, vy = 5 / 4, vz = 1 / 4\<rparr>,
       normal = \<lparr>vx = - 1, vy = 0, vz = 0\<rparr>,
       overlap = 1 / 32\<rparr>]
     (standing_player\<lparr>onGround := True\<rparr>)) = \<lparr>vx = 0, vy = 9 / 4, vz = 1 / 4\<rparr>"
  unfolding resolveCollisions_double_def Array_sort_overlap_comparefn
  by (simp add: standing_player_def new_Player_def
      resolveCollision_double_def multiplyScalar_def dot_def negate_def
      worldVelocity_def applyWorldDeltaVelocity_def applyEulerY_def
      closestPoint_double_def pointInPlayerBoundingCylinder_double_def Let_def
      normalize_double_def multiplyScalar_double_def add_double_def
      fadd_def fsub_def fmul_def fdiv_def fsqrt_def c6_double_evals)

lemma squeezed_narrowPhase_double:
  "narrowPhase_double [(0, 0, 0), (0, 2, 0)] squeezed_player =
     ([\<lparr>col_block = (0, 0, 0), contactPoint = \<lparr>vx = 0, vy = 1 / 2, vz = 0\<rparr>,
       normal = \<lparr>vx = 0, vy = 1, vz = 0\<rparr>,
       overlap = 5 / 16\<rparr>,
      \<lparr>col_block = (0, 2, 0), contactPoint = \<lparr>vx = 0, vy = 3 / 2, vz = 0\<rparr>,
       normal = \<lparr>vx = 0, vy = - 1, vz = 0\<rparr>,
       overlap = 7 / 16\<rparr>],
      squeezed_player\<lparr>onGround := True\<rparr>)"
  by (simp add: squeezed_player_def new_Player_def
      closestPoint_double_def pointInPlayerBoundingCylinder_double_def Let_def
      normalize_double_def multiplyScalar_double_def add_double_def
      fadd_def fsub_def fmul_def fdiv_def fsqrt_def c6_double_evals)

lemma squeezed_resolveCollisions_double:
  "position (resolveCollisions_double
     [\<lparr>col_block = (0, 0, 0), contactPoint = \<lparr>vx = 0, vy = 1 / 2, vz = 0\<rparr>,
       normal = \<lparr>vx = 0, vy = 1, vz = 0\<rparr>,
       overlap = 5 / 16\<rparr>,
      \<lparr>col_block = (0, 2, 0), contactPoint = \<lparr>vx = 0, vy = 3 / 2, vz = 0\<rparr>,
       normal = \<lparr>vx = 0, vy = - 1, vz = 0\<rparr>,
       overlap = 7 / 16\<rparr>]
     (squeezed_player\<lparr>onGround := True\<rparr>)) = \<lparr>vx = 0, vy = 29 / 16, vz = 0\<rparr>"
  unfolding resolveCollisions_double_def Array_sort_overlap_comparefn
  by (simp add: squeezed_player_def new_Player_def
      resolveCollision_double_def multiplyScalar_def dot_def negate_def
      worldVelocity_def applyWorldDeltaVelocity_def applyEulerY_def
      closestPoint_double_def pointInPlayerBoundingCylinder_double_def Let_def
      normalize_double_def multiplyScalar_double_def add_double_def
      fadd_def fsub_def fmul_def fdiv_def fsqrt_def c6_double_evals)

lemma edge_narrowPhase_double:
  "narrowPhase_double [(1, 1, 1)] edge_player =
     ([\<lparr>col_block = (1, 1, 1), contactPoint = \<lparr>vx = 1 / 2, vy = 5 / 4, vz = 1 / 2\<rparr>,
       normal = \<lparr>vx = - (1592262918131443 / 2251799813685248), vy = 0, vz = - (1592262918131443 / 2251799813685248)\<rparr>,
       overlap = 2638147582215219 / 18014398509481984\<rparr>],
      edge_player)"
  by (simp add: edge_player_def new_Player_def
      closestPoint_double_def pointInPlayerBoundingCylinder_double_def Let_def
      normalize_double_def multiplyScalar_double_def add_double_def
      fadd_def fsub_def fmul_def fdiv_def fsqrt_def c6_double_evals)

lemma edge_resolveCollisions_double:
  "position (resolveCollisions_double
     [\<lparr>col_block = (1, 1, 1), contactPoint = \<lparr>vx = 1 / 2, vy = 5 / 4, vz = 1 / 2\<rparr>,
       normal = \<lparr>vx = - (1592262918131443 / 2251799813685248), vy = 0, vz = - (1592262918131443 / 2251799813685248)\<rparr>,
       overlap = 2638147582215219 / 18014398509481984\<rparr>]
     (edge_player)) = \<lparr>vx = 659536895553805 / 4503599627370496, vy = 17 / 8, vz = 659536895553805 / 4503599627370496\<rparr>"
  unfolding resolveCollisions_double_def Array_sort_overlap_comparefn
  by (simp add: edge_player_def new_Player_def
      resolveCollision_double_def multiplyScalar_def dot_def negate_def
      worldVelocity_def applyWorldDeltaVelocity_def applyEulerY_def
      closestPoint_double_def pointInPlayerBoundingCylinder_double_def Let_def
      normalize_double_def multiplyScalar_double_def add_double_def
      fadd_def fsub_def fmul_def fdiv_def fsqrt_def c6_double_evals)

lemma inside_narrowPhase_double:
  "narrowPhase_double [(0, 1, 0)] inside_player =
     ([\<lparr>col_block = (0, 1, 0), contactPoint = \<lparr>vx = 0, vy = 11 / 8, vz = 0\<rparr>,
       normal = \<lparr>vx = 0, vy = 0, vz = 0\<rparr>,
       overlap = 1 / 2\<rparr>],
      inside_player)"
  by (simp add: inside_player_def new_Player_def
      closestPoint_double_def pointInPlayerBoundingCylinder_double_def Let_def
      normalize_double_def multiplyScalar_double_def add_double_def
      fadd_def fsub_def fmul_def fdiv_def fsqrt_def c6_double_evals)

lemma inside_resolveCollisions_double:
  "position (resolveCollisions_double
     [\<lparr>col_block = (0, 1, 0), contactPoint = \<lparr>vx = 0, vy = 11 / 8, vz = 0\<rparr>,
       normal = \<lparr>vx = 0, vy = 0, vz = 0\<rparr>,
       overlap = 1 / 2\<rparr>]
     (inside_player)) = \<lparr>vx = 0, vy = 9 / 4, vz = 0\<rparr>"
  unfolding resolveCollisions_double_def Array_sort_overlap_comparefn
  by (simp add: inside_player_def new_Player_def
      resolveCollision_double_def multiplyScalar_def dot_def negate_def
      worldVelocity_def applyWorldDeltaVelocity_def applyEulerY_def
      closestPoint_double_def pointInPlayerBoundingCylinder_double_def Let_def
      normalize_double_def multiplyScalar_double_def add_double_def
      fadd_def fsub_def fmul_def fdiv_def fsqrt_def c6_double_evals)

text \<open>
  C6 (amended to what the code does). Let \<open>narrowPhase\<close> have reported the list for
  the player, let the record that \<open>resolveCollisions\<close> processes first be a vertical
  contact, with the normal \<open>(0, 1, 0)\<close> or \<open>(0, -1, 0)\<close>, and let every later record
  be a horizontal contact or have its contact point at the height of the first one, as
  the other blocks of a level floor have. Then after the whole pass
  \<open>pointInPlayerBoundingCylinder\<close> is false at the contact point of the first record.
  This is for the height \<open>1.75\<close> of the source's player, a camera height that is a
  double in \<open>[7/8, 2 ^ 49)\<close>, which puts the centre of the cylinder at 0 or above, and
  a block below height \<open>2 ^ 49\<close>. The first record is the head of the list, which the
  \<open>sort\<close> call leaves in the order of \<open>narrowPhase\<close>.
\<close>

theorem resolveCollisions_double_vertical_first:
  assumes np: "narrowPhase_double candidates player = (collisions, player')"
      and first: "Array_sort overlap_comparefn collisions = c # cs"
      and vertical: "vy (normal c) \<noteq> 0"
      and later: "\<forall>c' \<in> set cs. vy (normal c') = 0 \<or> vy (contactPoint c') = vy (contactPoint c)"
      and height: "height player = 7 / 4"
      and yd: "is_double (vy (position player))"
      and y1: "7 / 8 \<le> vy (position player)" and y2: "vy (position player) < 2 ^ 49"
      and blk: "\<bar>fst (snd (col_block c))\<bar> < 2 ^ 49"
  shows "\<not> pointInPlayerBoundingCylinder_double (contactPoint c)
           (resolveCollisions_double collisions player')"
proof -
  have cs: "collisions = c # cs" using first by (simp add: Array_sort_overlap_comparefn)
  have geo: "position player' = position player" "height player' = height player"
    "radius player' = radius player"
    using narrowPhase_double_snd_geometry[of candidates player] np by simp_all
  have "c \<in> set (fst (narrowPhase_double candidates player))" using np cs by simp
  then obtain b where single: "fst (narrowPhase_double [b] player) = [c]"
    using narrowPhase_double_member by blast
  obtain bx n bz where b: "b = (bx, n, bz)" by (cases b) auto
  define y where "y = vy (position player)"
  define c0 where "c0 = fsub y (fdiv (7 / 4) 2)"
  define py where "py = max (fsub (of_int n) (1 / 2)) (min c0 (fadd (of_int n) (1 / 2)))"
  define dy where "dy = fsub py c0"
  define y' where "y' = fadd y (fmul (- sgn dy) (fsub (fdiv (7 / 4) 2) \<bar>dy\<bar>))"
  have pyP: "vy (closestPoint_double b player) = py"
    by (simp add: closestPoint_double_def b py_def c0_def y_def height)
  have inP: "pointInPlayerBoundingCylinder_double (closestPoint_double b player) player"
    using single by (auto simp: Let_def split: if_splits)
  then have inside: "\<bar>dy\<bar> < fdiv (7 / 4) 2"
    by (simp add: pointInPlayerBoundingCylinder_double_def Let_def pyP dy_def c0_def y_def height)
  have horizontal_normal: "vy (normalize_double \<lparr>vx = a, vy = 0, vz = d\<rparr>) = 0" for a d
    by (simp add: normalize_double_def multiplyScalar_double_def fmul_def Let_def)
  have rec: "col_block c = b \<and> contactPoint c = closestPoint_double b player
      \<and> normal c = \<lparr>vx = 0, vy = - sgn dy, vz = 0\<rparr>
      \<and> overlap c = fsub (fdiv (7 / 4) 2) \<bar>dy\<bar>"
    using single inP vertical
    by (auto simp: Let_def pyP dy_def c0_def y_def height horizontal_normal split: if_splits)
  then have nz: "dy \<noteq> 0" using vertical by (auto simp: sgn_if)
  have n: "\<bar>n\<bar> < 2 ^ 49" using blk rec b by simp
  have yd': "is_double y" and y1': "7 / 8 \<le> y" and y2': "y < 2 ^ 49"
    using yd y1 y2 by (simp_all add: y_def)
  note vc = vertical_correction_double[OF yd' y1' y2' n c0_def py_def dy_def inside nz y'_def]
  define p1 where "p1 = resolveCollision_double c player'"
  have inP': "pointInPlayerBoundingCylinder_double (contactPoint c) player'"
    using inP rec pointIn_double_geometry[OF geo] by simp
  have p1y: "vy (position p1) = y'"
    unfolding p1_def resolveCollision_double_geometry(1)[OF inP']
    by (simp add: add_double_def multiplyScalar_double_def rec geo y'_def y_def)
  have p1h: "height p1 = 7 / 4"
    unfolding p1_def resolveCollision_double_geometry(2)[OF inP'] by (simp add: geo height)
  have p1d: "is_double (vy (position p1))" using vc(1) p1y by simp
  have p1o: "\<not> \<bar>fsub (vy (contactPoint c)) (fsub (vy (position p1)) (fdiv (height p1) 2))\<bar>
               < fdiv (height p1) 2"
    using vc(2) by (simp add: p1y p1h rec pyP)
  from fold_resolveCollision_double_keeps_height[OF later p1o p1d]
  have fin: "vy (position (fold resolveCollision_double cs p1)) = y'"
    "height (fold resolveCollision_double cs p1) = 7 / 4"
    by (simp_all add: p1y p1h)
  have res: "resolveCollisions_double collisions player' = fold resolveCollision_double cs p1"
    by (simp add: resolveCollisions_double_def first p1_def)
  show ?thesis
    unfolding res using vc(2)
    by (simp add: pointInPlayerBoundingCylinder_double_def Let_def fin rec pyP)
qed

theorem resolveCollisions_double_vertical_first_witness:
  "narrowPhase_double [(0, 0, 0), (0, 0, 1), (1, 1, 0)] standing_player =
     ([\<lparr>col_block = (0, 0, 0), contactPoint = \<lparr>vx = 1 / 32, vy = 1 / 2, vz = 1 / 4\<rparr>,
       normal = \<lparr>vx = 0, vy = 1, vz = 0\<rparr>,
       overlap = 1 / 8\<rparr>,
      \<lparr>col_block = (0, 0, 1), contactPoint = \<lparr>vx = 1 / 32, vy = 1 / 2, vz = 1 / 2\<rparr>,
       normal = \<lparr>vx = 0, vy = 1, vz = 0\<rparr>,
       overlap = 1 / 8\<rparr>,
      \<lparr>col_block = (1, 1, 0), contactPoint = \<lparr>vx = 1 / 2, vy = 5 / 4, vz = 1 / 4\<rparr>,
       normal = \<lparr>vx = - 1, vy = 0, vz = 0\<rparr>,
       overlap = 1 / 32\<rparr>],
      standing_player\<lparr>onGround := True\<rparr>)
   \<and> height standing_player = 7 / 4
   \<and> is_double (vy (position standing_player))
   \<and> 7 / 8 \<le> vy (position standing_player) \<and> vy (position standing_player) < 2 ^ 49
   \<and> \<not> pointInPlayerBoundingCylinder_double \<lparr>vx = 1 / 32, vy = 1 / 2, vz = 1 / 4\<rparr>
         (resolveCollisions_double
            [\<lparr>col_block = (0, 0, 0), contactPoint = \<lparr>vx = 1 / 32, vy = 1 / 2, vz = 1 / 4\<rparr>,
             normal = \<lparr>vx = 0, vy = 1, vz = 0\<rparr>,
             overlap = 1 / 8\<rparr>,
            \<lparr>col_block = (0, 0, 1), contactPoint = \<lparr>vx = 1 / 32, vy = 1 / 2, vz = 1 / 2\<rparr>,
             normal = \<lparr>vx = 0, vy = 1, vz = 0\<rparr>,
             overlap = 1 / 8\<rparr>,
            \<lparr>col_block = (1, 1, 0), contactPoint = \<lparr>vx = 1 / 2, vy = 5 / 4, vz = 1 / 4\<rparr>,
             normal = \<lparr>vx = - 1, vy = 0, vz = 0\<rparr>,
             overlap = 1 / 32\<rparr>]
            (standing_player\<lparr>onGround := True\<rparr>))"
proof -
  have a: "Array_sort overlap_comparefn
             [\<lparr>col_block = (0, 0, 0), contactPoint = \<lparr>vx = 1 / 32, vy = 1 / 2, vz = 1 / 4\<rparr>,
              normal = \<lparr>vx = 0, vy = 1, vz = 0\<rparr>,
              overlap = 1 / 8\<rparr>,
             \<lparr>col_block = (0, 0, 1), contactPoint = \<lparr>vx = 1 / 32, vy = 1 / 2, vz = 1 / 2\<rparr>,
              normal = \<lparr>vx = 0, vy = 1, vz = 0\<rparr>,
              overlap = 1 / 8\<rparr>,
             \<lparr>col_block = (1, 1, 0), contactPoint = \<lparr>vx = 1 / 2, vy = 5 / 4, vz = 1 / 4\<rparr>,
              normal = \<lparr>vx = - 1, vy = 0, vz = 0\<rparr>,
              overlap = 1 / 32\<rparr>]
           = \<lparr>col_block = (0, 0, 0), contactPoint = \<lparr>vx = 1 / 32, vy = 1 / 2, vz = 1 / 4\<rparr>,
            normal = \<lparr>vx = 0, vy = 1, vz = 0\<rparr>,
            overlap = 1 / 8\<rparr>
             # [\<lparr>col_block = (0, 0, 1), contactPoint = \<lparr>vx = 1 / 32, vy = 1 / 2, vz = 1 / 2\<rparr>,
              normal = \<lparr>vx = 0, vy = 1, vz = 0\<rparr>,
              overlap = 1 / 8\<rparr>,
             \<lparr>col_block = (1, 1, 0), contactPoint = \<lparr>vx = 1 / 2, vy = 5 / 4, vz = 1 / 4\<rparr>,
              normal = \<lparr>vx = - 1, vy = 0, vz = 0\<rparr>,
              overlap = 1 / 32\<rparr>]"
    by (rule Array_sort_overlap_comparefn)
  have b: "vy (normal \<lparr>col_block = (0, 0, 0), contactPoint = \<lparr>vx = 1 / 32, vy = 1 / 2, vz = 1 / 4\<rparr>,
            normal = \<lparr>vx = 0, vy = 1, vz = 0\<rparr>,
            overlap = 1 / 8\<rparr>) \<noteq> 0"
    by simp
  have c: "\<forall>c' \<in> set [\<lparr>col_block = (0, 0, 1), contactPoint = \<lparr>vx = 1 / 32, vy = 1 / 2, vz = 1 / 2\<rparr>,
              normal = \<lparr>vx = 0, vy = 1, vz = 0\<rparr>,
              overlap = 1 / 8\<rparr>,
             \<lparr>col_block = (1, 1, 0), contactPoint = \<lparr>vx = 1 / 2, vy = 5 / 4, vz = 1 / 4\<rparr>,
              normal = \<lparr>vx = - 1, vy = 0, vz = 0\<rparr>,
              overlap = 1 / 32\<rparr>].
             vy (normal c') = 0
             \<or> vy (contactPoint c')
                 = vy (contactPoint \<lparr>col_block = (0, 0, 0), contactPoint = \<lparr>vx = 1 / 32, vy = 1 / 2, vz = 1 / 4\<rparr>,
            normal = \<lparr>vx = 0, vy = 1, vz = 0\<rparr>,
            overlap = 1 / 8\<rparr>)"
    by simp
  have d: "height standing_player = 7 / 4" by (simp add: standing_player_def new_Player_def)
  have y: "vy (position standing_player) = 17 / 8"
    by (simp add: standing_player_def new_Player_def)
  have e: "is_double (vy (position standing_player))"
    unfolding y by (rule to_double_eighths(2)[where a = 17]) simp_all
  have f: "7 / 8 \<le> vy (position standing_player)" "vy (position standing_player) < 2 ^ 49"
    unfolding y by simp_all
  have g: "\<bar>fst (snd (col_block \<lparr>col_block = (0, 0, 0), contactPoint = \<lparr>vx = 1 / 32, vy = 1 / 2, vz = 1 / 4\<rparr>,
            normal = \<lparr>vx = 0, vy = 1, vz = 0\<rparr>,
            overlap = 1 / 8\<rparr>))\<bar> < 2 ^ 49"
    by simp
  have t: "\<not> pointInPlayerBoundingCylinder_double \<lparr>vx = 1 / 32, vy = 1 / 2, vz = 1 / 4\<rparr>
         (resolveCollisions_double
            [\<lparr>col_block = (0, 0, 0), contactPoint = \<lparr>vx = 1 / 32, vy = 1 / 2, vz = 1 / 4\<rparr>,
             normal = \<lparr>vx = 0, vy = 1, vz = 0\<rparr>,
             overlap = 1 / 8\<rparr>,
            \<lparr>col_block = (0, 0, 1), contactPoint = \<lparr>vx = 1 / 32, vy = 1 / 2, vz = 1 / 2\<rparr>,
             normal = \<lparr>vx = 0, vy = 1, vz = 0\<rparr>,
             overlap = 1 / 8\<rparr>,
            \<lparr>col_block = (1, 1, 0), contactPoint = \<lparr>vx = 1 / 2, vy = 5 / 4, vz = 1 / 4\<rparr>,
             normal = \<lparr>vx = - 1, vy = 0, vz = 0\<rparr>,
             overlap = 1 / 32\<rparr>]
            (standing_player\<lparr>onGround := True\<rparr>))"
    using resolveCollisions_double_vertical_first[OF standing_narrowPhase_double a b c d e f g]
    by simp
  show ?thesis
    using standing_narrowPhase_double d e f t by (intro conjI)
qed

text \<open>
  C6 does not hold on the code for every run. Between a floor block and a ceiling
  block one cell apart the contact with the floor has the smaller overlap, \<open>5/16\<close>
  against \<open>7/16\<close>, and is processed first; the correction for the ceiling, computed
  before the pass, pushes it back inside. For a player at a vertical edge of a block
  the only record is horizontal; its correction is rounded and leaves the contact point
  inside the cylinder, at the squared distance \<open>0.24999999999999994\<close> from the axis. For
  a contact point on the axis of the cylinder the normal is the zero vector and the
  player is not moved.
\<close>

theorem resolveCollisions_double_smallest_counterexample:
  "narrowPhase_double [(0, 0, 0), (0, 2, 0)] squeezed_player =
     ([\<lparr>col_block = (0, 0, 0), contactPoint = \<lparr>vx = 0, vy = 1 / 2, vz = 0\<rparr>,
           normal = \<lparr>vx = 0, vy = 1, vz = 0\<rparr>,
           overlap = 5 / 16\<rparr>,
          \<lparr>col_block = (0, 2, 0), contactPoint = \<lparr>vx = 0, vy = 3 / 2, vz = 0\<rparr>,
           normal = \<lparr>vx = 0, vy = - 1, vz = 0\<rparr>,
           overlap = 7 / 16\<rparr>],
      squeezed_player\<lparr>onGround := True\<rparr>)
   \<and> pointInPlayerBoundingCylinder_double \<lparr>vx = 0, vy = 1 / 2, vz = 0\<rparr>
       (resolveCollisions_double
          [\<lparr>col_block = (0, 0, 0), contactPoint = \<lparr>vx = 0, vy = 1 / 2, vz = 0\<rparr>,
           normal = \<lparr>vx = 0, vy = 1, vz = 0\<rparr>,
           overlap = 5 / 16\<rparr>,
          \<lparr>col_block = (0, 2, 0), contactPoint = \<lparr>vx = 0, vy = 3 / 2, vz = 0\<rparr>,
           normal = \<lparr>vx = 0, vy = - 1, vz = 0\<rparr>,
           overlap = 7 / 16\<rparr>]
          (squeezed_player\<lparr>onGround := True\<rparr>))
   \<and> narrowPhase_double [(1, 1, 1)] edge_player =
     ([\<lparr>col_block = (1, 1, 1), contactPoint = \<lparr>vx = 1 / 2, vy = 5 / 4, vz = 1 / 2\<rparr>,
           normal = \<lparr>vx = - (1592262918131443 / 2251799813685248), vy = 0, vz = - (1592262918131443 / 2251799813685248)\<rparr>,
           overlap = 2638147582215219 / 18014398509481984\<rparr>],
      edge_player)
   \<and> pointInPlayerBoundingCylinder_double \<lparr>vx = 1 / 2, vy = 5 / 4, vz = 1 / 2\<rparr>
       (resolveCollisions_double
          [\<lparr>col_block = (1, 1, 1), contactPoint = \<lparr>vx = 1 / 2, vy = 5 / 4, vz = 1 / 2\<rparr>,
           normal = \<lparr>vx = - (1592262918131443 / 2251799813685248), vy = 0, vz = - (1592262918131443 / 2251799813685248)\<rparr>,
           overlap = 2638147582215219 / 18014398509481984\<rparr>]
          edge_player)
   \<and> narrowPhase_double [(0, 1, 0)] inside_player =
     ([\<lparr>col_block = (0, 1, 0), contactPoint = \<lparr>vx = 0, vy = 11 / 8, vz = 0\<rparr>,
           normal = \<lparr>vx = 0, vy = 0, vz = 0\<rparr>,
           overlap = 1 / 2\<rparr>],
      inside_player)
   \<and> pointInPlayerBoundingCylinder_double \<lparr>vx = 0, vy = 11 / 8, vz = 0\<rparr>
       (resolveCollisions_double
          [\<lparr>col_block = (0, 1, 0), contactPoint = \<lparr>vx = 0, vy = 11 / 8, vz = 0\<rparr>,
           normal = \<lparr>vx = 0, vy = 0, vz = 0\<rparr>,
           overlap = 1 / 2\<rparr>]
          inside_player)"
proof -
  have s: "pointInPlayerBoundingCylinder_double \<lparr>vx = 0, vy = 1 / 2, vz = 0\<rparr>
       (resolveCollisions_double
          [\<lparr>col_block = (0, 0, 0), contactPoint = \<lparr>vx = 0, vy = 1 / 2, vz = 0\<rparr>,
           normal = \<lparr>vx = 0, vy = 1, vz = 0\<rparr>,
           overlap = 5 / 16\<rparr>,
          \<lparr>col_block = (0, 2, 0), contactPoint = \<lparr>vx = 0, vy = 3 / 2, vz = 0\<rparr>,
           normal = \<lparr>vx = 0, vy = - 1, vz = 0\<rparr>,
           overlap = 7 / 16\<rparr>]
          (squeezed_player\<lparr>onGround := True\<rparr>))"
    unfolding pointInPlayerBoundingCylinder_double_def Let_def
    by (simp only: squeezed_resolveCollisions_double resolveCollisions_double_size)
       (simp add: squeezed_player_def new_Player_def fadd_def fsub_def fmul_def fdiv_def
          c6_double_evals)
  have e: "pointInPlayerBoundingCylinder_double \<lparr>vx = 1 / 2, vy = 5 / 4, vz = 1 / 2\<rparr>
       (resolveCollisions_double
          [\<lparr>col_block = (1, 1, 1), contactPoint = \<lparr>vx = 1 / 2, vy = 5 / 4, vz = 1 / 2\<rparr>,
           normal = \<lparr>vx = - (1592262918131443 / 2251799813685248), vy = 0, vz = - (1592262918131443 / 2251799813685248)\<rparr>,
           overlap = 2638147582215219 / 18014398509481984\<rparr>]
          edge_player)"
    unfolding pointInPlayerBoundingCylinder_double_def Let_def
    by (simp only: edge_resolveCollisions_double resolveCollisions_double_size)
       (simp add: edge_player_def new_Player_def fadd_def fsub_def fmul_def fdiv_def
          c6_double_evals)
  have i: "pointInPlayerBoundingCylinder_double \<lparr>vx = 0, vy = 11 / 8, vz = 0\<rparr>
       (resolveCollisions_double
          [\<lparr>col_block = (0, 1, 0), contactPoint = \<lparr>vx = 0, vy = 11 / 8, vz = 0\<rparr>,
           normal = \<lparr>vx = 0, vy = 0, vz = 0\<rparr>,
           overlap = 1 / 2\<rparr>]
          inside_player)"
    unfolding pointInPlayerBoundingCylinder_double_def Let_def
    by (simp only: inside_resolveCollisions_double resolveCollisions_double_size)
       (simp add: inside_player_def new_Player_def fadd_def fsub_def fmul_def fdiv_def
          c6_double_evals)
  show ?thesis
    using squeezed_narrowPhase_double s edge_narrowPhase_double e inside_narrowPhase_double i
    by (intro conjI)
qed

end
